theory Spec2Isabelle
  imports Main "HOL-Library.Word"
begin

unbundle bit_operations_syntax

section \<open>The USB command parser of the Mooltipass firmware\<close>

text \<open>
  This theory embeds \<^verbatim>\<open>src/USB/usb_cmd_parser.c\<close>: the password comparison
  \<^verbatim>\<open>checkMooltipassPassword\<close>, the text field check \<^verbatim>\<open>checkTextField\<close> and the
  dispatcher \<^verbatim>\<open>usbProcessIncoming\<close> with every case of its switch.

  The file's five global variables are the fields of the record \<open>mp_state\<close>. Every
  function the file calls in another translation unit (USB transport, GUI, smartcard,
  node management, flash, EEPROM, timers, watchdog) is an \<^emph>\<open>external call\<close>: the call is
  appended, with its arguments, to the \<open>trace\<close> of the state, and what it returns is
  read from an environment that may depend on all the calls made before.
\<close>

subsection \<open>Machine types\<close>

type_synonym u8 = "8 word"
type_synonym u16 = "16 word"

text \<open>A 16 bit value read through a \<^verbatim>\<open>uint16_t*\<close> at an offset of a byte buffer and
  the two bytes of a 16 bit value; the AVR is little endian.\<close>

definition u16_at :: "u8 list \<Rightarrow> nat \<Rightarrow> u16" where
  "u16_at xs i = ucast (xs ! i) OR push_bit 8 (ucast (xs ! Suc i))"

definition u16_bytes :: "u16 \<Rightarrow> u8 list" where
  "u16_bytes w = [ucast w, ucast (drop_bit 8 w)]"

subsection \<open>Constants of the headers\<close>

text \<open>
  The macros and enumeration constants the file uses are declared in headers that are not
  part of the sources at hand (\<^verbatim>\<open>usb_cmd_parser.h\<close>, \<^verbatim>\<open>defines.h\<close>, \<^verbatim>\<open>node_mgmt.h\<close>,
  \<^verbatim>\<open>flash_mem.h\<close>, ...). They are parameters of the model: a value of \<open>cfg\<close> gives
  every command identifier, every other byte and word constant, every integer constant
  and every conditional compilation symbol by its name. \<open>pageNumberFromAddress\<close> and
  \<open>nodeNumberFromAddress\<close> split a node address into its page and its slot in the page;
  \<open>version\<close> is the string \<^verbatim>\<open>FLASH_CHIP_STR "" MOOLTIPASS_VERSION\<close> with its terminator.
\<close>

record cfg =
  cmd_id :: "string \<Rightarrow> u8"
  byte_const :: "string \<Rightarrow> u8"
  word_const :: "string \<Rightarrow> u16"
  int_const :: "string \<Rightarrow> nat"
  defined :: "string \<Rightarrow> bool"
  pageNumberFromAddress :: "u16 \<Rightarrow> u16"
  nodeNumberFromAddress :: "u16 \<Rightarrow> u8"
  version :: "u8 list"

abbreviation "CMD_PING k \<equiv> cmd_id k ''CMD_PING''"
abbreviation "CMD_VERSION k \<equiv> cmd_id k ''CMD_VERSION''"
abbreviation "CMD_CONTEXT k \<equiv> cmd_id k ''CMD_CONTEXT''"
abbreviation "CMD_GET_LOGIN k \<equiv> cmd_id k ''CMD_GET_LOGIN''"
abbreviation "CMD_GET_PASSWORD k \<equiv> cmd_id k ''CMD_GET_PASSWORD''"
abbreviation "CMD_GET_DESCRIPTION k \<equiv> cmd_id k ''CMD_GET_DESCRIPTION''"
abbreviation "CMD_SET_LOGIN k \<equiv> cmd_id k ''CMD_SET_LOGIN''"
abbreviation "CMD_SET_PASSWORD k \<equiv> cmd_id k ''CMD_SET_PASSWORD''"
abbreviation "CMD_CHECK_PASSWORD k \<equiv> cmd_id k ''CMD_CHECK_PASSWORD''"
abbreviation "CMD_ADD_CONTEXT k \<equiv> cmd_id k ''CMD_ADD_CONTEXT''"
abbreviation "CMD_SET_BOOTLOADER_PWD k \<equiv> cmd_id k ''CMD_SET_BOOTLOADER_PWD''"
abbreviation "CMD_JUMP_TO_BOOTLOADER k \<equiv> cmd_id k ''CMD_JUMP_TO_BOOTLOADER''"
abbreviation "CMD_GET_RANDOM_NUMBER k \<equiv> cmd_id k ''CMD_GET_RANDOM_NUMBER''"
abbreviation "CMD_START_MEMORYMGMT k \<equiv> cmd_id k ''CMD_START_MEMORYMGMT''"
abbreviation "CMD_IMPORT_MEDIA_START k \<equiv> cmd_id k ''CMD_IMPORT_MEDIA_START''"
abbreviation "CMD_IMPORT_MEDIA k \<equiv> cmd_id k ''CMD_IMPORT_MEDIA''"
abbreviation "CMD_IMPORT_MEDIA_END k \<equiv> cmd_id k ''CMD_IMPORT_MEDIA_END''"
abbreviation "CMD_SET_MOOLTIPASS_PARM k \<equiv> cmd_id k ''CMD_SET_MOOLTIPASS_PARM''"
abbreviation "CMD_GET_MOOLTIPASS_PARM k \<equiv> cmd_id k ''CMD_GET_MOOLTIPASS_PARM''"
abbreviation "CMD_RESET_CARD k \<equiv> cmd_id k ''CMD_RESET_CARD''"
abbreviation "CMD_READ_CARD_LOGIN k \<equiv> cmd_id k ''CMD_READ_CARD_LOGIN''"
abbreviation "CMD_READ_CARD_PASS k \<equiv> cmd_id k ''CMD_READ_CARD_PASS''"
abbreviation "CMD_SET_CARD_LOGIN k \<equiv> cmd_id k ''CMD_SET_CARD_LOGIN''"
abbreviation "CMD_SET_CARD_PASS k \<equiv> cmd_id k ''CMD_SET_CARD_PASS''"
abbreviation "CMD_UNLOCK_WITH_PIN k \<equiv> cmd_id k ''CMD_UNLOCK_WITH_PIN''"
abbreviation "CMD_ADD_UNKNOWN_CARD k \<equiv> cmd_id k ''CMD_ADD_UNKNOWN_CARD''"
abbreviation "CMD_MOOLTIPASS_STATUS k \<equiv> cmd_id k ''CMD_MOOLTIPASS_STATUS''"
abbreviation "CMD_SET_DATE k \<equiv> cmd_id k ''CMD_SET_DATE''"
abbreviation "CMD_SET_UID k \<equiv> cmd_id k ''CMD_SET_UID''"
abbreviation "CMD_GET_UID k \<equiv> cmd_id k ''CMD_GET_UID''"
abbreviation "CMD_SET_DATA_SERVICE k \<equiv> cmd_id k ''CMD_SET_DATA_SERVICE''"
abbreviation "CMD_ADD_DATA_SERVICE k \<equiv> cmd_id k ''CMD_ADD_DATA_SERVICE''"
abbreviation "CMD_WRITE_32B_IN_DN k \<equiv> cmd_id k ''CMD_WRITE_32B_IN_DN''"
abbreviation "CMD_READ_32B_IN_DN k \<equiv> cmd_id k ''CMD_READ_32B_IN_DN''"
abbreviation "CMD_GET_CUR_CARD_CPZ k \<equiv> cmd_id k ''CMD_GET_CUR_CARD_CPZ''"
abbreviation "CMD_CANCEL_REQUEST k \<equiv> cmd_id k ''CMD_CANCEL_REQUEST''"
abbreviation "CMD_READ_FLASH_NODE k \<equiv> cmd_id k ''CMD_READ_FLASH_NODE''"
abbreviation "CMD_WRITE_FLASH_NODE k \<equiv> cmd_id k ''CMD_WRITE_FLASH_NODE''"
abbreviation "CMD_GET_FAVORITE k \<equiv> cmd_id k ''CMD_GET_FAVORITE''"
abbreviation "CMD_SET_FAVORITE k \<equiv> cmd_id k ''CMD_SET_FAVORITE''"
abbreviation "CMD_GET_STARTING_PARENT k \<equiv> cmd_id k ''CMD_GET_STARTING_PARENT''"
abbreviation "CMD_SET_STARTING_PARENT k \<equiv> cmd_id k ''CMD_SET_STARTING_PARENT''"
abbreviation "CMD_GET_CTRVALUE k \<equiv> cmd_id k ''CMD_GET_CTRVALUE''"
abbreviation "CMD_SET_CTRVALUE k \<equiv> cmd_id k ''CMD_SET_CTRVALUE''"
abbreviation "CMD_ADD_CARD_CPZ_CTR k \<equiv> cmd_id k ''CMD_ADD_CARD_CPZ_CTR''"
abbreviation "CMD_GET_CARD_CPZ_CTR k \<equiv> cmd_id k ''CMD_GET_CARD_CPZ_CTR''"
abbreviation "CMD_GET_FREE_SLOTS_ADDR k \<equiv> cmd_id k ''CMD_GET_FREE_SLOTS_ADDR''"
abbreviation "CMD_GET_DN_START_PARENT k \<equiv> cmd_id k ''CMD_GET_DN_START_PARENT''"
abbreviation "CMD_SET_DN_START_PARENT k \<equiv> cmd_id k ''CMD_SET_DN_START_PARENT''"
abbreviation "CMD_END_MEMORYMGMT k \<equiv> cmd_id k ''CMD_END_MEMORYMGMT''"
abbreviation "CMD_ERASE_EEPROM k \<equiv> cmd_id k ''CMD_ERASE_EEPROM''"
abbreviation "CMD_ERASE_FLASH k \<equiv> cmd_id k ''CMD_ERASE_FLASH''"
abbreviation "CMD_ERASE_SMC k \<equiv> cmd_id k ''CMD_ERASE_SMC''"
abbreviation "CMD_DRAW_BITMAP k \<equiv> cmd_id k ''CMD_DRAW_BITMAP''"
abbreviation "CMD_CLONE_SMARTCARD k \<equiv> cmd_id k ''CMD_CLONE_SMARTCARD''"
abbreviation "CMD_MINI_FRAME_BUF_DATA k \<equiv> cmd_id k ''CMD_MINI_FRAME_BUF_DATA''"
abbreviation "CMD_SET_FONT k \<equiv> cmd_id k ''CMD_SET_FONT''"
abbreviation "CMD_STACK_FREE k \<equiv> cmd_id k ''CMD_STACK_FREE''"
abbreviation "CMD_USB_KEYBOARD_PRESS k \<equiv> cmd_id k ''CMD_USB_KEYBOARD_PRESS''"
abbreviation "FIRST_CMD_FOR_DATAMGMT k \<equiv> cmd_id k ''FIRST_CMD_FOR_DATAMGMT''"
abbreviation "LAST_CMD_FOR_DATAMGMT k \<equiv> cmd_id k ''LAST_CMD_FOR_DATAMGMT''"

abbreviation "PLUGIN_BYTE_ERROR k \<equiv> byte_const k ''PLUGIN_BYTE_ERROR''"
abbreviation "PLUGIN_BYTE_OK k \<equiv> byte_const k ''PLUGIN_BYTE_OK''"
abbreviation "PLUGIN_BYTE_NOCARD k \<equiv> byte_const k ''PLUGIN_BYTE_NOCARD''"
abbreviation "PLUGIN_BYTE_NA k \<equiv> byte_const k ''PLUGIN_BYTE_NA''"
abbreviation "USB_CALLER_PIN k \<equiv> byte_const k ''USB_CALLER_PIN''"
abbreviation "RETURN_OK k \<equiv> byte_const k ''RETURN_OK''"
abbreviation "RETURN_NOK k \<equiv> byte_const k ''RETURN_NOK''"
abbreviation "RETURN_PASS_CHECK_OK k \<equiv> byte_const k ''RETURN_PASS_CHECK_OK''"
abbreviation "RETURN_PASS_CHECK_NOK k \<equiv> byte_const k ''RETURN_PASS_CHECK_NOK''"
abbreviation "RETURN_MOOLTIPASS_USER k \<equiv> byte_const k ''RETURN_MOOLTIPASS_USER''"
abbreviation "RETURN_VCARD_OK k \<equiv> byte_const k ''RETURN_VCARD_OK''"
abbreviation "TRUE k \<equiv> byte_const k ''TRUE''"
abbreviation "FALSE k \<equiv> byte_const k ''FALSE''"
abbreviation "TIMER_RUNNING k \<equiv> byte_const k ''TIMER_RUNNING''"
abbreviation "TIMER_CREDENTIALS k \<equiv> byte_const k ''TIMER_CREDENTIALS''"
abbreviation "SCREEN_DEFAULT_INSERTED_UNKNOWN k \<equiv> byte_const k ''SCREEN_DEFAULT_INSERTED_UNKNOWN''"
abbreviation "SCREEN_DEFAULT_INSERTED_LCK k \<equiv> byte_const k ''SCREEN_DEFAULT_INSERTED_LCK''"
abbreviation "SCREEN_DEFAULT_INSERTED_NLCK k \<equiv> byte_const k ''SCREEN_DEFAULT_INSERTED_NLCK''"
abbreviation "SCREEN_DEFAULT_INSERTED_INVALID k \<equiv> byte_const k ''SCREEN_DEFAULT_INSERTED_INVALID''"
abbreviation "SCREEN_MEMORY_MGMT k \<equiv> byte_const k ''SCREEN_MEMORY_MGMT''"
abbreviation "SERVICE_CRED_TYPE k \<equiv> byte_const k ''SERVICE_CRED_TYPE''"
abbreviation "SERVICE_DATA_TYPE k \<equiv> byte_const k ''SERVICE_DATA_TYPE''"
abbreviation "ID_STRING_MEMORYMGMTQ k \<equiv> byte_const k ''ID_STRING_MEMORYMGMTQ''"
abbreviation "ID_STRING_WARNING k \<equiv> byte_const k ''ID_STRING_WARNING''"
abbreviation "ID_STRING_ALLOW_UPDATE k \<equiv> byte_const k ''ID_STRING_ALLOW_UPDATE''"
abbreviation "ID_STRING_PIN_COMPUTER k \<equiv> byte_const k ''ID_STRING_PIN_COMPUTER''"
abbreviation "ID_STRING_SEND_SMC_PASS k \<equiv> byte_const k ''ID_STRING_SEND_SMC_PASS''"
abbreviation "ID_STRING_SET_SMC_LOGIN k \<equiv> byte_const k ''ID_STRING_SET_SMC_LOGIN''"
abbreviation "ID_STRING_SET_SMC_PASS k \<equiv> byte_const k ''ID_STRING_SET_SMC_PASS''"
abbreviation "BOOTLOADER_PWDOK_KEY k \<equiv> byte_const k ''BOOTLOADER_PWDOK_KEY''"
abbreviation "UID_REQUEST_KEY_OK_KEY k \<equiv> byte_const k ''UID_REQUEST_KEY_OK_KEY''"
abbreviation "LOCK_TIMEOUT_ENABLE_PARAM k \<equiv> byte_const k ''LOCK_TIMEOUT_ENABLE_PARAM''"
abbreviation "WHEEL_DIRECTION_REVERSE_PARAM k \<equiv> byte_const k ''WHEEL_DIRECTION_REVERSE_PARAM''"
abbreviation "MINI_OLED_CONTRAST_CURRENT_PARAM k \<equiv> byte_const k ''MINI_OLED_CONTRAST_CURRENT_PARAM''"

abbreviation "NODE_ADDR_NULL k \<equiv> word_const k ''NODE_ADDR_NULL''"
abbreviation "EEP_BOOT_PWD_SET k \<equiv> word_const k ''EEP_BOOT_PWD_SET''"
abbreviation "EEP_BOOT_PWD k \<equiv> word_const k ''EEP_BOOT_PWD''"
abbreviation "EEP_BOOTKEY_ADDR k \<equiv> word_const k ''EEP_BOOTKEY_ADDR''"
abbreviation "EEP_BACKUP_BOOTKEY_ADDR k \<equiv> word_const k ''EEP_BACKUP_BOOTKEY_ADDR''"
abbreviation "EEP_UID_REQUEST_KEY_SET_ADDR k \<equiv> word_const k ''EEP_UID_REQUEST_KEY_SET_ADDR''"
abbreviation "EEP_UID_REQUEST_KEY_ADDR k \<equiv> word_const k ''EEP_UID_REQUEST_KEY_ADDR''"
abbreviation "EEP_UID_ADDR k \<equiv> word_const k ''EEP_UID_ADDR''"
abbreviation "BOOTLOADER_BOOTKEY k \<equiv> word_const k ''BOOTLOADER_BOOTKEY''"
abbreviation "CORRECT_BOOTKEY k \<equiv> word_const k ''CORRECT_BOOTKEY''"
abbreviation "SMARTCARD_DEFAULT_PIN k \<equiv> word_const k ''SMARTCARD_DEFAULT_PIN''"

abbreviation "NODE_PARENT_SIZE_OF_SERVICE k \<equiv> int_const k ''NODE_PARENT_SIZE_OF_SERVICE''"
abbreviation "NODE_CHILD_SIZE_OF_LOGIN k \<equiv> int_const k ''NODE_CHILD_SIZE_OF_LOGIN''"
abbreviation "NODE_CHILD_SIZE_OF_PASSWORD k \<equiv> int_const k ''NODE_CHILD_SIZE_OF_PASSWORD''"
abbreviation "SMARTCARD_MTP_LOGIN_LENGTH k \<equiv> int_const k ''SMARTCARD_MTP_LOGIN_LENGTH''"
abbreviation "SMARTCARD_MTP_PASS_LENGTH k \<equiv> int_const k ''SMARTCARD_MTP_PASS_LENGTH''"
abbreviation "SMARTCARD_MTP_LOGIN_OFFSET k \<equiv> int_const k ''SMARTCARD_MTP_LOGIN_OFFSET''"
abbreviation "SMARTCARD_MTP_PASS_OFFSET k \<equiv> int_const k ''SMARTCARD_MTP_PASS_OFFSET''"
abbreviation "SMARTCARD_AZ_BIT_LENGTH k \<equiv> int_const k ''SMARTCARD_AZ_BIT_LENGTH''"
abbreviation "SMARTCARD_CPZ_LENGTH k \<equiv> int_const k ''SMARTCARD_CPZ_LENGTH''"
abbreviation "AES256_CTR_LENGTH k \<equiv> int_const k ''AES256_CTR_LENGTH''"
abbreviation "AES_KEY_LENGTH k \<equiv> int_const k ''AES_KEY_LENGTH''"
abbreviation "RAWHID_RX_SIZE k \<equiv> int_const k ''RAWHID_RX_SIZE''"
abbreviation "HID_DATA_START k \<equiv> int_const k ''HID_DATA_START''"
abbreviation "PACKET_EXPORT_SIZE k \<equiv> int_const k ''PACKET_EXPORT_SIZE''"
abbreviation "NODE_SIZE k \<equiv> int_const k ''NODE_SIZE''"
abbreviation "DATA_NODE_BLOCK_SIZ k \<equiv> int_const k ''DATA_NODE_BLOCK_SIZ''"
abbreviation "USER_CTR_SIZE k \<equiv> int_const k ''USER_CTR_SIZE''"
abbreviation "UID_REQUEST_KEY_SIZE k \<equiv> int_const k ''UID_REQUEST_KEY_SIZE''"
abbreviation "UID_SIZE k \<equiv> int_const k ''UID_SIZE''"
abbreviation "BYTES_PER_PAGE k \<equiv> int_const k ''BYTES_PER_PAGE''"
abbreviation "GRAPHIC_ZONE_PAGE_START k \<equiv> int_const k ''GRAPHIC_ZONE_PAGE_START''"
abbreviation "GRAPHIC_ZONE_PAGE_END k \<equiv> int_const k ''GRAPHIC_ZONE_PAGE_END''"

text \<open>The number of entries of the favourites array of the node management; the parser
  does not use it.\<close>

abbreviation "USER_MAX_FAV k \<equiv> int_const k ''USER_MAX_FAV''"

abbreviation "USB_FEATURE_PLUGIN_COMMS k \<equiv> defined k ''USB_FEATURE_PLUGIN_COMMS''"
abbreviation "DEV_PLUGIN_COMMS k \<equiv> defined k ''DEV_PLUGIN_COMMS''"
abbreviation "AVR_BOOTLOADER_PROGRAMMING k \<equiv> defined k ''AVR_BOOTLOADER_PROGRAMMING''"
abbreviation "MINI_VERSION k \<equiv> defined k ''MINI_VERSION''"
abbreviation "MINI_PREPRODUCTION_SETUP k \<equiv> defined k ''MINI_PREPRODUCTION_SETUP''"
abbreviation "MINI_PREPRODUCTION_SETUP_ACC k \<equiv> defined k ''MINI_PREPRODUCTION_SETUP_ACC''"
abbreviation "POST_KICKSTARTER_UPDATE_SETUP k \<equiv> defined k ''POST_KICKSTARTER_UPDATE_SETUP''"
abbreviation "HARDWARE_OLIVIER_V1 k \<equiv> defined k ''HARDWARE_OLIVIER_V1''"

subsection \<open>State, packets and external calls\<close>

text \<open>An argument of an external call: a byte, a 16 bit word, the value of an \<^verbatim>\<open>int\<close>
  expression, or the bytes behind a pointer.\<close>

datatype val = B u8 | W u16 | I int | Bs "u8 list"

datatype event = Call string "val list"

text \<open>What an external call gives back: its return value read as a byte (\<open>r8\<close>) or as
  a 16 bit word (\<open>r16\<close>), and the bytes it stored through a buffer argument (\<open>rbuf\<close>).\<close>

record reply =
  r8 :: u8
  r16 :: u16
  rbuf :: "u8 list"

type_synonym env = "event list \<Rightarrow> event \<Rightarrow> reply"

text \<open>The first \<open>n\<close> bytes of the buffer an external call filled. An environment that
  describes fewer bytes leaves the rest zero.\<close>

definition buf_read :: "reply \<Rightarrow> nat \<Rightarrow> u8 list" where
  "buf_read r n = take n (rbuf r @ replicate n 0)"

text \<open>The global variables of the file (lines 55 to 64), and the trace of external
  calls. The two approval flags only ever hold \<^verbatim>\<open>TRUE\<close> or \<^verbatim>\<open>FALSE\<close>.\<close>

record mp_state =
  memoryManagementModeApproved :: bool
  mediaFlashImportApproved :: bool
  currentNodeWritten :: u16
  mediaFlashImportPage :: u16
  mediaFlashImportOffset :: u16
  trace :: "event list"

text \<open>The received message \<^verbatim>\<open>usbMsg_t\<close>: its length byte, its command byte, and
  \<open>body_data\<close>, the bytes in memory from \<^verbatim>\<open>msg->body.data\<close> on: the payload area of the
  receive buffer, followed by whatever lies behind the buffer (a read that the declared
  length or a missing string terminator sends past the array reads those bytes).\<close>

record usbMsg =
  len :: u8
  cmd :: u8
  body_data :: "u8 list"

definition run :: "string \<Rightarrow> val list \<Rightarrow> mp_state \<Rightarrow> mp_state" where
  "run f args s = s\<lparr>trace := trace s @ [Call f args]\<rparr>"

definition ext :: "env \<Rightarrow> string \<Rightarrow> val list \<Rightarrow> mp_state \<Rightarrow> reply \<times> mp_state" where
  "ext e f args s = (e (trace s) (Call f args), run f args s)"

definition usbSendMessage :: "u8 \<Rightarrow> int \<Rightarrow> u8 list \<Rightarrow> mp_state \<Rightarrow> mp_state" where
  "usbSendMessage c size_arg bytes s = run ''usbSendMessage'' [B c, I size_arg, Bs bytes] s"

subsection \<open>Library functions\<close>

text \<open>\<^verbatim>\<open>strlen\<close>: the number of bytes before the first zero byte.\<close>

definition strlen :: "u8 list \<Rightarrow> nat" where
  "strlen xs = length (takeWhile (\<lambda>b. b \<noteq> 0) xs)"

text \<open>\<^verbatim>\<open>tolower\<close> in the C locale: the letters A to Z move to a to z.\<close>

definition tolower :: "u8 \<Rightarrow> u8" where
  "tolower c = (if 0x41 \<le> c \<and> c \<le> 0x5A then c + 0x20 else c)"

text \<open>\<^verbatim>\<open>memcmp\<close> over \<open>n\<close> bytes as avr-libc computes it: zero when the two ranges agree,
  otherwise the difference of the first two bytes that differ. Both lists are meant to hold
  at least \<open>n\<close> bytes.\<close>

fun memcmp :: "u8 list \<Rightarrow> u8 list \<Rightarrow> nat \<Rightarrow> int" where
  "memcmp (a # as) (b # bs) (Suc n) = (if a = b then memcmp as bs n else uint a - uint b)"
| "memcmp _ _ _ = 0"

text \<open>\<^verbatim>\<open>memcpy(dst + off, src, n)\<close> on a buffer held as a list.\<close>

definition memcpy_at :: "u8 list \<Rightarrow> nat \<Rightarrow> u8 list \<Rightarrow> nat \<Rightarrow> u8 list" where
  "memcpy_at dst off src n = take off dst @ take n src @ drop (off + n) dst"

text \<open>Division of \<^verbatim>\<open>int\<close> values in C truncates towards zero.\<close>

definition c_div :: "int \<Rightarrow> int \<Rightarrow> int" where
  "c_div a b = (if (a < 0) = (b < 0) then \<bar>a\<bar> div \<bar>b\<bar> else - (\<bar>a\<bar> div \<bar>b\<bar>))"

subsection \<open>checkMooltipassPassword (lines 66 to 102)\<close>

text \<open>The busy wait \<^verbatim>\<open>while (hasTimerExpired(TIMER_CREDENTIALS, FALSE) == TIMER_RUNNING);\<close>
  polls the timer until it no longer runs. With a timer that never expires the loop does
  not end: the result is \<open>None\<close>.\<close>

partial_function (option) waitTimerExpired :: "cfg \<Rightarrow> env \<Rightarrow> mp_state \<Rightarrow> mp_state option" where
  "waitTimerExpired k e s =
     (if r8 (fst (ext e ''hasTimerExpired'' [B (TIMER_CREDENTIALS k), B (FALSE k)] s)) = TIMER_RUNNING k
      then waitTimerExpired k e (snd (ext e ''hasTimerExpired'' [B (TIMER_CREDENTIALS k), B (FALSE k)] s))
      else Some (snd (ext e ''hasTimerExpired'' [B (TIMER_CREDENTIALS k), B (FALSE k)] s)))"

text \<open>
  The two locals of the function. The array \<^verbatim>\<open>mooltipass_password[PACKET_EXPORT_SIZE]\<close>
  is not initialised; \<^verbatim>\<open>eeprom_read_block\<close> fills its first \<open>length\<close> bytes, so \<open>buf_read\<close>
  of the reply at \<^verbatim>\<open>PACKET_EXPORT_SIZE\<close> bytes is the array after the read (the callers
  pass a length of at most \<^verbatim>\<open>PACKET_EXPORT_SIZE\<close>). The result of \<^verbatim>\<open>memcmp\<close> is stored in
  a \<^verbatim>\<open>uint8_t\<close>, that is, truncated to its low byte.
\<close>

record password_locals =
  mooltipass_password :: "u8 list"
  password_comparison_result :: u8

text \<open>Lines 76 to 85: the read of the stored bytes into the array, the arming of the
  timer, and the comparison. What it gives back are the locals and the state with which
  the wait loop of line 88 is entered; the loop reads and writes neither local, so these
  are the locals at every poll of the timer.\<close>

definition read_and_compare ::
  "cfg \<Rightarrow> env \<Rightarrow> u8 list \<Rightarrow> u16 \<Rightarrow> u8 \<Rightarrow> mp_state \<Rightarrow> password_locals \<times> mp_state" where
  "read_and_compare k e data addr length_arg s =
     (let (rd, s1) = ext e ''eeprom_read_block'' [W addr, B length_arg] s;
          array = buf_read rd (PACKET_EXPORT_SIZE k);
          s2 = run ''activateTimer'' [B (TIMER_CREDENTIALS k), I 1000] s1
      in (\<lparr>mooltipass_password = array,
           password_comparison_result = word_of_int (memcmp array data (unat length_arg))\<rparr>,
          s2))"

text \<open>The whole function: lines 76 to 85, the wait loop of line 88, the \<^verbatim>\<open>memset\<close> of
  line 91 and the verdict of lines 94 to 101. The function returns a \<^verbatim>\<open>uint8_t\<close> only: the
  array ends with the call, and what the \<^verbatim>\<open>memset\<close> stored in it is read by nobody.\<close>

definition checkMooltipassPassword ::
  "cfg \<Rightarrow> env \<Rightarrow> u8 list \<Rightarrow> u16 \<Rightarrow> u8 \<Rightarrow> mp_state \<Rightarrow> (bool \<times> mp_state) option" where
  "checkMooltipassPassword k e data addr length_arg s =
     (let (locals, s2) = read_and_compare k e data addr length_arg s
      in case waitTimerExpired k e s2 of
           None \<Rightarrow> None
         | Some s3 \<Rightarrow>
             let locals = locals\<lparr>mooltipass_password := replicate (PACKET_EXPORT_SIZE k) 0\<rparr>
             in Some (password_comparison_result locals = 0, s3))"

subsection \<open>lowerCaseString and checkTextField (lines 112 to 148)\<close>

definition lowerCaseString :: "u8 list \<Rightarrow> u8 list" where
  "lowerCaseString data = map tolower (takeWhile (\<lambda>b. b \<noteq> 0) data) @ dropWhile (\<lambda>b. b \<noteq> 0) data"

text \<open>\<open>checkTextField\<close> gives back its return code and the buffer, which it lower-cases
  in place when \<open>max_len\<close> is the size of a service name. \<open>len\<close> and \<open>max_len\<close> are bytes;
  the comparison with \<^verbatim>\<open>strlen(data)+1\<close> is one of \<^verbatim>\<open>size_t\<close> values, which cannot wrap
  in the 64 KiB address space of the device.\<close>

definition checkTextField :: "cfg \<Rightarrow> u8 list \<Rightarrow> u8 \<Rightarrow> u8 \<Rightarrow> u8 \<times> u8 list" where
  "checkTextField k data len_arg max_len =
     (if len_arg > max_len \<or> len_arg = 0 \<or> unat len_arg \<noteq> strlen data + 1
         \<or> int (unat len_arg) > int (RAWHID_RX_SIZE k) - int (HID_DATA_START k)
      then (RETURN_NOK k, data)
      else if unat max_len = NODE_PARENT_SIZE_OF_SERVICE k
           then (RETURN_OK k, lowerCaseString data)
           else (RETURN_OK k, data))"

subsection \<open>usbProcessIncoming: the cases of the switch (lines 259 to 1407)\<close>

text \<open>
  A case of the switch ends in one of three ways: \<^verbatim>\<open>break\<close> with a value of
  \<^verbatim>\<open>plugin_return_value\<close>, which the statement after the switch sends; \<^verbatim>\<open>return\<close>; or
  the endless loop \<^verbatim>\<open>while(1);\<close> that waits for the watchdog to reset the device.
  \<^verbatim>\<open>plugin_return_value\<close> starts as \<^verbatim>\<open>PLUGIN_BYTE_ERROR\<close>, so a case that breaks without
  assigning it breaks with that value. The debug print macros expand to nothing.
\<close>

datatype flow = Break u8 | Return | Spin

definition case_CMD_CANCEL_REQUEST :: "mp_state \<Rightarrow> flow \<times> mp_state" where
  "case_CMD_CANCEL_REQUEST s = (Return, s)"

definition case_CMD_PING :: "usbMsg \<Rightarrow> mp_state \<Rightarrow> flow \<times> mp_state" where
  "case_CMD_PING msg s =
     (Return, run ''usbHidSend'' [I 0, B (len msg), B (cmd msg), Bs (body_data msg), I 6] s)"

definition case_CMD_VERSION :: "cfg \<Rightarrow> mp_state \<Rightarrow> flow \<times> mp_state" where
  "case_CMD_VERSION k s =
     (Return, usbSendMessage (CMD_VERSION k) (int (length (version k))) (version k) s)"

definition case_CMD_CONTEXT :: "cfg \<Rightarrow> env \<Rightarrow> usbMsg \<Rightarrow> mp_state \<Rightarrow> flow \<times> mp_state" where
  "case_CMD_CONTEXT k e msg s =
     (let s1 = (if memoryManagementModeApproved s then run ''populateServicesLut'' [] s else s);
          (unlocked, s2) = ext e ''getSmartCardInsertedUnlocked'' [] s1
      in if r8 unlocked \<noteq> TRUE k then (Break (PLUGIN_BYTE_NOCARD k), s2)
         else let (found, s3) = ext e ''setCurrentContext'' [Bs (body_data msg), B (SERVICE_CRED_TYPE k)] s2
              in if r8 found = RETURN_OK k then (Break (PLUGIN_BYTE_OK k), s3)
                 else (Break (PLUGIN_BYTE_ERROR k), s3))"

definition case_CMD_SET_DATA_SERVICE :: "cfg \<Rightarrow> env \<Rightarrow> usbMsg \<Rightarrow> mp_state \<Rightarrow> flow \<times> mp_state" where
  "case_CMD_SET_DATA_SERVICE k e msg s =
     (let (unlocked, s1) = ext e ''getSmartCardInsertedUnlocked'' [] s
      in if r8 unlocked \<noteq> TRUE k then (Break (PLUGIN_BYTE_NOCARD k), s1)
         else let (found, s2) = ext e ''setCurrentContext'' [Bs (body_data msg), B (SERVICE_DATA_TYPE k)] s1
              in if r8 found = RETURN_OK k then (Break (PLUGIN_BYTE_OK k), s2)
                 else (Break (PLUGIN_BYTE_ERROR k), s2))"

text \<open>The three getters write the field over \<^verbatim>\<open>incomingData\<close> and send it as a C string.\<close>

definition send_string_field :: "cfg \<Rightarrow> env \<Rightarrow> string \<Rightarrow> u8 \<Rightarrow> mp_state \<Rightarrow> flow \<times> mp_state" where
  "send_string_field k e getter c s =
     (let (r, s1) = ext e getter [] s
      in if r8 r = RETURN_OK k
         then (Return, usbSendMessage c (int (strlen (rbuf r)) + 1)
                         (buf_read r (strlen (rbuf r) + 1)) s1)
         else (Break (PLUGIN_BYTE_ERROR k), s1))"

definition case_CMD_GET_LOGIN :: "cfg \<Rightarrow> env \<Rightarrow> mp_state \<Rightarrow> flow \<times> mp_state" where
  "case_CMD_GET_LOGIN k e s = send_string_field k e ''getLoginForContext'' (CMD_GET_LOGIN k) s"

definition case_CMD_GET_PASSWORD :: "cfg \<Rightarrow> env \<Rightarrow> mp_state \<Rightarrow> flow \<times> mp_state" where
  "case_CMD_GET_PASSWORD k e s = send_string_field k e ''getPasswordForContext'' (CMD_GET_PASSWORD k) s"

definition case_CMD_GET_DESCRIPTION :: "cfg \<Rightarrow> env \<Rightarrow> mp_state \<Rightarrow> flow \<times> mp_state" where
  "case_CMD_GET_DESCRIPTION k e s =
     send_string_field k e ''getDescriptionForContext'' (CMD_GET_DESCRIPTION k) s"

definition case_CMD_SET_LOGIN :: "cfg \<Rightarrow> env \<Rightarrow> usbMsg \<Rightarrow> mp_state \<Rightarrow> flow \<times> mp_state" where
  "case_CMD_SET_LOGIN k e msg s =
     (let (r, s1) = ext e ''setLoginForContext'' [Bs (body_data msg), B (len msg)] s
      in if r8 r = RETURN_OK k then (Break (PLUGIN_BYTE_OK k), s1)
         else (Break (PLUGIN_BYTE_ERROR k), s1))"

definition case_CMD_SET_PASSWORD :: "cfg \<Rightarrow> env \<Rightarrow> usbMsg \<Rightarrow> mp_state \<Rightarrow> flow \<times> mp_state" where
  "case_CMD_SET_PASSWORD k e msg s =
     (let (r, s1) = ext e ''setPasswordForContext'' [Bs (body_data msg), B (len msg)] s
      in if r8 r = RETURN_OK k then (Break (PLUGIN_BYTE_OK k), s1)
         else (Break (PLUGIN_BYTE_ERROR k), s1))"

definition case_CMD_CHECK_PASSWORD :: "cfg \<Rightarrow> env \<Rightarrow> usbMsg \<Rightarrow> mp_state \<Rightarrow> flow \<times> mp_state" where
  "case_CMD_CHECK_PASSWORD k e msg s =
     (let (temp_rettype, s1) = ext e ''checkPasswordForContext'' [Bs (body_data msg)] s
      in if r8 temp_rettype = RETURN_PASS_CHECK_NOK k then (Break (PLUGIN_BYTE_ERROR k), s1)
         else if r8 temp_rettype = RETURN_PASS_CHECK_OK k then (Break (PLUGIN_BYTE_OK k), s1)
         else (Break (PLUGIN_BYTE_NA k), s1))"

definition case_CMD_ADD_CONTEXT :: "cfg \<Rightarrow> env \<Rightarrow> usbMsg \<Rightarrow> mp_state \<Rightarrow> flow \<times> mp_state" where
  "case_CMD_ADD_CONTEXT k e msg s =
     (let (r, s1) = ext e ''addNewContext'' [Bs (body_data msg), B (len msg), B (SERVICE_CRED_TYPE k)] s
      in if r8 r = RETURN_OK k then (Break (PLUGIN_BYTE_OK k), s1)
         else (Break (PLUGIN_BYTE_ERROR k), s1))"

definition case_CMD_ADD_DATA_SERVICE :: "cfg \<Rightarrow> env \<Rightarrow> usbMsg \<Rightarrow> mp_state \<Rightarrow> flow \<times> mp_state" where
  "case_CMD_ADD_DATA_SERVICE k e msg s =
     (let (r, s1) = ext e ''addNewContext'' [Bs (body_data msg), B (len msg), B (SERVICE_DATA_TYPE k)] s
      in if r8 r = RETURN_OK k then (Break (PLUGIN_BYTE_OK k), s1)
         else (Break (PLUGIN_BYTE_ERROR k), s1))"

text \<open>Line 475: the left operand of \<^verbatim>\<open>&&\<close> is the call of \<^verbatim>\<open>addDataForDataContext\<close>, so
  the call is made first and whatever the declared length; the comparison of the length
  is the right operand.\<close>

definition case_CMD_WRITE_32B_IN_DN :: "cfg \<Rightarrow> env \<Rightarrow> usbMsg \<Rightarrow> mp_state \<Rightarrow> flow \<times> mp_state" where
  "case_CMD_WRITE_32B_IN_DN k e msg s =
     (let (r, s1) = ext e ''addDataForDataContext'' [Bs (drop 1 (body_data msg)), B (body_data msg ! 0)] s
      in if r8 r = RETURN_OK k \<and> int (unat (len msg)) = 1 + int (DATA_NODE_BLOCK_SIZ k)
         then (Break (PLUGIN_BYTE_OK k), s1)
         else (Break (PLUGIN_BYTE_ERROR k), s1))"

definition case_CMD_READ_32B_IN_DN :: "cfg \<Rightarrow> env \<Rightarrow> mp_state \<Rightarrow> flow \<times> mp_state" where
  "case_CMD_READ_32B_IN_DN k e s =
     (let (r, s1) = ext e ''get32BytesDataForCurrentService'' [] s
      in if r8 r = RETURN_OK k
         then (Return, usbSendMessage (CMD_READ_32B_IN_DN k) (int (DATA_NODE_BLOCK_SIZ k))
                         (buf_read r (DATA_NODE_BLOCK_SIZ k)) s1)
         else (Break (PLUGIN_BYTE_ERROR k), s1))"

definition case_CMD_START_MEMORYMGMT :: "cfg \<Rightarrow> env \<Rightarrow> mp_state \<Rightarrow> flow \<times> mp_state" where
  "case_CMD_START_MEMORYMGMT k e s =
     (let (unlocked, s1) = ext e ''getSmartCardInsertedUnlocked'' [] s
      in if r8 unlocked = TRUE k
         then let (str, s2) = ext e ''readStoredStringToBuffer'' [B (ID_STRING_MEMORYMGMTQ k)] s1;
                  (conf, s3) = ext e ''guiAskForConfirmation'' [I 241, W (r16 str)] s2;
                  (v, s4) =
                    (if r8 conf = RETURN_OK k
                     then let (auth, s3a) = ext e ''removeCardAndReAuthUser'' [] s3
                          in if r8 auth = RETURN_OK k
                             then (PLUGIN_BYTE_OK k,
                                   (run ''guiSetCurrentScreen'' [B (SCREEN_MEMORY_MGMT k)] s3a)
                                     \<lparr>memoryManagementModeApproved := True\<rparr>)
                             else (PLUGIN_BYTE_ERROR k,
                                   run ''guiSetCurrentScreen'' [B (SCREEN_DEFAULT_INSERTED_LCK k)] s3a)
                     else (PLUGIN_BYTE_ERROR k, s3))
              in (Break v, run ''guiGetBackToCurrentScreen'' [] s4)
         else (Break (PLUGIN_BYTE_ERROR k), s1))"

definition case_CMD_GET_STARTING_PARENT :: "cfg \<Rightarrow> env \<Rightarrow> mp_state \<Rightarrow> flow \<times> mp_state" where
  "case_CMD_GET_STARTING_PARENT k e s =
     (let (temp_address, s1) = ext e ''getStartingParentAddress'' [] s
      in (Return, usbSendMessage (CMD_GET_STARTING_PARENT k) 2 (u16_bytes (r16 temp_address)) s1))"

definition case_CMD_GET_DN_START_PARENT :: "cfg \<Rightarrow> env \<Rightarrow> mp_state \<Rightarrow> flow \<times> mp_state" where
  "case_CMD_GET_DN_START_PARENT k e s =
     (let (temp_address, s1) = ext e ''getStartingDataParentAddress'' [] s
      in (Return, usbSendMessage (CMD_GET_DN_START_PARENT k) 2 (u16_bytes (r16 temp_address)) s1))"

definition case_CMD_GET_FREE_SLOTS_ADDR :: "cfg \<Rightarrow> env \<Rightarrow> usbMsg \<Rightarrow> mp_state \<Rightarrow> flow \<times> mp_state" where
  "case_CMD_GET_FREE_SLOTS_ADDR k e msg s =
     (if len msg = 2
      then let temp_addr = u16_at (body_data msg) 0;
               (found, s1) = ext e ''findFreeNodes''
                               [I 31, W (pageNumberFromAddress k temp_addr),
                                B (nodeNumberFromAddress k temp_addr)] s;
               nodesFound = r8 found
           in (Return, usbSendMessage (CMD_GET_FREE_SLOTS_ADDR k) (int (unat nodesFound) * 2)
                         (buf_read found (unat nodesFound * 2)) s1)
      else (Break (PLUGIN_BYTE_ERROR k), s))"

definition case_CMD_END_MEMORYMGMT :: "cfg \<Rightarrow> mp_state \<Rightarrow> flow \<times> mp_state" where
  "case_CMD_END_MEMORYMGMT k s =
     (let s1 = run ''guiSetCurrentScreen'' [B (SCREEN_DEFAULT_INSERTED_NLCK k)] s;
          s2 = s1\<lparr>currentNodeWritten := NODE_ADDR_NULL k\<rparr>;
          s3 = s2\<lparr>memoryManagementModeApproved := False\<rparr>;
          s4 = run ''guiGetBackToCurrentScreen'' [] s3;
          s5 = run ''activityDetectedRoutine'' [] s4;
          s6 = run ''populateServicesLut'' [] s5;
          s7 = run ''scanNodeUsage'' [] s6
      in (Break (PLUGIN_BYTE_OK k), s7))"

definition case_CMD_READ_FLASH_NODE :: "cfg \<Rightarrow> env \<Rightarrow> usbMsg \<Rightarrow> mp_state \<Rightarrow> flow \<times> mp_state" where
  "case_CMD_READ_FLASH_NODE k e msg s =
     (if len msg = 2
      then let temp_node_addr = u16_at (body_data msg) 0;
               (perm, s1) = ext e ''checkUserPermission'' [W temp_node_addr] s
           in if r8 perm = RETURN_OK k
              then let (node, s2) = ext e ''readNode'' [W temp_node_addr] s1
                   in (Return, usbSendMessage (CMD_READ_FLASH_NODE k) (int (NODE_SIZE k))
                                 (buf_read node (NODE_SIZE k)) s2)
              else (Break (PLUGIN_BYTE_ERROR k), s1)
      else (Break (PLUGIN_BYTE_ERROR k), s))"

definition case_CMD_SET_FAVORITE :: "cfg \<Rightarrow> usbMsg \<Rightarrow> mp_state \<Rightarrow> flow \<times> mp_state" where
  "case_CMD_SET_FAVORITE k msg s =
     (if len msg = 5
      then (Break (PLUGIN_BYTE_OK k),
            run ''setFav'' [B (body_data msg ! 0), W (u16_at (body_data msg) 1),
                            W (u16_at (body_data msg) 3)] s)
      else (Break (PLUGIN_BYTE_ERROR k), s))"

definition case_CMD_GET_FAVORITE :: "cfg \<Rightarrow> env \<Rightarrow> usbMsg \<Rightarrow> mp_state \<Rightarrow> flow \<times> mp_state" where
  "case_CMD_GET_FAVORITE k e msg s =
     (if len msg = 1
      then let (fav, s1) = ext e ''readFav'' [B (body_data msg ! 0)] s
           in (Return, usbSendMessage (CMD_GET_FAVORITE k) 4 (buf_read fav 4) s1)
      else (Break (PLUGIN_BYTE_ERROR k), s))"

definition case_CMD_SET_STARTING_PARENT :: "cfg \<Rightarrow> usbMsg \<Rightarrow> mp_state \<Rightarrow> flow \<times> mp_state" where
  "case_CMD_SET_STARTING_PARENT k msg s =
     (if len msg = 2
      then (Break (PLUGIN_BYTE_OK k), run ''setStartingParent'' [W (u16_at (body_data msg) 0)] s)
      else (Break (PLUGIN_BYTE_ERROR k), s))"

definition case_CMD_SET_DN_START_PARENT :: "cfg \<Rightarrow> usbMsg \<Rightarrow> mp_state \<Rightarrow> flow \<times> mp_state" where
  "case_CMD_SET_DN_START_PARENT k msg s =
     (if len msg = 2
      then (Break (PLUGIN_BYTE_OK k), run ''setDataStartingParent'' [W (u16_at (body_data msg) 0)] s)
      else (Break (PLUGIN_BYTE_ERROR k), s))"

definition case_CMD_SET_CTRVALUE :: "cfg \<Rightarrow> usbMsg \<Rightarrow> mp_state \<Rightarrow> flow \<times> mp_state" where
  "case_CMD_SET_CTRVALUE k msg s =
     (if unat (len msg) = USER_CTR_SIZE k
      then (Break (PLUGIN_BYTE_OK k), run ''setProfileCtr'' [Bs (body_data msg)] s)
      else (Break (PLUGIN_BYTE_ERROR k), s))"

definition case_CMD_GET_CTRVALUE :: "cfg \<Rightarrow> env \<Rightarrow> mp_state \<Rightarrow> flow \<times> mp_state" where
  "case_CMD_GET_CTRVALUE k e s =
     (let (ctr, s1) = ext e ''readProfileCtr'' [] s
      in (Return, usbSendMessage (CMD_GET_CTRVALUE k) (int (USER_CTR_SIZE k))
                    (buf_read ctr (USER_CTR_SIZE k)) s1))"

definition case_CMD_ADD_CARD_CPZ_CTR :: "cfg \<Rightarrow> env \<Rightarrow> usbMsg \<Rightarrow> mp_state \<Rightarrow> flow \<times> mp_state" where
  "case_CMD_ADD_CARD_CPZ_CTR k e msg s =
     (if unat (len msg) = SMARTCARD_CPZ_LENGTH k + AES256_CTR_LENGTH k
      then let (uid, s1) = ext e ''getCurrentUserID'' [] s;
               (r, s2) = ext e ''writeSmartCardCPZForUserId''
                           [Bs (body_data msg), Bs (drop (SMARTCARD_CPZ_LENGTH k) (body_data msg)),
                            B (r8 uid)] s1
           in if r8 r = RETURN_OK k then (Break (PLUGIN_BYTE_OK k), s2)
              else (Break (PLUGIN_BYTE_ERROR k), s2)
      else (Break (PLUGIN_BYTE_ERROR k), s))"

definition case_CMD_GET_CARD_CPZ_CTR :: "cfg \<Rightarrow> env \<Rightarrow> mp_state \<Rightarrow> flow \<times> mp_state" where
  "case_CMD_GET_CARD_CPZ_CTR k e s =
     (let (uid, s1) = ext e ''getCurrentUserID'' [] s
      in (Break (PLUGIN_BYTE_OK k), run ''outputLUTEntriesForGivenUser'' [B (r8 uid)] s1))"

text \<open>
  \<^verbatim>\<open>CMD_WRITE_FLASH_NODE\<close> (lines 773 to 823). The first two bytes of the payload are the
  node address, the third is the packet number. \<^verbatim>\<open>userIdToFlags\<close> rewrites the 16 bit
  flags at \<^verbatim>\<open>msg->body.data[3]\<close> in place; \<open>r16\<close> of its reply is the value it leaves
  there. The arithmetic of line 798 is \<^verbatim>\<open>int\<close> arithmetic on small values.
\<close>

definition case_CMD_WRITE_FLASH_NODE :: "cfg \<Rightarrow> env \<Rightarrow> usbMsg \<Rightarrow> mp_state \<Rightarrow> flow \<times> mp_state" where
  "case_CMD_WRITE_FLASH_NODE k e msg s =
     (let data = body_data msg; datalen = len msg; temp_node_addr = u16_at data 0
      in if datalen < 3 then (Break (PLUGIN_BYTE_ERROR k), s)
         else
           let s1 = (if data ! 2 = 0
                     then let (perm, sa) = ext e ''checkUserPermission'' [W temp_node_addr] s
                          in if r8 perm = RETURN_OK k
                             then run ''loadPageToInternalBuffer''
                                    [W (pageNumberFromAddress k temp_node_addr)]
                                    (sa\<lparr>currentNodeWritten := temp_node_addr\<rparr>)
                             else sa
                     else s)
           in if currentNodeWritten s1 = temp_node_addr
                 \<and> currentNodeWritten s1 \<noteq> NODE_ADDR_NULL k
                 \<and> int (unat (data ! 2)) * (int (PACKET_EXPORT_SIZE k) - 3) + (int (unat datalen) - 3)
                     \<le> int (NODE_SIZE k)
              then
                let (data', s2) =
                      (if data ! 2 = 0
                       then let (uid, sb) = ext e ''getCurrentUserID'' [] s1;
                                (flags, sc) = ext e ''userIdToFlags'' [W (u16_at data 3), B (r8 uid)] sb
                            in (data[3 := u16_bytes (r16 flags) ! 0, 4 := u16_bytes (r16 flags) ! 1], sc)
                       else (data, s1));
                    s3 = run ''flashWriteBuffer''
                           [Bs (take (unat datalen - 3) (drop 3 data')),
                            I (int (NODE_SIZE k) * int (unat (nodeNumberFromAddress k (currentNodeWritten s2)))
                               + int (unat (data ! 2)) * (int (PACKET_EXPORT_SIZE k) - 3)),
                            I (int (unat datalen) - 3)] s2;
                    s4 = (if int (unat (data ! 2)) = c_div (int (NODE_SIZE k)) (int (PACKET_EXPORT_SIZE k) - 3)
                          then run ''flashWriteBufferToPage''
                                 [W (pageNumberFromAddress k (currentNodeWritten s3))] s3
                          else s3)
                in (Break (PLUGIN_BYTE_OK k), s4)
              else (Break (PLUGIN_BYTE_ERROR k), s1))"

text \<open>The media import (lines 825 to 910). The sum of line 864 is one of 16 bit
  unsigned values.\<close>

definition case_CMD_IMPORT_MEDIA_START ::
  "cfg \<Rightarrow> env \<Rightarrow> usbMsg \<Rightarrow> mp_state \<Rightarrow> (flow \<times> mp_state) option" where
  "case_CMD_IMPORT_MEDIA_START k e msg s =
     (let s0 = s\<lparr>mediaFlashImportPage := of_nat (GRAPHIC_ZONE_PAGE_START k),
                 mediaFlashImportOffset := 0\<rparr>
      in if DEV_PLUGIN_COMMS k \<or> AVR_BOOTLOADER_PROGRAMMING k
         then Some (Break (PLUGIN_BYTE_OK k), s0\<lparr>mediaFlashImportApproved := True\<rparr>)
         else
           let s1 = run ''userViewDelay'' [] s0
           in if unat (len msg) = PACKET_EXPORT_SIZE k
              then
                let (line0, s2) = ext e ''readStoredStringToBuffer'' [B (ID_STRING_WARNING k)] s1;
                    (line1, s3) = ext e ''readStoredStringToBuffer'' [B (ID_STRING_ALLOW_UPDATE k)] s2;
                    (pwd_set, s4) = ext e ''eeprom_read_byte'' [W (EEP_BOOT_PWD_SET k)] s3
                in if r8 pwd_set \<noteq> BOOTLOADER_PWDOK_KEY k
                   then Some (Break (PLUGIN_BYTE_OK k),
                              run ''guiGetBackToCurrentScreen'' [] (s4\<lparr>mediaFlashImportApproved := True\<rparr>))
                   else
                     let (conf, s5) = ext e ''guiAskForConfirmation'' [I 2, W (r16 line0), W (r16 line1)] s4
                     in if r8 conf = RETURN_OK k
                        then (case checkMooltipassPassword k e (body_data msg) (EEP_BOOT_PWD k)
                                     (of_nat (PACKET_EXPORT_SIZE k)) s5 of
                                None \<Rightarrow> None
                              | Some (ok, s6) \<Rightarrow>
                                  if ok
                                  then Some (Break (PLUGIN_BYTE_OK k),
                                             run ''guiGetBackToCurrentScreen'' []
                                               (s6\<lparr>mediaFlashImportApproved := True\<rparr>))
                                  else Some (Break (PLUGIN_BYTE_ERROR k),
                                             run ''guiGetBackToCurrentScreen'' [] s6))
                        else Some (Break (PLUGIN_BYTE_ERROR k), run ''guiGetBackToCurrentScreen'' [] s5)
              else Some (Break (PLUGIN_BYTE_ERROR k), s1))"

definition case_CMD_IMPORT_MEDIA :: "cfg \<Rightarrow> usbMsg \<Rightarrow> mp_state \<Rightarrow> flow \<times> mp_state" where
  "case_CMD_IMPORT_MEDIA k msg s =
     (if \<not> mediaFlashImportApproved s
         \<or> unat (mediaFlashImportPage s) \<ge> GRAPHIC_ZONE_PAGE_END k
         \<or> unat (mediaFlashImportOffset s + ucast (len msg)) > BYTES_PER_PAGE k
      then (Break (PLUGIN_BYTE_ERROR k), s\<lparr>mediaFlashImportApproved := False\<rparr>)
      else
        let s1 = run ''flashWriteBuffer''
                   [Bs (take (unat (len msg)) (body_data msg)), I (uint (mediaFlashImportOffset s)),
                    I (uint (len msg))] s;
            s2 = s1\<lparr>mediaFlashImportOffset := mediaFlashImportOffset s1 + ucast (len msg)\<rparr>;
            s3 = (if unat (mediaFlashImportOffset s2) = BYTES_PER_PAGE k
                  then (run ''flashWriteBufferToPage'' [W (mediaFlashImportPage s2)] s2)
                         \<lparr>mediaFlashImportOffset := 0, mediaFlashImportPage := mediaFlashImportPage s2 + 1\<rparr>
                  else s2)
        in (Break (PLUGIN_BYTE_OK k), s3))"

text \<open>The sequence that arms the watchdog before \<^verbatim>\<open>while(1);\<close>.\<close>

definition wdt_reset_sequence :: "bool \<Rightarrow> mp_state \<Rightarrow> mp_state" where
  "wdt_reset_sequence with_sei s =
     (let s1 = run ''cli'' [] s;
          s2 = run ''wdt_reset'' [] s1;
          s3 = run ''wdt_clear_flag'' [] s2;
          s4 = run ''wdt_change_enable'' [] s3;
          s5 = run ''wdt_enable_2s'' [] s4
      in if with_sei then run ''sei'' [] s5 else s5)"

definition case_CMD_IMPORT_MEDIA_END :: "cfg \<Rightarrow> env \<Rightarrow> mp_state \<Rightarrow> flow \<times> mp_state" where
  "case_CMD_IMPORT_MEDIA_END k e s =
     (let s1 = (if mediaFlashImportApproved s \<and> mediaFlashImportOffset s \<noteq> 0
                then run ''flashWriteBufferToPage'' [W (mediaFlashImportPage s)] s else s);
          s2 = s1\<lparr>mediaFlashImportApproved := False\<rparr>
      in if MINI_PREPRODUCTION_SETUP k \<or> MINI_PREPRODUCTION_SETUP_ACC k
         then let (pwd_set, s3) = ext e ''eeprom_read_byte'' [W (EEP_BOOT_PWD_SET k)] s2
              in if r8 pwd_set = BOOTLOADER_PWDOK_KEY k
                 then (Spin, wdt_reset_sequence False
                               (run ''eeprom_write_word'' [W (EEP_BOOTKEY_ADDR k), W (BOOTLOADER_BOOTKEY k)] s3))
                 else (Break (PLUGIN_BYTE_OK k), s3)
         else (Break (PLUGIN_BYTE_OK k), s2))"

text \<open>\<^verbatim>\<open>mp_timeout_enabled\<close> and \<^verbatim>\<open>wheel_reverse_bool\<close> are variables of other translation
  units; an assignment to one of them is recorded as a call of that name.\<close>

definition case_CMD_SET_MOOLTIPASS_PARM :: "cfg \<Rightarrow> env \<Rightarrow> usbMsg \<Rightarrow> mp_state \<Rightarrow> flow \<times> mp_state" where
  "case_CMD_SET_MOOLTIPASS_PARM k e msg s =
     (if len msg = 2
      then
        let s1 = run ''setMooltipassParameterInEeprom'' [B (body_data msg ! 0), B (body_data msg ! 1)] s;
            (tmo, s2) = ext e ''getMooltipassParameterInEeprom'' [B (LOCK_TIMEOUT_ENABLE_PARAM k)] s1;
            s3 = run ''mp_timeout_enabled'' [B (r8 tmo)] s2
        in if MINI_VERSION k
           then let (rev, s4) = ext e ''getMooltipassParameterInEeprom'' [B (WHEEL_DIRECTION_REVERSE_PARAM k)] s3;
                    s5 = run ''wheel_reverse_bool'' [B (r8 rev)] s4;
                    (con, s6) = ext e ''getMooltipassParameterInEeprom''
                                  [B (MINI_OLED_CONTRAST_CURRENT_PARAM k)] s5
                in (Break (PLUGIN_BYTE_OK k), run ''miniOledSetContrastCurrent'' [B (r8 con)] s6)
           else (Break (PLUGIN_BYTE_OK k), s3)
      else (Break (PLUGIN_BYTE_ERROR k), s))"

definition case_CMD_GET_MOOLTIPASS_PARM :: "env \<Rightarrow> usbMsg \<Rightarrow> mp_state \<Rightarrow> flow \<times> mp_state" where
  "case_CMD_GET_MOOLTIPASS_PARM e msg s =
     (let (v, s1) = ext e ''getMooltipassParameterInEeprom'' [B (body_data msg ! 0)] s
      in (Break (r8 v), s1))"

definition case_CMD_GET_CUR_CARD_CPZ :: "cfg \<Rightarrow> env \<Rightarrow> mp_state \<Rightarrow> flow \<times> mp_state" where
  "case_CMD_GET_CUR_CARD_CPZ k e s =
     (let (scr, s1) = ext e ''getCurrentScreen'' [] s;
          (allowed, s2) =
            (if r8 scr = SCREEN_DEFAULT_INSERTED_UNKNOWN k then (True, s1)
             else let (unlocked, sa) = ext e ''getSmartCardInsertedUnlocked'' [] s1
                  in (r8 unlocked = TRUE k, sa))
      in if allowed
         then let (cpz, s3) = ext e ''readCodeProtectedZone'' [] s2
              in (Return, usbSendMessage (CMD_GET_CUR_CARD_CPZ k) (int (SMARTCARD_CPZ_LENGTH k))
                            (buf_read cpz (SMARTCARD_CPZ_LENGTH k)) s3)
         else (Break (PLUGIN_BYTE_ERROR k), s2))"

definition case_CMD_RESET_CARD :: "cfg \<Rightarrow> env \<Rightarrow> mp_state \<Rightarrow> flow \<times> mp_state" where
  "case_CMD_RESET_CARD k e s =
     (let (scr, s1) = ext e ''getCurrentScreen'' [] s
      in if r8 scr = SCREEN_DEFAULT_INSERTED_UNKNOWN k
         then let s2 = run ''activityDetectedRoutine'' [] s1;
                  (unl, s3) = ext e ''guiCardUnlockingProcess'' [] s2
              in if r8 unl = RETURN_OK k
                 then (Break (PLUGIN_BYTE_OK k),
                       run ''guiGetBackToCurrentScreen'' []
                         (run ''guiSetCurrentScreen'' [B (SCREEN_DEFAULT_INSERTED_INVALID k)]
                            (run ''eraseSmartCard'' [] s3)))
                 else (Break (PLUGIN_BYTE_ERROR k), run ''guiGetBackToCurrentScreen'' [] s3)
         else (Break (PLUGIN_BYTE_ERROR k), s1))"

text \<open>Line 999 is a chain of \<^verbatim>\<open>&&\<close>: each call is made only when all the tests before
  it have passed.\<close>

definition case_CMD_UNLOCK_WITH_PIN :: "cfg \<Rightarrow> env \<Rightarrow> usbMsg \<Rightarrow> mp_state \<Rightarrow> flow \<times> mp_state" where
  "case_CMD_UNLOCK_WITH_PIN k e msg s =
     (let (ok, s5) =
            (if len msg = 2
             then let (scr, s1) = ext e ''getCurrentScreen'' [] s
                  in if r8 scr = SCREEN_DEFAULT_INSERTED_LCK k
                     then let (det, s2) = ext e ''cardDetectedRoutine'' [] s1
                          in if r8 det = RETURN_MOOLTIPASS_USER k
                             then let (str, s3) = ext e ''readStoredStringToBuffer''
                                                    [B (ID_STRING_PIN_COMPUTER k)] s2;
                                      (conf, s4) = ext e ''guiAskForConfirmation'' [I 1, W (r16 str)] s3
                                  in if r8 conf = RETURN_OK k
                                     then let (valid, sa) = ext e ''validCardDetectedFunction''
                                                              [W (u16_at (body_data msg) 0)] s4
                                          in (r8 valid = RETURN_VCARD_OK k, sa)
                                     else (False, s4)
                             else (False, s2)
                     else (False, s1)
             else (False, s))
      in if ok
         then (Break (PLUGIN_BYTE_OK k),
               run ''guiGetBackToCurrentScreen'' []
                 (run ''guiSetCurrentScreen'' [B (SCREEN_DEFAULT_INSERTED_NLCK k)] s5))
         else (Break (PLUGIN_BYTE_ERROR k), run ''guiGetBackToCurrentScreen'' [] s5))"

definition case_CMD_ADD_UNKNOWN_CARD :: "cfg \<Rightarrow> env \<Rightarrow> usbMsg \<Rightarrow> mp_state \<Rightarrow> flow \<times> mp_state" where
  "case_CMD_ADD_UNKNOWN_CARD k e msg s =
     (let ctr_nonce = drop (SMARTCARD_CPZ_LENGTH k) (body_data msg)
      in if unat (len msg) = SMARTCARD_CPZ_LENGTH k + AES256_CTR_LENGTH k
         then let (scr, s1) = ext e ''getCurrentScreen'' [] s
              in if r8 scr = SCREEN_DEFAULT_INSERTED_UNKNOWN k
                 then
                   let (cpz, s2) = ext e ''readCodeProtectedZone'' [] s1;
                       temp_buffer = buf_read cpz (AES_KEY_LENGTH k div 8);
                       s3 = run ''activityDetectedRoutine'' [] s2;
                       (ok, new_user_id, s6) =
                         (if memcmp temp_buffer (body_data msg) (SMARTCARD_CPZ_LENGTH k) = 0
                          then let (unl, s4) = ext e ''guiCardUnlockingProcess'' [] s3
                               in if r8 unl = RETURN_OK k
                                  then let (added, s5) = ext e ''addNewUserForExistingCard'' [Bs ctr_nonce] s4
                                       in (r8 added = RETURN_OK k, hd (buf_read added 1), s5)
                                  else (False, 0, s4)
                          else (False, 0, s3))
                   in if ok
                      then
                        let (key, s7) = ext e ''readAES256BitsKey'' [] s6;
                            temp_buffer = buf_read key (AES_KEY_LENGTH k div 8);
                            s8 = run ''initUserFlashContext'' [B new_user_id] s7;
                            s9 = run ''initEncryptionHandling'' [Bs temp_buffer, Bs ctr_nonce] s8;
                            s10 = run ''setSmartCardInsertedUnlocked'' [] s9;
                            s11 = run ''guiSetCurrentScreen'' [B (SCREEN_DEFAULT_INSERTED_NLCK k)] s10
                        in (Break (PLUGIN_BYTE_OK k), run ''guiGetBackToCurrentScreen'' [] s11)
                      else (Break (PLUGIN_BYTE_ERROR k), run ''guiGetBackToCurrentScreen'' [] s6)
                 else (Break (PLUGIN_BYTE_ERROR k), s1)
         else (Break (PLUGIN_BYTE_ERROR k), s))"

definition case_CMD_READ_CARD_LOGIN :: "cfg \<Rightarrow> env \<Rightarrow> mp_state \<Rightarrow> flow \<times> mp_state" where
  "case_CMD_READ_CARD_LOGIN k e s =
     (let (unlocked, s1) = ext e ''getSmartCardInsertedUnlocked'' [] s
      in if r8 unlocked = TRUE k
         then let (login, s2) = ext e ''readMooltipassWebsiteLogin'' [] s1
              in (Return, usbSendMessage (CMD_READ_CARD_LOGIN k) (int (SMARTCARD_MTP_LOGIN_LENGTH k div 8))
                            (buf_read login (SMARTCARD_MTP_LOGIN_LENGTH k div 8)) s2)
         else (Break (PLUGIN_BYTE_ERROR k), s1))"

definition case_CMD_READ_CARD_PASS :: "cfg \<Rightarrow> env \<Rightarrow> mp_state \<Rightarrow> flow \<times> mp_state" where
  "case_CMD_READ_CARD_PASS k e s =
     (let (unlocked, s1) = ext e ''getSmartCardInsertedUnlocked'' [] s
      in if r8 unlocked = TRUE k
         then let (str, s2) = ext e ''readStoredStringToBuffer'' [B (ID_STRING_SEND_SMC_PASS k)] s1;
                  (conf, s3) = ext e ''guiAskForConfirmation'' [I 1, W (r16 str)] s2
              in if r8 conf = RETURN_OK k
                 then let (pass, s4) = ext e ''readMooltipassWebsitePassword'' [] s3;
                          s5 = usbSendMessage (CMD_READ_CARD_PASS k) (int (SMARTCARD_MTP_PASS_LENGTH k div 8))
                                 (buf_read pass (SMARTCARD_MTP_PASS_LENGTH k div 8)) s4
                      in (Return, run ''guiGetBackToCurrentScreen'' [] s5)
                 else (Break (PLUGIN_BYTE_ERROR k), run ''guiGetBackToCurrentScreen'' [] s3)
         else (Break (PLUGIN_BYTE_ERROR k), s1))"

definition case_CMD_SET_CARD_LOGIN :: "cfg \<Rightarrow> env \<Rightarrow> usbMsg \<Rightarrow> mp_state \<Rightarrow> flow \<times> mp_state" where
  "case_CMD_SET_CARD_LOGIN k e msg s =
     (let (unlocked, s1) = ext e ''getSmartCardInsertedUnlocked'' [] s
      in if r8 unlocked = TRUE k
         then let (str, s2) = ext e ''readStoredStringToBuffer'' [B (ID_STRING_SET_SMC_LOGIN k)] s1;
                  (conf, s3) = ext e ''guiAskForConfirmation'' [I 1, W (r16 str)] s2
              in if r8 conf = RETURN_OK k
                 then let (az2, s4) = ext e ''readApplicationZone2'' [] s3;
                          temp_az2 = buf_read az2 (SMARTCARD_AZ_BIT_LENGTH k div 8);
                          s5 = run ''eraseApplicationZone1NZone2SMC'' [B (FALSE k)] s4;
                          temp_az2 = memcpy_at temp_az2 (SMARTCARD_MTP_LOGIN_OFFSET k div 8)
                                       (body_data msg) (unat (len msg));
                          s6 = run ''writeApplicationZone2'' [Bs temp_az2] s5
                      in (Break (PLUGIN_BYTE_OK k), run ''guiGetBackToCurrentScreen'' [] s6)
                 else (Break (PLUGIN_BYTE_ERROR k), run ''guiGetBackToCurrentScreen'' [] s3)
         else (Break (PLUGIN_BYTE_ERROR k), s1))"

definition case_CMD_SET_CARD_PASS :: "cfg \<Rightarrow> env \<Rightarrow> usbMsg \<Rightarrow> mp_state \<Rightarrow> flow \<times> mp_state" where
  "case_CMD_SET_CARD_PASS k e msg s =
     (let (unlocked, s1) = ext e ''getSmartCardInsertedUnlocked'' [] s
      in if r8 unlocked = TRUE k
         then let (str, s2) = ext e ''readStoredStringToBuffer'' [B (ID_STRING_SET_SMC_PASS k)] s1;
                  (conf, s3) = ext e ''guiAskForConfirmation'' [I 1, W (r16 str)] s2
              in if r8 conf = RETURN_OK k
                 then let (az1, s4) = ext e ''readApplicationZone1'' [] s3;
                          temp_az1 = buf_read az1 (SMARTCARD_AZ_BIT_LENGTH k div 8);
                          s5 = run ''eraseApplicationZone1NZone2SMC'' [B (TRUE k)] s4;
                          temp_az1 = memcpy_at temp_az1 (SMARTCARD_MTP_PASS_OFFSET k div 8)
                                       (body_data msg) (unat (len msg));
                          s6 = run ''writeApplicationZone1'' [Bs temp_az1] s5
                      in (Break (PLUGIN_BYTE_OK k), run ''guiGetBackToCurrentScreen'' [] s6)
                 else (Break (PLUGIN_BYTE_ERROR k), run ''guiGetBackToCurrentScreen'' [] s3)
         else (Break (PLUGIN_BYTE_ERROR k), s1))"

definition case_CMD_GET_RANDOM_NUMBER :: "cfg \<Rightarrow> env \<Rightarrow> mp_state \<Rightarrow> flow \<times> mp_state" where
  "case_CMD_GET_RANDOM_NUMBER k e s =
     (let (rnd, s1) = ext e ''fillArrayWithRandomBytes'' [I 32] s
      in (Return, usbSendMessage (CMD_GET_RANDOM_NUMBER k) 32 (buf_read rnd 32) s1))"

definition case_CMD_SET_DATE :: "cfg \<Rightarrow> usbMsg \<Rightarrow> mp_state \<Rightarrow> flow \<times> mp_state" where
  "case_CMD_SET_DATE k msg s =
     (Break (PLUGIN_BYTE_OK k), run ''setCurrentDate'' [W (u16_at (body_data msg) 0)] s)"

definition case_CMD_SET_UID :: "cfg \<Rightarrow> env \<Rightarrow> usbMsg \<Rightarrow> mp_state \<Rightarrow> flow \<times> mp_state" where
  "case_CMD_SET_UID k e msg s =
     (if unat (len msg) = UID_REQUEST_KEY_SIZE k + UID_SIZE k
      then let (key_set, s1) = ext e ''eeprom_read_byte'' [W (EEP_UID_REQUEST_KEY_SET_ADDR k)] s
           in if r8 key_set \<noteq> UID_REQUEST_KEY_OK_KEY k
              then let s2 = run ''eeprom_write_block''
                              [Bs (take (UID_REQUEST_KEY_SIZE k + UID_SIZE k) (body_data msg)),
                               W (EEP_UID_REQUEST_KEY_ADDR k), I (int (UID_REQUEST_KEY_SIZE k + UID_SIZE k))] s1;
                       s3 = run ''eeprom_write_byte''
                              [W (EEP_UID_REQUEST_KEY_SET_ADDR k), B (UID_REQUEST_KEY_OK_KEY k)] s2
                   in (Break (PLUGIN_BYTE_OK k), s3)
              else (Break (PLUGIN_BYTE_ERROR k), s1)
      else (Break (PLUGIN_BYTE_ERROR k), s))"

definition case_CMD_GET_UID :: "cfg \<Rightarrow> env \<Rightarrow> usbMsg \<Rightarrow> mp_state \<Rightarrow> (flow \<times> mp_state) option" where
  "case_CMD_GET_UID k e msg s =
     (if unat (len msg) = UID_REQUEST_KEY_SIZE k
      then let (key_set, s1) = ext e ''eeprom_read_byte'' [W (EEP_UID_REQUEST_KEY_SET_ADDR k)] s
           in if r8 key_set = UID_REQUEST_KEY_OK_KEY k
              then (case checkMooltipassPassword k e (body_data msg) (EEP_UID_REQUEST_KEY_ADDR k)
                           (of_nat (UID_REQUEST_KEY_SIZE k)) s1 of
                      None \<Rightarrow> None
                    | Some (ok, s2) \<Rightarrow>
                        if ok
                        then let (uid, s3) = ext e ''eeprom_read_block''
                                               [W (EEP_UID_ADDR k), B (of_nat (UID_SIZE k))] s2
                             in Some (Return, usbSendMessage (CMD_GET_UID k) (int (UID_SIZE k))
                                                (buf_read uid (UID_SIZE k)) s3)
                        else Some (Break (PLUGIN_BYTE_ERROR k), s2))
              else Some (Break (PLUGIN_BYTE_ERROR k), s1)
      else Some (Break (PLUGIN_BYTE_ERROR k), s))"

definition case_CMD_SET_BOOTLOADER_PWD :: "cfg \<Rightarrow> env \<Rightarrow> usbMsg \<Rightarrow> mp_state \<Rightarrow> flow \<times> mp_state" where
  "case_CMD_SET_BOOTLOADER_PWD k e msg s =
     (let (pwd_set, s1) = ext e ''eeprom_read_byte'' [W (EEP_BOOT_PWD_SET k)] s
      in if r8 pwd_set \<noteq> BOOTLOADER_PWDOK_KEY k \<and> unat (len msg) = PACKET_EXPORT_SIZE k
         then let s2 = run ''eeprom_write_block''
                         [Bs (take (PACKET_EXPORT_SIZE k) (body_data msg)), W (EEP_BOOT_PWD k),
                          I (int (PACKET_EXPORT_SIZE k))] s1;
                  s3 = run ''eeprom_write_word'' [W (EEP_BACKUP_BOOTKEY_ADDR k), W (CORRECT_BOOTKEY k)] s2;
                  s4 = run ''eeprom_write_byte'' [W (EEP_BOOT_PWD_SET k), B (BOOTLOADER_PWDOK_KEY k)] s3
              in (Break (PLUGIN_BYTE_OK k), s4)
         else (Break (PLUGIN_BYTE_ERROR k), s1))"

text \<open>
  \<^verbatim>\<open>CMD_JUMP_TO_BOOTLOADER\<close> (lines 1244 to 1288) has no \<^verbatim>\<open>break\<close>. In a development build
  it always ends in \<^verbatim>\<open>while(1);\<close>. Otherwise, when the password test fails, control leaves
  the case after \<^verbatim>\<open>guiGetBackToCurrentScreen\<close> and falls into the next statement of the
  switch, which in such a build is \<^verbatim>\<open>default: return;\<close>.
\<close>

definition case_CMD_JUMP_TO_BOOTLOADER ::
  "cfg \<Rightarrow> env \<Rightarrow> usbMsg \<Rightarrow> mp_state \<Rightarrow> (flow \<times> mp_state) option" where
  "case_CMD_JUMP_TO_BOOTLOADER k e msg s =
     (let s1 = run ''userViewDelay'' [] s
      in if DEV_PLUGIN_COMMS k \<or> AVR_BOOTLOADER_PROGRAMMING k
         then
           let s2 = run ''eeprom_write_word'' [W (EEP_BOOTKEY_ADDR k), W (BOOTLOADER_BOOTKEY k)] s1;
               s3 = run ''eeprom_write_byte'' [W (EEP_BOOT_PWD_SET k), B (FALSE k)] s2
           in Some (Spin, wdt_reset_sequence True s3)
         else
           let (line0, s2) = ext e ''readStoredStringToBuffer'' [B (ID_STRING_WARNING k)] s1;
               (line1, s3) = ext e ''readStoredStringToBuffer'' [B (ID_STRING_ALLOW_UPDATE k)] s2;
               (pwd_set, s4) = ext e ''eeprom_read_byte'' [W (EEP_BOOT_PWD_SET k)] s3
           in if r8 pwd_set = BOOTLOADER_PWDOK_KEY k \<and> unat (len msg) = PACKET_EXPORT_SIZE k
              then
                let (conf, s5) = ext e ''guiAskForConfirmation'' [I 2, W (r16 line0), W (r16 line1)] s4
                in if r8 conf = RETURN_OK k
                   then (case checkMooltipassPassword k e (body_data msg) (EEP_BOOT_PWD k)
                                (of_nat (PACKET_EXPORT_SIZE k)) s5 of
                           None \<Rightarrow> None
                         | Some (ok, s6) \<Rightarrow>
                             if ok
                             then
                               let s7 = run ''eeprom_write_word''
                                          [W (EEP_BOOTKEY_ADDR k), W (BOOTLOADER_BOOTKEY k)] s6;
                                   s8 = run ''eeprom_write_word''
                                          [W (EEP_BACKUP_BOOTKEY_ADDR k), W (BOOTLOADER_BOOTKEY k)] s7;
                                   s9 = run ''eeprom_write_byte'' [W (EEP_BOOT_PWD_SET k), B (FALSE k)] s8
                               in Some (Spin, wdt_reset_sequence True s9)
                             else Some (Return, run ''guiGetBackToCurrentScreen'' [] s6))
                   else Some (Return, run ''guiGetBackToCurrentScreen'' [] s5)
              else Some (Return, run ''guiGetBackToCurrentScreen'' [] s4))"

text \<open>The development commands (lines 1291 to 1404).\<close>

definition case_CMD_ERASE_EEPROM :: "cfg \<Rightarrow> mp_state \<Rightarrow> flow \<times> mp_state" where
  "case_CMD_ERASE_EEPROM k s =
     (Break (PLUGIN_BYTE_OK k),
      run ''firstTimeUserHandlingInit'' [] (run ''eraseFlashUsersContents'' [] s))"

definition case_CMD_ERASE_FLASH :: "cfg \<Rightarrow> mp_state \<Rightarrow> flow \<times> mp_state" where
  "case_CMD_ERASE_FLASH k s = (Break (PLUGIN_BYTE_OK k), run ''eraseFlashUsersContents'' [] s)"

definition case_CMD_ERASE_SMC :: "cfg \<Rightarrow> env \<Rightarrow> mp_state \<Rightarrow> flow \<times> mp_state" where
  "case_CMD_ERASE_SMC k e s =
     (let (unlocked, s1) = ext e ''getSmartCardInsertedUnlocked'' [] s
      in if r8 unlocked = TRUE k then (Break (PLUGIN_BYTE_OK k), run ''eraseSmartCard'' [] s1)
         else (Break (PLUGIN_BYTE_ERROR k), s1))"

definition case_CMD_DRAW_BITMAP :: "cfg \<Rightarrow> usbMsg \<Rightarrow> mp_state \<Rightarrow> flow \<times> mp_state" where
  "case_CMD_DRAW_BITMAP k msg s =
     (let d = body_data msg
      in if HARDWARE_OLIVIER_V1 k
         then
           let s1 = run ''usbPrintf_P'' [B (d ! 0)] s;
               s2 = run ''oledWriteActiveBuffer'' [] s1;
               s3 = (if d ! 3 \<noteq> 0 then run ''oledClear'' [] s2 else s2)
           in (Return, run ''oledBitmapDrawFlash'' [B (d ! 1), B (d ! 2), B (d ! 0), I 0] s3)
         else (Return, s))"

definition case_CMD_CLONE_SMARTCARD :: "cfg \<Rightarrow> env \<Rightarrow> mp_state \<Rightarrow> flow \<times> mp_state" where
  "case_CMD_CLONE_SMARTCARD k e s =
     (let (r, s1) = ext e ''cloneSmartCardProcess'' [W (SMARTCARD_DEFAULT_PIN k)] s
      in if r8 r = RETURN_OK k then (Break (PLUGIN_BYTE_OK k), s1)
         else (Break (PLUGIN_BYTE_ERROR k), s1))"

definition case_CMD_MINI_FRAME_BUF_DATA :: "cfg \<Rightarrow> usbMsg \<Rightarrow> mp_state \<Rightarrow> flow \<times> mp_state" where
  "case_CMD_MINI_FRAME_BUF_DATA k msg s =
     (if MINI_VERSION k
      then (Break (PLUGIN_BYTE_ERROR k),
            run ''miniOledWriteFrameBuffer''
              [W (u16_at (body_data msg) 0), Bs (drop 2 (body_data msg)), I (int (unat (len msg)) - 2)] s)
      else (Break (PLUGIN_BYTE_ERROR k), s))"

definition case_CMD_SET_FONT :: "cfg \<Rightarrow> usbMsg \<Rightarrow> mp_state \<Rightarrow> flow \<times> mp_state" where
  "case_CMD_SET_FONT k msg s =
     (let d = body_data msg
      in if HARDWARE_OLIVIER_V1 k
         then
           let s1 = run ''usbPrintf_P'' [B (d ! 0)] s;
               s2 = run ''oledSetFont'' [B (d ! 0)] s1
           in if len msg > 1
              then let s3 = run ''usbPrintf_P'' [Bs (drop 1 d)] s2;
                       s4 = run ''oledDisplayOtherBuffer'' [] s3;
                       s5 = run ''oledWriteActiveBuffer'' [] s4;
                       s6 = run ''oledClear'' [] s5
                   in (Return, run ''oledPutstr'' [Bs (drop 1 d)] s6)
              else (Return, s2)
         else (Return, s))"

definition case_CMD_STACK_FREE :: "cfg \<Rightarrow> env \<Rightarrow> mp_state \<Rightarrow> flow \<times> mp_state" where
  "case_CMD_STACK_FREE k e s =
     (let (freebytes, s1) = ext e ''stackFree'' [] s
      in (Return, usbSendMessage (CMD_STACK_FREE k) 2 (u16_bytes (r16 freebytes)) s1))"

definition case_CMD_USB_KEYBOARD_PRESS :: "cfg \<Rightarrow> usbMsg \<Rightarrow> mp_state \<Rightarrow> flow \<times> mp_state" where
  "case_CMD_USB_KEYBOARD_PRESS k msg s =
     (if len msg = 2
      then (Break (PLUGIN_BYTE_OK k),
            run ''usbKeyboardPress'' [B (body_data msg ! 0), B (body_data msg ! 1)] s)
      else (Break (PLUGIN_BYTE_ERROR k), s))"

subsection \<open>usbProcessIncoming (lines 150 to 1411)\<close>

text \<open>The answer to a status request, or to any packet while the user is asked for the
  PIN (lines 185 to 212).\<close>

definition send_status :: "cfg \<Rightarrow> env \<Rightarrow> u8 \<Rightarrow> mp_state \<Rightarrow> mp_state" where
  "send_status k e caller_id s =
     (let mp_status = (0 :: u8);
          (absent, s1) = ext e ''isSmartCardAbsent'' [] s;
          mp_status = (if r8 absent = RETURN_NOK k then mp_status OR 0x01 else mp_status);
          mp_status = (if caller_id = USB_CALLER_PIN k then mp_status OR 0x02 else mp_status);
          (unlocked, s2) = ext e ''getSmartCardInsertedUnlocked'' [] s1;
          mp_status = (if r8 unlocked = TRUE k then mp_status OR 0x04 else mp_status);
          (scr, s3) = ext e ''getCurrentScreen'' [] s2;
          mp_status = (if r8 scr = SCREEN_DEFAULT_INSERTED_UNKNOWN k then mp_status OR 0x08 else mp_status)
      in usbSendMessage (CMD_MOOLTIPASS_STATUS k) 1 [mp_status] s3)"

text \<open>Lines 214 to 240: \<open>None\<close> when no text field check is needed, otherwise
  \<^verbatim>\<open>max_text_size\<close>, a \<^verbatim>\<open>uint8_t\<close>.\<close>

definition max_text_size :: "cfg \<Rightarrow> u8 \<Rightarrow> u8 option" where
  "max_text_size k datacmd =
     (if datacmd = CMD_CONTEXT k \<or> datacmd = CMD_ADD_CONTEXT k
         \<or> datacmd = CMD_SET_DATA_SERVICE k \<or> datacmd = CMD_ADD_DATA_SERVICE k
      then Some (of_nat (NODE_PARENT_SIZE_OF_SERVICE k))
      else if datacmd = CMD_SET_LOGIN k then Some (of_nat (NODE_CHILD_SIZE_OF_LOGIN k))
      else if datacmd = CMD_SET_PASSWORD k \<or> datacmd = CMD_CHECK_PASSWORD k
      then Some (of_nat (NODE_CHILD_SIZE_OF_PASSWORD k))
      else if datacmd = CMD_SET_CARD_LOGIN k then Some (of_nat (SMARTCARD_MTP_LOGIN_LENGTH k div 8))
      else if datacmd = CMD_SET_CARD_PASS k then Some (of_nat (SMARTCARD_MTP_PASS_LENGTH k div 8))
      else None)"

text \<open>
  The switch: its case labels in the order of the source, each with the body of its case;
  the lists under a condition are the cases inside \<^verbatim>\<open>#ifdef\<close>. A switch jumps to the label
  equal to the command byte, and C requires the labels of a switch to be distinct.
\<close>

definition total :: "(mp_state \<Rightarrow> flow \<times> mp_state) \<Rightarrow> mp_state \<Rightarrow> (flow \<times> mp_state) option" where
  "total body = (\<lambda>s. Some (body s))"

definition switch_table ::
  "cfg \<Rightarrow> env \<Rightarrow> usbMsg \<Rightarrow> (u8 \<times> (mp_state \<Rightarrow> (flow \<times> mp_state) option)) list" where
  "switch_table k e msg =
     [(CMD_CANCEL_REQUEST k, total case_CMD_CANCEL_REQUEST),
      (CMD_PING k, total (case_CMD_PING msg)),
      (CMD_VERSION k, total (case_CMD_VERSION k))]
     @ (if USB_FEATURE_PLUGIN_COMMS k
        then [(CMD_CONTEXT k, total (case_CMD_CONTEXT k e msg)),
              (CMD_SET_DATA_SERVICE k, total (case_CMD_SET_DATA_SERVICE k e msg)),
              (CMD_GET_LOGIN k, total (case_CMD_GET_LOGIN k e)),
              (CMD_GET_PASSWORD k, total (case_CMD_GET_PASSWORD k e)),
              (CMD_GET_DESCRIPTION k, total (case_CMD_GET_DESCRIPTION k e)),
              (CMD_SET_LOGIN k, total (case_CMD_SET_LOGIN k e msg)),
              (CMD_SET_PASSWORD k, total (case_CMD_SET_PASSWORD k e msg)),
              (CMD_CHECK_PASSWORD k, total (case_CMD_CHECK_PASSWORD k e msg)),
              (CMD_ADD_CONTEXT k, total (case_CMD_ADD_CONTEXT k e msg)),
              (CMD_ADD_DATA_SERVICE k, total (case_CMD_ADD_DATA_SERVICE k e msg)),
              (CMD_WRITE_32B_IN_DN k, total (case_CMD_WRITE_32B_IN_DN k e msg)),
              (CMD_READ_32B_IN_DN k, total (case_CMD_READ_32B_IN_DN k e))]
        else [])
     @ [(CMD_START_MEMORYMGMT k, total (case_CMD_START_MEMORYMGMT k e)),
        (CMD_GET_STARTING_PARENT k, total (case_CMD_GET_STARTING_PARENT k e)),
        (CMD_GET_DN_START_PARENT k, total (case_CMD_GET_DN_START_PARENT k e)),
        (CMD_GET_FREE_SLOTS_ADDR k, total (case_CMD_GET_FREE_SLOTS_ADDR k e msg)),
        (CMD_END_MEMORYMGMT k, total (case_CMD_END_MEMORYMGMT k)),
        (CMD_READ_FLASH_NODE k, total (case_CMD_READ_FLASH_NODE k e msg)),
        (CMD_SET_FAVORITE k, total (case_CMD_SET_FAVORITE k msg)),
        (CMD_GET_FAVORITE k, total (case_CMD_GET_FAVORITE k e msg)),
        (CMD_SET_STARTING_PARENT k, total (case_CMD_SET_STARTING_PARENT k msg)),
        (CMD_SET_DN_START_PARENT k, total (case_CMD_SET_DN_START_PARENT k msg)),
        (CMD_SET_CTRVALUE k, total (case_CMD_SET_CTRVALUE k msg)),
        (CMD_GET_CTRVALUE k, total (case_CMD_GET_CTRVALUE k e)),
        (CMD_ADD_CARD_CPZ_CTR k, total (case_CMD_ADD_CARD_CPZ_CTR k e msg)),
        (CMD_GET_CARD_CPZ_CTR k, total (case_CMD_GET_CARD_CPZ_CTR k e)),
        (CMD_WRITE_FLASH_NODE k, total (case_CMD_WRITE_FLASH_NODE k e msg)),
        (CMD_IMPORT_MEDIA_START k, case_CMD_IMPORT_MEDIA_START k e msg),
        (CMD_IMPORT_MEDIA k, total (case_CMD_IMPORT_MEDIA k msg)),
        (CMD_IMPORT_MEDIA_END k, total (case_CMD_IMPORT_MEDIA_END k e)),
        (CMD_SET_MOOLTIPASS_PARM k, total (case_CMD_SET_MOOLTIPASS_PARM k e msg)),
        (CMD_GET_MOOLTIPASS_PARM k, total (case_CMD_GET_MOOLTIPASS_PARM e msg)),
        (CMD_GET_CUR_CARD_CPZ k, total (case_CMD_GET_CUR_CARD_CPZ k e)),
        (CMD_RESET_CARD k, total (case_CMD_RESET_CARD k e)),
        (CMD_UNLOCK_WITH_PIN k, total (case_CMD_UNLOCK_WITH_PIN k e msg)),
        (CMD_ADD_UNKNOWN_CARD k, total (case_CMD_ADD_UNKNOWN_CARD k e msg)),
        (CMD_READ_CARD_LOGIN k, total (case_CMD_READ_CARD_LOGIN k e)),
        (CMD_READ_CARD_PASS k, total (case_CMD_READ_CARD_PASS k e)),
        (CMD_SET_CARD_LOGIN k, total (case_CMD_SET_CARD_LOGIN k e msg)),
        (CMD_SET_CARD_PASS k, total (case_CMD_SET_CARD_PASS k e msg)),
        (CMD_GET_RANDOM_NUMBER k, total (case_CMD_GET_RANDOM_NUMBER k e)),
        (CMD_SET_DATE k, total (case_CMD_SET_DATE k msg))]
     @ (if \<not> POST_KICKSTARTER_UPDATE_SETUP k
        then [(CMD_SET_UID k, total (case_CMD_SET_UID k e msg))] else [])
     @ [(CMD_GET_UID k, case_CMD_GET_UID k e msg),
        (CMD_SET_BOOTLOADER_PWD k, total (case_CMD_SET_BOOTLOADER_PWD k e msg))]
     @ (if \<not> MINI_VERSION k
        then [(CMD_JUMP_TO_BOOTLOADER k, case_CMD_JUMP_TO_BOOTLOADER k e msg)] else [])
     @ (if DEV_PLUGIN_COMMS k
        then [(CMD_ERASE_EEPROM k, total (case_CMD_ERASE_EEPROM k)),
              (CMD_ERASE_FLASH k, total (case_CMD_ERASE_FLASH k)),
              (CMD_ERASE_SMC k, total (case_CMD_ERASE_SMC k e)),
              (CMD_DRAW_BITMAP k, total (case_CMD_DRAW_BITMAP k msg)),
              (CMD_CLONE_SMARTCARD k, total (case_CMD_CLONE_SMARTCARD k e)),
              (CMD_MINI_FRAME_BUF_DATA k, total (case_CMD_MINI_FRAME_BUF_DATA k msg)),
              (CMD_SET_FONT k, total (case_CMD_SET_FONT k msg)),
              (CMD_STACK_FREE k, total (case_CMD_STACK_FREE k e)),
              (CMD_USB_KEYBOARD_PRESS k, total (case_CMD_USB_KEYBOARD_PRESS k msg))]
        else [])"

definition switch_labels :: "cfg \<Rightarrow> u8 list" where
  "switch_labels k =
     [CMD_CANCEL_REQUEST k, CMD_PING k, CMD_VERSION k]
     @ (if USB_FEATURE_PLUGIN_COMMS k
        then [CMD_CONTEXT k, CMD_SET_DATA_SERVICE k, CMD_GET_LOGIN k, CMD_GET_PASSWORD k,
              CMD_GET_DESCRIPTION k, CMD_SET_LOGIN k, CMD_SET_PASSWORD k, CMD_CHECK_PASSWORD k,
              CMD_ADD_CONTEXT k, CMD_ADD_DATA_SERVICE k, CMD_WRITE_32B_IN_DN k, CMD_READ_32B_IN_DN k]
        else [])
     @ [CMD_START_MEMORYMGMT k, CMD_GET_STARTING_PARENT k, CMD_GET_DN_START_PARENT k,
        CMD_GET_FREE_SLOTS_ADDR k, CMD_END_MEMORYMGMT k, CMD_READ_FLASH_NODE k, CMD_SET_FAVORITE k,
        CMD_GET_FAVORITE k, CMD_SET_STARTING_PARENT k, CMD_SET_DN_START_PARENT k, CMD_SET_CTRVALUE k,
        CMD_GET_CTRVALUE k, CMD_ADD_CARD_CPZ_CTR k, CMD_GET_CARD_CPZ_CTR k, CMD_WRITE_FLASH_NODE k,
        CMD_IMPORT_MEDIA_START k, CMD_IMPORT_MEDIA k, CMD_IMPORT_MEDIA_END k,
        CMD_SET_MOOLTIPASS_PARM k, CMD_GET_MOOLTIPASS_PARM k, CMD_GET_CUR_CARD_CPZ k, CMD_RESET_CARD k,
        CMD_UNLOCK_WITH_PIN k, CMD_ADD_UNKNOWN_CARD k, CMD_READ_CARD_LOGIN k,
        CMD_READ_CARD_PASS k, CMD_SET_CARD_LOGIN k, CMD_SET_CARD_PASS k, CMD_GET_RANDOM_NUMBER k,
        CMD_SET_DATE k]
     @ (if \<not> POST_KICKSTARTER_UPDATE_SETUP k then [CMD_SET_UID k] else [])
     @ [CMD_GET_UID k, CMD_SET_BOOTLOADER_PWD k]
     @ (if \<not> MINI_VERSION k then [CMD_JUMP_TO_BOOTLOADER k] else [])
     @ (if DEV_PLUGIN_COMMS k
        then [CMD_ERASE_EEPROM k, CMD_ERASE_FLASH k, CMD_ERASE_SMC k, CMD_DRAW_BITMAP k,
              CMD_CLONE_SMARTCARD k, CMD_MINI_FRAME_BUF_DATA k, CMD_SET_FONT k, CMD_STACK_FREE k,
              CMD_USB_KEYBOARD_PRESS k]
        else [])"

text \<open>How a call of \<open>usbProcessIncoming\<close> ends: it returns, or it sits in \<^verbatim>\<open>while(1);\<close>
  until the watchdog resets the device.\<close>

datatype outcome = Returned | Spinning

text \<open>Lines 250 to 1411: the test for memory management mode, the switch, and the
  answer sent after a \<^verbatim>\<open>break\<close>.\<close>

definition process_command :: "cfg \<Rightarrow> env \<Rightarrow> usbMsg \<Rightarrow> mp_state \<Rightarrow> (outcome \<times> mp_state) option" where
  "process_command k e msg s =
     (let datacmd = cmd msg
      in if datacmd \<ge> FIRST_CMD_FOR_DATAMGMT k \<and> datacmd \<le> LAST_CMD_FOR_DATAMGMT k
            \<and> \<not> memoryManagementModeApproved s
         then Some (Returned, usbSendMessage datacmd 1 [PLUGIN_BYTE_ERROR k] s)
         else (case map_of (switch_table k e msg) datacmd of
                 None \<Rightarrow> Some (Returned, s)
               | Some body \<Rightarrow>
                   (case body s of
                      None \<Rightarrow> None
                    | Some (Break plugin_return_value, s') \<Rightarrow>
                        Some (Returned, usbSendMessage datacmd 1 [plugin_return_value] s')
                    | Some (Return, s') \<Rightarrow> Some (Returned, s')
                    | Some (Spin, s') \<Rightarrow> Some (Spinning, s'))))"

text \<open>
  \<open>rx\<close> is what \<^verbatim>\<open>usbRawHidRecv\<close> delivered: \<open>None\<close> when it did not return
  \<^verbatim>\<open>RETURN_COM_TRANSF_OK\<close>. The result is \<open>None\<close> when the call never ends (the credential
  timer never expires).
\<close>

definition usbProcessIncoming ::
  "cfg \<Rightarrow> env \<Rightarrow> u8 \<Rightarrow> usbMsg option \<Rightarrow> mp_state \<Rightarrow> (outcome \<times> mp_state) option" where
  "usbProcessIncoming k e caller_id rx s =
     (case rx of
        None \<Rightarrow> Some (Returned, s)
      | Some msg \<Rightarrow>
          let datalen = len msg; datacmd = cmd msg
          in if caller_id = USB_CALLER_PIN k \<or> datacmd = CMD_MOOLTIPASS_STATUS k
             then Some (Returned, send_status k e caller_id s)
             else (case max_text_size k datacmd of
                     None \<Rightarrow> process_command k e msg s
                   | Some max_len \<Rightarrow>
                       let (ret, data') = checkTextField k (body_data msg) datalen max_len
                       in if ret = RETURN_NOK k
                          then Some (Returned, usbSendMessage datacmd 1 [PLUGIN_BYTE_ERROR k] s)
                          else process_command k e (msg\<lparr>body_data := data'\<rparr>) s))"

text \<open>The commands whose payload is a text field (lines 217 to 236), and those among
  them whose text is a service name.\<close>

definition text_field_commands :: "cfg \<Rightarrow> u8 list" where
  "text_field_commands k =
     [CMD_CONTEXT k, CMD_ADD_CONTEXT k, CMD_SET_DATA_SERVICE k, CMD_ADD_DATA_SERVICE k,
      CMD_SET_LOGIN k, CMD_SET_PASSWORD k, CMD_CHECK_PASSWORD k, CMD_SET_CARD_LOGIN k,
      CMD_SET_CARD_PASS k]"

definition service_name_commands :: "cfg \<Rightarrow> u8 list" where
  "service_name_commands k =
     [CMD_CONTEXT k, CMD_ADD_CONTEXT k, CMD_SET_DATA_SERVICE k, CMD_ADD_DATA_SERVICE k]"

text \<open>The answer that carries one status byte and echoes a command identifier.\<close>

definition answer :: "u8 \<Rightarrow> u8 \<Rightarrow> event" where
  "answer c v = Call ''usbSendMessage'' [B c, I 1, Bs [v]]"

text \<open>An event is a response to the host when it is a call of \<^verbatim>\<open>usbSendMessage\<close> or of
  \<^verbatim>\<open>usbHidSend\<close>.\<close>

fun is_response :: "event \<Rightarrow> bool" where
  "is_response (Call f args) = (f = ''usbSendMessage'' \<or> f = ''usbHidSend'')"

subsection \<open>A concrete configuration\<close>

text \<open>An assignment of the constants on which the statements below are evaluated: command
  identifiers in the style of the protocol, the data management commands in one block,
  the plugin commands compiled in and no development commands.\<close>

definition lookup :: "(string \<times> 'a) list \<Rightarrow> 'a \<Rightarrow> string \<Rightarrow> 'a" where
  "lookup tbl d n = (case map_of tbl n of Some v \<Rightarrow> v | None \<Rightarrow> d)"

definition example_cmd_ids :: "(string \<times> u8) list" where
  "example_cmd_ids =
    [(''CMD_MOOLTIPASS_STATUS'', 0xB9), (''CMD_CANCEL_REQUEST'', 0xC3),
     (''FIRST_CMD_FOR_DATAMGMT'', 0xC5), (''LAST_CMD_FOR_DATAMGMT'', 0xD3),
     (''CMD_END_MEMORYMGMT'', 0xD3), (''CMD_WRITE_FLASH_NODE'', 0xC6),
     (''CMD_READ_FLASH_NODE'', 0xC5), (''CMD_SET_FAVORITE'', 0xC8), (''CMD_GET_FAVORITE'', 0xC7),
     (''CMD_WRITE_32B_IN_DN'', 0xC0), (''CMD_CONTEXT'', 0xA3), (''CMD_SET_LOGIN'', 0xA6),
     (''CMD_GET_UID'', 0xBD), (''CMD_PING'', 0xA1), (''CMD_VERSION'', 0xA2),
     (''CMD_GET_LOGIN'', 0xA4), (''CMD_GET_PASSWORD'', 0xA5), (''CMD_SET_PASSWORD'', 0xA7),
     (''CMD_CHECK_PASSWORD'', 0xA8), (''CMD_ADD_CONTEXT'', 0xA9), (''CMD_SET_BOOTLOADER_PWD'', 0xAA),
     (''CMD_JUMP_TO_BOOTLOADER'', 0xAB), (''CMD_GET_RANDOM_NUMBER'', 0xAC),
     (''CMD_START_MEMORYMGMT'', 0xAD), (''CMD_IMPORT_MEDIA_START'', 0xAE), (''CMD_IMPORT_MEDIA'', 0xAF),
     (''CMD_IMPORT_MEDIA_END'', 0xB0), (''CMD_SET_MOOLTIPASS_PARM'', 0xB1),
     (''CMD_GET_MOOLTIPASS_PARM'', 0xB2), (''CMD_RESET_CARD'', 0xB3), (''CMD_READ_CARD_LOGIN'', 0xB4),
     (''CMD_READ_CARD_PASS'', 0xB5), (''CMD_SET_CARD_LOGIN'', 0xB6), (''CMD_SET_CARD_PASS'', 0xB7),
     (''CMD_ADD_UNKNOWN_CARD'', 0xB8), (''CMD_SET_DATE'', 0xBB), (''CMD_SET_UID'', 0xBC),
     (''CMD_SET_DATA_SERVICE'', 0xBE), (''CMD_ADD_DATA_SERVICE'', 0xBF),
     (''CMD_READ_32B_IN_DN'', 0xC1), (''CMD_GET_CUR_CARD_CPZ'', 0xC2),
     (''CMD_GET_STARTING_PARENT'', 0xC9), (''CMD_SET_STARTING_PARENT'', 0xCA),
     (''CMD_GET_CTRVALUE'', 0xCB), (''CMD_SET_CTRVALUE'', 0xCC), (''CMD_ADD_CARD_CPZ_CTR'', 0xCD),
     (''CMD_GET_CARD_CPZ_CTR'', 0xCE), (''CMD_GET_FREE_SLOTS_ADDR'', 0xD0),
     (''CMD_GET_DN_START_PARENT'', 0xD1), (''CMD_SET_DN_START_PARENT'', 0xD2),
     (''CMD_GET_DESCRIPTION'', 0xD6), (''CMD_UNLOCK_WITH_PIN'', 0xDB),
     (''CMD_ERASE_EEPROM'', 0x96), (''CMD_ERASE_FLASH'', 0x97), (''CMD_ERASE_SMC'', 0x98),
     (''CMD_DRAW_BITMAP'', 0x99), (''CMD_SET_FONT'', 0x9A), (''CMD_USB_KEYBOARD_PRESS'', 0x9B),
     (''CMD_STACK_FREE'', 0x9C), (''CMD_CLONE_SMARTCARD'', 0x9D), (''CMD_MINI_FRAME_BUF_DATA'', 0x9E)]"

definition example_byte_consts :: "(string \<times> u8) list" where
  "example_byte_consts =
    [(''PLUGIN_BYTE_ERROR'', 0x00), (''PLUGIN_BYTE_OK'', 0x01), (''PLUGIN_BYTE_NOCARD'', 0x03),
     (''PLUGIN_BYTE_NA'', 0x02), (''USB_CALLER_PIN'', 1), (''RETURN_OK'', 0), (''RETURN_NOK'', 0xFF),
     (''TRUE'', 1), (''FALSE'', 0), (''TIMER_RUNNING'', 1), (''TIMER_CREDENTIALS'', 2),
     (''SCREEN_DEFAULT_INSERTED_UNKNOWN'', 4), (''SCREEN_DEFAULT_INSERTED_NLCK'', 2),
     (''SCREEN_DEFAULT_INSERTED_LCK'', 1), (''SCREEN_DEFAULT_INSERTED_INVALID'', 3),
     (''SCREEN_MEMORY_MGMT'', 5), (''SERVICE_CRED_TYPE'', 0), (''SERVICE_DATA_TYPE'', 1)]"

definition example_int_consts :: "(string \<times> nat) list" where
  "example_int_consts =
    [(''NODE_SIZE'', 132), (''PACKET_EXPORT_SIZE'', 62), (''RAWHID_RX_SIZE'', 64),
     (''HID_DATA_START'', 2), (''NODE_PARENT_SIZE_OF_SERVICE'', 121),
     (''NODE_CHILD_SIZE_OF_LOGIN'', 63), (''NODE_CHILD_SIZE_OF_PASSWORD'', 32),
     (''DATA_NODE_BLOCK_SIZ'', 32), (''SMARTCARD_MTP_LOGIN_LENGTH'', 496),
     (''SMARTCARD_MTP_PASS_LENGTH'', 240), (''UID_REQUEST_KEY_SIZE'', 16), (''UID_SIZE'', 6),
     (''USER_CTR_SIZE'', 3), (''BYTES_PER_PAGE'', 264), (''USER_MAX_FAV'', 14)]"

definition example_cfg :: cfg where
  "example_cfg =
     \<lparr>cmd_id = lookup example_cmd_ids 0,
      byte_const = lookup example_byte_consts 0,
      word_const = lookup [(''NODE_ADDR_NULL'', 0)] 0,
      int_const = lookup example_int_consts 0,
      defined = lookup [(''USB_FEATURE_PLUGIN_COMMS'', True)] False,
      pageNumberFromAddress = (\<lambda>a. drop_bit 3 a),
      nodeNumberFromAddress = (\<lambda>a. ucast (a AND 7)),
      version = [0x76, 0x31, 0x2E, 0x30, 0]\<rparr>"

text \<open>An environment in which every external call returns zero and stores nothing, the
  state after power-on, and a packet of 62 payload bytes.\<close>

definition quiet_env :: env where
  "quiet_env = (\<lambda>tr ev. \<lparr>r8 = 0, r16 = 0, rbuf = []\<rparr>)"

definition power_on :: mp_state where
  "power_on = \<lparr>memoryManagementModeApproved = False, mediaFlashImportApproved = False,
               currentNodeWritten = 0, mediaFlashImportPage = 0, mediaFlashImportOffset = 0,
               trace = []\<rparr>"

definition packet :: "u8 \<Rightarrow> u8 \<Rightarrow> u8 list \<Rightarrow> usbMsg" where
  "packet c n payload = \<lparr>len = n, cmd = c, body_data = take 62 (payload @ replicate 62 0)\<rparr>"

text \<open>The state after power-on with memory management mode entered.\<close>

definition management_mode :: mp_state where
  "management_mode = power_on\<lparr>memoryManagementModeApproved := True\<rparr>"

subsection \<open>Sequences of packets and the staging buffer\<close>

text \<open>Processing the packets of a list one after the other, as long as each call
  returns.\<close>

fun process_all :: "cfg \<Rightarrow> env \<Rightarrow> u8 \<Rightarrow> usbMsg list \<Rightarrow> mp_state \<Rightarrow> mp_state option" where
  "process_all k e caller_id [] s = Some s"
| "process_all k e caller_id (msg # msgs) s =
     (case usbProcessIncoming k e caller_id (Some msg) s of
        Some (Returned, s') \<Rightarrow> process_all k e caller_id msgs s'
      | _ \<Rightarrow> None)"

text \<open>The parts of a \<^verbatim>\<open>CMD_WRITE_FLASH_NODE\<close> packet, as lines 777 to 810 read them: the
  node address, the packet number, the bytes after them; the number of payload bytes of a
  full packet; the offset of a node in its page; and the test of line 798 that the packet
  does not write past the end of the node.\<close>

definition target :: "usbMsg \<Rightarrow> u16" where
  "target msg = u16_at (body_data msg) 0"

definition subindex :: "usbMsg \<Rightarrow> u8" where
  "subindex msg = body_data msg ! 2"

definition payload_of :: "usbMsg \<Rightarrow> u8 list" where
  "payload_of msg = take (unat (len msg) - 3) (drop 3 (body_data msg))"

definition chunk_size :: "cfg \<Rightarrow> int" where
  "chunk_size k = int (PACKET_EXPORT_SIZE k) - 3"

definition node_offset :: "cfg \<Rightarrow> u16 \<Rightarrow> int" where
  "node_offset k addr = int (NODE_SIZE k) * int (unat (nodeNumberFromAddress k addr))"

definition fits :: "cfg \<Rightarrow> usbMsg \<Rightarrow> bool" where
  "fits k msg \<longleftrightarrow>
     int (unat (subindex msg)) * chunk_size k + (int (unat (len msg)) - 3) \<le> int (NODE_SIZE k)"

text \<open>The calls of \<^verbatim>\<open>flashWriteBuffer\<close> (line 807) and of \<^verbatim>\<open>flashWriteBufferToPage\<close>
  (lines 810 to 813) that an accepted packet for the node at \<open>addr\<close> makes.\<close>

definition write_event :: "cfg \<Rightarrow> u16 \<Rightarrow> usbMsg \<Rightarrow> u8 list \<Rightarrow> event" where
  "write_event k addr msg bytes =
     Call ''flashWriteBuffer''
       [Bs bytes, I (node_offset k addr + int (unat (subindex msg)) * chunk_size k),
        I (int (unat (len msg)) - 3)]"

definition flush_events :: "cfg \<Rightarrow> u16 \<Rightarrow> usbMsg \<Rightarrow> event list" where
  "flush_events k addr msg =
     (if int (unat (subindex msg)) = c_div (int (NODE_SIZE k)) (chunk_size k)
      then [Call ''flashWriteBufferToPage'' [W (pageNumberFromAddress k addr)]] else [])"

text \<open>What an accepted packet of packet number other than 0 adds to the trace: the write
  of its payload, the flush if it is the last packet of a node, and the answer.\<close>

definition accepted_events :: "cfg \<Rightarrow> u16 \<Rightarrow> usbMsg \<Rightarrow> event list" where
  "accepted_events k addr msg =
     write_event k addr msg (payload_of msg) # flush_events k addr msg
     @ [answer (CMD_WRITE_FLASH_NODE k) (PLUGIN_BYTE_OK k)]"

text \<open>The ownership stamp: the 16 bit flags at the start of a node replaced by the value
  \<^verbatim>\<open>userIdToFlags\<close> left.\<close>

definition stamp_flags :: "u16 \<Rightarrow> u8 list \<Rightarrow> u8 list" where
  "stamp_flags w bytes = bytes[0 := u16_bytes w ! 0, 1 := u16_bytes w ! 1]"

text \<open>What an accepted packet of packet number 0 adds to the trace (lines 787 to 813): the
  permission check, the load of the node's page, the two calls that compute the flags, the
  write of the payload with the flags in its first two bytes, the flush if one packet is a
  whole node, and the answer. \<open>owner_id\<close> is what \<^verbatim>\<open>getCurrentUserID\<close> returns there and
  \<open>owner_flags\<close> what \<^verbatim>\<open>userIdToFlags\<close> leaves in the flags.\<close>

definition permission_check :: "usbMsg \<Rightarrow> event" where
  "permission_check msg = Call ''checkUserPermission'' [W (target msg)]"

definition page_load :: "cfg \<Rightarrow> usbMsg \<Rightarrow> event" where
  "page_load k msg = Call ''loadPageToInternalBuffer'' [W (pageNumberFromAddress k (target msg))]"

definition owner_id :: "cfg \<Rightarrow> env \<Rightarrow> event list \<Rightarrow> usbMsg \<Rightarrow> u8" where
  "owner_id k e tr msg =
     r8 (e (tr @ [permission_check msg, page_load k msg]) (Call ''getCurrentUserID'' []))"

definition flags_call :: "cfg \<Rightarrow> env \<Rightarrow> event list \<Rightarrow> usbMsg \<Rightarrow> event" where
  "flags_call k e tr msg =
     Call ''userIdToFlags'' [W (u16_at (body_data msg) 3), B (owner_id k e tr msg)]"

definition owner_flags :: "cfg \<Rightarrow> env \<Rightarrow> event list \<Rightarrow> usbMsg \<Rightarrow> u16" where
  "owner_flags k e tr msg =
     r16 (e (tr @ [permission_check msg, page_load k msg, Call ''getCurrentUserID'' []])
            (flags_call k e tr msg))"

definition first_events :: "cfg \<Rightarrow> env \<Rightarrow> event list \<Rightarrow> usbMsg \<Rightarrow> event list" where
  "first_events k e tr msg =
     [permission_check msg, page_load k msg, Call ''getCurrentUserID'' [], flags_call k e tr msg,
      write_event k (target msg) msg (stamp_flags (owner_flags k e tr msg) (payload_of msg))]
     @ flush_events k (target msg) msg
     @ [answer (CMD_WRITE_FLASH_NODE k) (PLUGIN_BYTE_OK k)]"

text \<open>The packets of a list carry the payload \<open>P\<close> for the node at \<open>addr\<close> in order, from
  packet number \<open>i\<close> on: each packet holds the next bytes of \<open>P\<close>, a full packet's worth or
  what is left.\<close>

fun carries_from :: "cfg \<Rightarrow> u16 \<Rightarrow> nat \<Rightarrow> u8 list \<Rightarrow> usbMsg list \<Rightarrow> bool" where
  "carries_from k addr i P [] = (P = [])"
| "carries_from k addr i P (msg # msgs) =
     (P \<noteq> [] \<and> cmd msg = CMD_WRITE_FLASH_NODE k \<and> target msg = addr \<and> unat (subindex msg) = i
      \<and> unat (len msg) = 3 + length (take (nat (chunk_size k)) P)
      \<and> payload_of msg = take (nat (chunk_size k)) P
      \<and> carries_from k addr (Suc i) (drop (nat (chunk_size k)) P) msgs)"

text \<open>
  Modelled from the spec: the staging buffer of \<^verbatim>\<open>flash_mem.c\<close>, which is not part of the
  sources at hand. The spec: a node write ``buffers the node's flash page into a staging
  area'', \<^verbatim>\<open>writeBuffer(partial bytes, byte offset, length)\<close> ``writes within one flash page
  at a time and only takes effect on an explicit flush''. \<open>pages\<close> are the flash pages,
  \<open>buffer\<close> is the staging area; \<^verbatim>\<open>loadPageToInternalBuffer\<close> copies a page into the
  buffer, \<^verbatim>\<open>flashWriteBuffer\<close> overwrites bytes of the buffer, \<^verbatim>\<open>flashWriteBufferToPage\<close>
  copies the buffer to a page. A write that would run past the end of the buffer is outside
  what the spec describes, and leaves the buffer as it is.
\<close>

record flash_mem =
  pages :: "u16 \<Rightarrow> u8 list"
  buffer :: "u8 list"

definition write_at :: "u8 list \<Rightarrow> nat \<Rightarrow> u8 list \<Rightarrow> u8 list" where
  "write_at buf off bytes =
     (if off + length bytes \<le> length buf
      then take off buf @ bytes @ drop (off + length bytes) buf else buf)"

fun flash_step :: "flash_mem \<Rightarrow> event \<Rightarrow> flash_mem" where
  "flash_step fl (Call f args) =
     (if f = ''loadPageToInternalBuffer''
      then (case args of [W page] \<Rightarrow> fl\<lparr>buffer := pages fl page\<rparr> | _ \<Rightarrow> fl)
      else if f = ''flashWriteBuffer''
      then (case args of
              [Bs bytes, I off, I n] \<Rightarrow> fl\<lparr>buffer := write_at (buffer fl) (nat off) (take (nat n) bytes)\<rparr>
            | _ \<Rightarrow> fl)
      else if f = ''flashWriteBufferToPage''
      then (case args of [W page] \<Rightarrow> fl\<lparr>pages := (pages fl)(page := buffer fl)\<rparr> | _ \<Rightarrow> fl)
      else fl)"

definition flash_after :: "flash_mem \<Rightarrow> event list \<Rightarrow> flash_mem" where
  "flash_after fl evs = foldl flash_step fl evs"

text \<open>A flash of blank pages of 264 bytes, and an environment in which the permission
  check passes, the current user is 5, and \<^verbatim>\<open>userIdToFlags\<close> leaves the flags \<^verbatim>\<open>0x0005\<close>.\<close>

definition blank_flash :: flash_mem where
  "blank_flash = \<lparr>pages = (\<lambda>page. replicate 264 0xFF), buffer = replicate 264 0xFF\<rparr>"

definition stamping_env :: env where
  "stamping_env =
     (\<lambda>tr ev. case ev of Call f args \<Rightarrow>
        if f = ''getCurrentUserID'' then \<lparr>r8 = 5, r16 = 5, rbuf = []\<rparr>
        else if f = ''userIdToFlags'' then \<lparr>r8 = 0, r16 = 5, rbuf = []\<rparr>
        else \<lparr>r8 = 0, r16 = 0, rbuf = []\<rparr>)"

text \<open>A payload of a whole node of 132 bytes for the node at \<^verbatim>\<open>0x0011\<close> (node 1 of page
  2), the packet that
  carries its first 59 bytes, and the two packets that carry the other 59 and 14 bytes.\<close>

definition example_payload :: "u8 list" where
  "example_payload = replicate 59 0x41 @ replicate 59 0x42 @ replicate 14 0x43"

definition example_first :: usbMsg where
  "example_first = packet 0xC6 62 ([0x11, 0, 0] @ replicate 59 0x41)"

definition example_rest :: "usbMsg list" where
  "example_rest =
     [packet 0xC6 62 ([0x11, 0, 1] @ replicate 59 0x42),
      packet 0xC6 17 ([0x11, 0, 2] @ replicate 14 0x43)]"

text \<open>The state in memory management mode in which an earlier write sequence has left the
  node address \<^verbatim>\<open>0x0010\<close> in \<open>currentNodeWritten\<close>.\<close>

definition stale_state :: mp_state where
  "stale_state = management_mode\<lparr>currentNodeWritten := 0x0010\<rparr>"

text \<open>An environment in which the permission check fails.\<close>

definition denying_env :: env where
  "denying_env =
     (\<lambda>tr ev. case ev of Call f args \<Rightarrow>
        if f = ''checkUserPermission'' then \<lparr>r8 = 0xFF, r16 = 0, rbuf = []\<rparr>
        else \<lparr>r8 = 0, r16 = 0, rbuf = []\<rparr>)"



section \<open>Properties\<close>

subsection \<open>Basic facts\<close>

lemma run_fields [simp]:
  "trace (run f args s) = trace s @ [Call f args]"
  "memoryManagementModeApproved (run f args s) = memoryManagementModeApproved s"
  "mediaFlashImportApproved (run f args s) = mediaFlashImportApproved s"
  "currentNodeWritten (run f args s) = currentNodeWritten s"
  "mediaFlashImportPage (run f args s) = mediaFlashImportPage s"
  "mediaFlashImportOffset (run f args s) = mediaFlashImportOffset s"
  by (simp_all add: run_def)

lemma ext_parts [simp]:
  "fst (ext e f args s) = e (trace s) (Call f args)"
  "snd (ext e f args s) = run f args s"
  by (simp_all add: ext_def)

lemma usbSendMessage_answer: "usbSendMessage c 1 [v] s = s\<lparr>trace := trace s @ [answer c v]\<rparr>"
  by (simp add: usbSendMessage_def run_def answer_def)

lemma max_text_size_None: "max_text_size k c = None \<longleftrightarrow> c \<notin> set (text_field_commands k)"
  by (auto simp add: max_text_size_def text_field_commands_def)

lemma example_values:
  "CMD_MOOLTIPASS_STATUS example_cfg = 0xB9" "CMD_CANCEL_REQUEST example_cfg = 0xC3"
  "FIRST_CMD_FOR_DATAMGMT example_cfg = 0xC5" "LAST_CMD_FOR_DATAMGMT example_cfg = 0xD3"
  "CMD_END_MEMORYMGMT example_cfg = 0xD3" "CMD_WRITE_FLASH_NODE example_cfg = 0xC6"
  "CMD_READ_FLASH_NODE example_cfg = 0xC5" "CMD_SET_FAVORITE example_cfg = 0xC8"
  "CMD_GET_FAVORITE example_cfg = 0xC7" "CMD_WRITE_32B_IN_DN example_cfg = 0xC0"
  "CMD_CONTEXT example_cfg = 0xA3" "CMD_SET_LOGIN example_cfg = 0xA6" "CMD_GET_UID example_cfg = 0xBD"
  "PLUGIN_BYTE_ERROR example_cfg = 0" "PLUGIN_BYTE_OK example_cfg = 1"
  "USB_CALLER_PIN example_cfg = 1" "RETURN_OK example_cfg = 0" "RETURN_NOK example_cfg = 0xFF"
  "TRUE example_cfg = 1" "FALSE example_cfg = 0" "TIMER_RUNNING example_cfg = 1"
  "TIMER_CREDENTIALS example_cfg = 2" "SCREEN_DEFAULT_INSERTED_UNKNOWN example_cfg = 4"
  "SCREEN_DEFAULT_INSERTED_NLCK example_cfg = 2"
  "NODE_ADDR_NULL example_cfg = 0"
  "NODE_SIZE example_cfg = 132" "PACKET_EXPORT_SIZE example_cfg = 62" "RAWHID_RX_SIZE example_cfg = 64"
  "HID_DATA_START example_cfg = 2" "NODE_PARENT_SIZE_OF_SERVICE example_cfg = 121"
  "NODE_CHILD_SIZE_OF_LOGIN example_cfg = 63" "DATA_NODE_BLOCK_SIZ example_cfg = 32"
  "UID_REQUEST_KEY_SIZE example_cfg = 16" "UID_SIZE example_cfg = 6" "USER_MAX_FAV example_cfg = 14"
  "USB_FEATURE_PLUGIN_COMMS example_cfg" "\<not> DEV_PLUGIN_COMMS example_cfg"
  by code_simp+

lemma example_labels_distinct: "distinct (switch_labels example_cfg)"
  by code_simp

lemma example_text_field_commands:
  "text_field_commands example_cfg = [0xA3, 0xA9, 0xBE, 0xBF, 0xA6, 0xA7, 0xA8, 0xB6, 0xB7]"
  by code_simp

subsection \<open>The status answer\<close>

lemma bit_15: "bit (15 :: u8) n \<longleftrightarrow> n < 4"
proof -
  have eq: "(15 :: u8) = mask 4" by (simp add: mask_eq_exp_minus_1)
  show ?thesis by (subst eq) (simp only: bit_mask_iff possible_bit_word, auto)
qed

lemma status_byte_bits:
  fixes a p u c :: bool
  defines "st \<equiv> (if a then 1 else 0) OR (if p then 2 else 0) OR (if u then 4 else 0)
                  OR (if c then 8 else (0 :: u8))"
  shows "bit st 0 = a" and "bit st 1 = p" and "bit st 2 = u" and "bit st 3 = c"
    and "\<forall>n\<ge>4. \<not> bit st n"
proof -
  show "bit st 0 = a" "bit st 1 = p" "bit st 2 = u" "bit st 3 = c"
    unfolding st_def by (simp_all add: bit_or_iff bit_simps split: if_splits)
  have "st AND 15 = st"
    unfolding st_def by (cases a; cases p; cases u; cases c; simp)
  then have "bit st n \<Longrightarrow> n < 4" for n
    by (metis bit_and_iff bit_15)
  then show "\<forall>n\<ge>4. \<not> bit st n"
    by fastforce
qed

lemma send_status_eq:
  "send_status k e caller_id s =
     s\<lparr>trace := trace s @
          [Call ''isSmartCardAbsent'' [], Call ''getSmartCardInsertedUnlocked'' [],
           Call ''getCurrentScreen'' [],
           answer (CMD_MOOLTIPASS_STATUS k)
             ((if r8 (e (trace s) (Call ''isSmartCardAbsent'' [])) = RETURN_NOK k then 1 else 0)
              OR (if caller_id = USB_CALLER_PIN k then 2 else 0)
              OR (if r8 (e (trace s @ [Call ''isSmartCardAbsent'' []])
                        (Call ''getSmartCardInsertedUnlocked'' [])) = TRUE k then 4 else 0)
              OR (if r8 (e (trace s @ [Call ''isSmartCardAbsent'' [], Call ''getSmartCardInsertedUnlocked'' []])
                        (Call ''getCurrentScreen'' [])) = SCREEN_DEFAULT_INSERTED_UNKNOWN k
                  then 8 else 0))]\<rparr>"
  by (simp add: send_status_def usbSendMessage_def ext_def run_def answer_def Let_def)

lemma status_gate:
  "caller_id = USB_CALLER_PIN k \<or> cmd msg = CMD_MOOLTIPASS_STATUS k \<Longrightarrow>
   usbProcessIncoming k e caller_id (Some msg) s = Some (Returned, send_status k e caller_id s)"
  by (simp add: usbProcessIncoming_def)

subsection \<open>C3: the status answer\<close>

text \<open>
  Claim C3. For every packet received while the caller is in awaiting-PIN mode, and for
  every \<^verbatim>\<open>CMD_MOOLTIPASS_STATUS\<close> packet in any mode, the dispatcher answers at once with one
  status byte and processes the packet no further: the only calls made are the three
  queries and the answer, and no global variable changes. Bit 0 of the byte is set iff a
  card is present (\<^verbatim>\<open>isSmartCardAbsent\<close> returns \<^verbatim>\<open>RETURN_NOK\<close>), bit 1 iff the caller is
  awaiting the PIN, bit 2 iff the smartcard is unlocked, bit 3 iff the current screen is
  the unknown-card screen; the other bits are clear.
\<close>

theorem status_reply:
  assumes "caller_id = USB_CALLER_PIN k \<or> cmd msg = CMD_MOOLTIPASS_STATUS k"
  shows "\<exists>mp_status.
     usbProcessIncoming k e caller_id (Some msg) s =
       Some (Returned, s\<lparr>trace := trace s @
          [Call ''isSmartCardAbsent'' [], Call ''getSmartCardInsertedUnlocked'' [],
           Call ''getCurrentScreen'' [], answer (CMD_MOOLTIPASS_STATUS k) mp_status]\<rparr>)
     \<and> (bit mp_status 0 \<longleftrightarrow> r8 (e (trace s) (Call ''isSmartCardAbsent'' [])) = RETURN_NOK k)
     \<and> (bit mp_status 1 \<longleftrightarrow> caller_id = USB_CALLER_PIN k)
     \<and> (bit mp_status 2 \<longleftrightarrow>
          r8 (e (trace s @ [Call ''isSmartCardAbsent'' []]) (Call ''getSmartCardInsertedUnlocked'' []))
            = TRUE k)
     \<and> (bit mp_status 3 \<longleftrightarrow>
          r8 (e (trace s @ [Call ''isSmartCardAbsent'' [], Call ''getSmartCardInsertedUnlocked'' []])
                (Call ''getCurrentScreen'' [])) = SCREEN_DEFAULT_INSERTED_UNKNOWN k)
     \<and> (\<forall>n\<ge>4. \<not> bit mp_status n)"
proof -
  define a where "a \<longleftrightarrow> r8 (e (trace s) (Call ''isSmartCardAbsent'' [])) = RETURN_NOK k"
  define p where "p \<longleftrightarrow> caller_id = USB_CALLER_PIN k"
  define u where "u \<longleftrightarrow>
    r8 (e (trace s @ [Call ''isSmartCardAbsent'' []]) (Call ''getSmartCardInsertedUnlocked'' [])) = TRUE k"
  define c where "c \<longleftrightarrow>
    r8 (e (trace s @ [Call ''isSmartCardAbsent'' [], Call ''getSmartCardInsertedUnlocked'' []])
          (Call ''getCurrentScreen'' [])) = SCREEN_DEFAULT_INSERTED_UNKNOWN k"
  define st :: u8 where
    "st = (if a then 1 else 0) OR (if p then 2 else 0) OR (if u then 4 else 0) OR (if c then 8 else 0)"
  have run: "usbProcessIncoming k e caller_id (Some msg) s =
       Some (Returned, s\<lparr>trace := trace s @
          [Call ''isSmartCardAbsent'' [], Call ''getSmartCardInsertedUnlocked'' [],
           Call ''getCurrentScreen'' [], answer (CMD_MOOLTIPASS_STATUS k) st]\<rparr>)"
    unfolding status_gate [OF assms] send_status_eq st_def a_def p_def u_def c_def ..
  have bits: "bit st 0 = a" "bit st 1 = p" "bit st 2 = u" "bit st 3 = c" "\<forall>n\<ge>4. \<not> bit st n"
    unfolding st_def by (rule status_byte_bits)+
  show ?thesis
    using run bits unfolding a_def p_def u_def c_def by blast
qed

theorem status_reply_witness:
  "\<exists>mp_status.
     usbProcessIncoming example_cfg quiet_env 0 (Some (packet 0xB9 0 [])) power_on =
       Some (Returned, power_on\<lparr>trace := trace power_on @
          [Call ''isSmartCardAbsent'' [], Call ''getSmartCardInsertedUnlocked'' [],
           Call ''getCurrentScreen'' [], answer (CMD_MOOLTIPASS_STATUS example_cfg) mp_status]\<rparr>)
     \<and> (bit mp_status 0 \<longleftrightarrow>
          r8 (quiet_env (trace power_on) (Call ''isSmartCardAbsent'' [])) = RETURN_NOK example_cfg)
     \<and> (bit mp_status 1 \<longleftrightarrow> 0 = USB_CALLER_PIN example_cfg)
     \<and> (bit mp_status 2 \<longleftrightarrow>
          r8 (quiet_env (trace power_on @ [Call ''isSmartCardAbsent'' []])
                (Call ''getSmartCardInsertedUnlocked'' [])) = TRUE example_cfg)
     \<and> (bit mp_status 3 \<longleftrightarrow>
          r8 (quiet_env (trace power_on @ [Call ''isSmartCardAbsent'' [], Call ''getSmartCardInsertedUnlocked'' []])
                (Call ''getCurrentScreen'' [])) = SCREEN_DEFAULT_INSERTED_UNKNOWN example_cfg)
     \<and> (\<forall>n\<ge>4. \<not> bit mp_status n)"
proof -
  have "0 = USB_CALLER_PIN example_cfg \<or> cmd (packet 0xB9 0 []) = CMD_MOOLTIPASS_STATUS example_cfg"
    by (simp add: packet_def example_values)
  then show ?thesis
    by (rule status_reply)
qed

subsection \<open>C1: the data management commands outside memory management mode\<close>

text \<open>
  Claim C1 says that every packet whose command byte lies in the data management range
  and that arrives while \<open>memoryManagementModeApproved\<close> is false is answered with the single
  error byte and changes nothing. The status test comes first in the code (line 186): a
  packet that arrives while the caller awaits the PIN is answered with the status byte,
  whatever its command.
\<close>

theorem datamgmt_gate_pin_counterexample:
  "FIRST_CMD_FOR_DATAMGMT example_cfg \<le> cmd (packet 0xC5 2 [0x10, 0])
   \<and> cmd (packet 0xC5 2 [0x10, 0]) \<le> LAST_CMD_FOR_DATAMGMT example_cfg
   \<and> \<not> memoryManagementModeApproved power_on
   \<and> usbProcessIncoming example_cfg quiet_env 1 (Some (packet 0xC5 2 [0x10, 0])) power_on =
       Some (Returned, power_on\<lparr>trace :=
          [Call ''isSmartCardAbsent'' [], Call ''getSmartCardInsertedUnlocked'' [],
           Call ''getCurrentScreen'' [], answer 0xB9 2]\<rparr>)
   \<and> answer 0xB9 2 \<noteq> answer (cmd (packet 0xC5 2 [0x10, 0])) (PLUGIN_BYTE_ERROR example_cfg)"
  by (simp add: status_gate send_status_eq example_values packet_def power_on_def quiet_env_def answer_def)


text \<open>
  Claim C1 as amended. Every packet whose command byte lies in the data management
  range, that is not a status request, and that arrives while the caller is not awaiting
  the PIN and \<open>memoryManagementModeApproved\<close> is false, is answered with one message that
  echoes the command byte and carries the error byte; no other call is made and no global
  variable changes, so no case of the switch runs.
\<close>

theorem datamgmt_gate:
  assumes "caller_id \<noteq> USB_CALLER_PIN k" and "cmd msg \<noteq> CMD_MOOLTIPASS_STATUS k"
    and "FIRST_CMD_FOR_DATAMGMT k \<le> cmd msg" and "cmd msg \<le> LAST_CMD_FOR_DATAMGMT k"
    and "\<not> memoryManagementModeApproved s"
  shows "usbProcessIncoming k e caller_id (Some msg) s =
         Some (Returned, s\<lparr>trace := trace s @ [answer (cmd msg) (PLUGIN_BYTE_ERROR k)]\<rparr>)"
  using assms
  by (simp add: usbProcessIncoming_def process_command_def usbSendMessage_answer Let_def
      split: option.splits prod.splits)

theorem datamgmt_gate_witness:
  "usbProcessIncoming example_cfg quiet_env 0 (Some (packet 0xC5 2 [0x10, 0])) power_on =
   Some (Returned, power_on\<lparr>trace := trace power_on
            @ [answer (cmd (packet 0xC5 2 [0x10, 0])) (PLUGIN_BYTE_ERROR example_cfg)]\<rparr>)"
proof -
  have "0 \<noteq> USB_CALLER_PIN example_cfg"
    and "cmd (packet 0xC5 2 [0x10, 0]) \<noteq> CMD_MOOLTIPASS_STATUS example_cfg"
    and "FIRST_CMD_FOR_DATAMGMT example_cfg \<le> cmd (packet 0xC5 2 [0x10, 0])"
    and "cmd (packet 0xC5 2 [0x10, 0]) \<le> LAST_CMD_FOR_DATAMGMT example_cfg"
    and "\<not> memoryManagementModeApproved power_on"
    by (simp_all add: packet_def example_values power_on_def)
  then show ?thesis
    by (rule datamgmt_gate)
qed


subsection \<open>Reaching a case of the switch\<close>

lemma switch_table_labels: "map fst (switch_table k e msg) = switch_labels k"
  by (simp add: switch_table_def switch_labels_def)

lemma switch_jump:
  assumes "distinct (switch_labels k)" and "(c, body) \<in> set (switch_table k e msg)"
  shows "map_of (switch_table k e msg) c = Some body"
  using assms by (simp add: switch_table_labels)

lemma text_gate:
  assumes "caller_id \<noteq> USB_CALLER_PIN k" and "cmd msg \<noteq> CMD_MOOLTIPASS_STATUS k"
    and "cmd msg \<notin> set (text_field_commands k)"
  shows "usbProcessIncoming k e caller_id (Some msg) s = process_command k e msg s"
  using assms by (simp add: usbProcessIncoming_def max_text_size_None [symmetric])

lemma process_command_jump:
  assumes "map_of (switch_table k e msg) (cmd msg) = Some (total body)"
    and "memoryManagementModeApproved s \<or> cmd msg < FIRST_CMD_FOR_DATAMGMT k
         \<or> LAST_CMD_FOR_DATAMGMT k < cmd msg"
  shows "process_command k e msg s =
         (case body s of
            (Break v, s') \<Rightarrow> Some (Returned, s'\<lparr>trace := trace s' @ [answer (cmd msg) v]\<rparr>)
          | (Return, s') \<Rightarrow> Some (Returned, s')
          | (Spin, s') \<Rightarrow> Some (Spinning, s'))"
proof -
  have g: "(FIRST_CMD_FOR_DATAMGMT k \<le> cmd msg \<and> cmd msg \<le> LAST_CMD_FOR_DATAMGMT k
             \<and> \<not> memoryManagementModeApproved s) = False"
    using assms(2) by auto
  show ?thesis
    unfolding process_command_def Let_def assms(1) g
    by (simp add: total_def usbSendMessage_answer split: prod.splits flow.splits)
qed

lemma process_command_total:
  assumes "distinct (switch_labels k)" and "(cmd msg, total body) \<in> set (switch_table k e msg)"
    and "memoryManagementModeApproved s \<or> cmd msg < FIRST_CMD_FOR_DATAMGMT k
         \<or> LAST_CMD_FOR_DATAMGMT k < cmd msg"
  shows "process_command k e msg s =
         (case body s of
            (Break v, s') \<Rightarrow> Some (Returned, s'\<lparr>trace := trace s' @ [answer (cmd msg) v]\<rparr>)
          | (Return, s') \<Rightarrow> Some (Returned, s')
          | (Spin, s') \<Rightarrow> Some (Spinning, s'))"
  using switch_jump [OF assms(1,2)] assms(3) by (rule process_command_jump)

lemma jump_CANCEL:
  "map_of (switch_table k e msg) (CMD_CANCEL_REQUEST k) = Some (total case_CMD_CANCEL_REQUEST)"
  by (simp add: switch_table_def)

lemma in_table_END: "(CMD_END_MEMORYMGMT k, total (case_CMD_END_MEMORYMGMT k)) \<in> set (switch_table k e msg)"
  by (simp add: switch_table_def)

lemma in_table_SET_FAVORITE:
  "(CMD_SET_FAVORITE k, total (case_CMD_SET_FAVORITE k msg)) \<in> set (switch_table k e msg)"
  by (simp add: switch_table_def)

lemma in_table_GET_FAVORITE:
  "(CMD_GET_FAVORITE k, total (case_CMD_GET_FAVORITE k e msg)) \<in> set (switch_table k e msg)"
  by (simp add: switch_table_def)

lemma in_table_WRITE_FLASH_NODE:
  "(CMD_WRITE_FLASH_NODE k, total (case_CMD_WRITE_FLASH_NODE k e msg)) \<in> set (switch_table k e msg)"
  by (simp add: switch_table_def)

lemma in_table_WRITE_32B:
  "USB_FEATURE_PLUGIN_COMMS k \<Longrightarrow>
   (CMD_WRITE_32B_IN_DN k, total (case_CMD_WRITE_32B_IN_DN k e msg)) \<in> set (switch_table k e msg)"
  by (simp add: switch_table_def)

lemma to_case:
  assumes "caller_id \<noteq> USB_CALLER_PIN k" and "cmd msg \<noteq> CMD_MOOLTIPASS_STATUS k"
    and "cmd msg \<notin> set (text_field_commands k)"
    and "distinct (switch_labels k)" and "(cmd msg, total body) \<in> set (switch_table k e msg)"
    and "memoryManagementModeApproved s \<or> cmd msg < FIRST_CMD_FOR_DATAMGMT k
         \<or> LAST_CMD_FOR_DATAMGMT k < cmd msg"
  shows "usbProcessIncoming k e caller_id (Some msg) s =
         (case body s of
            (Break v, s') \<Rightarrow> Some (Returned, s'\<lparr>trace := trace s' @ [answer (cmd msg) v]\<rparr>)
          | (Return, s') \<Rightarrow> Some (Returned, s')
          | (Spin, s') \<Rightarrow> Some (Spinning, s'))"
  using text_gate [OF assms(1-3)] process_command_total [OF assms(4-6)] by simp

subsection \<open>C6: the cancel request\<close>

text \<open>
  Claim C6 says that a \<^verbatim>\<open>CMD_CANCEL_REQUEST\<close> packet, received in any state, gets no
  response at all. While the caller awaits the PIN the status test of line 186 answers
  every packet, the cancel request included, with the status byte.
\<close>

theorem cancel_request_pin_counterexample:
  "cmd (packet 0xC3 0 []) = CMD_CANCEL_REQUEST example_cfg
   \<and> usbProcessIncoming example_cfg quiet_env (USB_CALLER_PIN example_cfg)
        (Some (packet 0xC3 0 [])) power_on =
       Some (Returned, power_on\<lparr>trace :=
          [Call ''isSmartCardAbsent'' [], Call ''getSmartCardInsertedUnlocked'' [],
           Call ''getCurrentScreen'' [], Call ''usbSendMessage'' [B 0xB9, I 1, Bs [2]]]\<rparr>)
   \<and> is_response (Call ''usbSendMessage'' [B 0xB9, I 1, Bs [2]])"
  by (simp add: status_gate send_status_eq example_values packet_def power_on_def quiet_env_def answer_def)

text \<open>
  Claim C6 as amended. A \<^verbatim>\<open>CMD_CANCEL_REQUEST\<close> packet received while the caller is not
  awaiting the PIN gets no response and changes nothing: the state after the call is the
  state before it. This holds for a cancel identifier that is neither the status command
  nor one of the text field commands, and that lies outside the data management range
  (or with memory management mode approved), as the three tests before the switch
  require.
\<close>

theorem cancel_request_silent:
  assumes "cmd msg = CMD_CANCEL_REQUEST k" and "caller_id \<noteq> USB_CALLER_PIN k"
    and "CMD_CANCEL_REQUEST k \<noteq> CMD_MOOLTIPASS_STATUS k"
    and "CMD_CANCEL_REQUEST k \<notin> set (text_field_commands k)"
    and "memoryManagementModeApproved s \<or> CMD_CANCEL_REQUEST k < FIRST_CMD_FOR_DATAMGMT k
         \<or> LAST_CMD_FOR_DATAMGMT k < CMD_CANCEL_REQUEST k"
  shows "usbProcessIncoming k e caller_id (Some msg) s = Some (Returned, s)"
proof -
  have "usbProcessIncoming k e caller_id (Some msg) s = process_command k e msg s"
    using assms by (intro text_gate) simp_all
  also have "\<dots> = (case case_CMD_CANCEL_REQUEST s of
            (Break v, s') \<Rightarrow> Some (Returned, s'\<lparr>trace := trace s' @ [answer (cmd msg) v]\<rparr>)
          | (Return, s') \<Rightarrow> Some (Returned, s')
          | (Spin, s') \<Rightarrow> Some (Spinning, s'))"
    using jump_CANCEL [of k e msg] assms(5)
    by (intro process_command_jump) (simp_all add: assms(1))
  finally show ?thesis
    by (simp add: case_CMD_CANCEL_REQUEST_def)
qed

theorem cancel_request_silent_witness:
  "usbProcessIncoming example_cfg quiet_env 0 (Some (packet 0xC3 0 [])) power_on = Some (Returned, power_on)"
proof -
  have "cmd (packet 0xC3 0 []) = CMD_CANCEL_REQUEST example_cfg"
    and "0 \<noteq> USB_CALLER_PIN example_cfg"
    and "CMD_CANCEL_REQUEST example_cfg \<noteq> CMD_MOOLTIPASS_STATUS example_cfg"
    and "CMD_CANCEL_REQUEST example_cfg \<notin> set (text_field_commands example_cfg)"
    and "memoryManagementModeApproved power_on
         \<or> CMD_CANCEL_REQUEST example_cfg < FIRST_CMD_FOR_DATAMGMT example_cfg
         \<or> LAST_CMD_FOR_DATAMGMT example_cfg < CMD_CANCEL_REQUEST example_cfg"
    by (simp_all add: packet_def example_values example_text_field_commands)
  then show ?thesis
    by (rule cancel_request_silent)
qed

subsection \<open>C5: leaving memory management mode\<close>

text \<open>
  Claim C5 says that after a \<^verbatim>\<open>CMD_END_MEMORYMGMT\<close> packet has been processed in approved
  memory management mode the flag is false. A packet that arrives while the caller awaits
  the PIN is answered with the status byte and goes no further, so the flag stays set.
\<close>

theorem end_memorymgmt_pin_counterexample:
  "cmd (packet 0xD3 0 []) = CMD_END_MEMORYMGMT example_cfg
   \<and> memoryManagementModeApproved management_mode
   \<and> usbProcessIncoming example_cfg quiet_env (USB_CALLER_PIN example_cfg)
        (Some (packet 0xD3 0 [])) management_mode =
       Some (Returned, management_mode\<lparr>trace :=
          [Call ''isSmartCardAbsent'' [], Call ''getSmartCardInsertedUnlocked'' [],
           Call ''getCurrentScreen'' [], answer 0xB9 2]\<rparr>)
   \<and> memoryManagementModeApproved (management_mode\<lparr>trace :=
          [Call ''isSmartCardAbsent'' [], Call ''getSmartCardInsertedUnlocked'' [],
           Call ''getCurrentScreen'' [], answer 0xB9 2]\<rparr>)"
  by (simp add: status_gate send_status_eq example_values packet_def power_on_def quiet_env_def
      management_mode_def)

text \<open>
  Claim C5 as amended. After a \<^verbatim>\<open>CMD_END_MEMORYMGMT\<close> packet received in approved memory
  management mode while the caller is not awaiting the PIN, \<open>memoryManagementModeApproved\<close>
  is false and \<open>currentNodeWritten\<close> is \<^verbatim>\<open>NODE_ADDR_NULL\<close>; the services lookup table and
  the node usage scan have been refreshed (\<^verbatim>\<open>populateServicesLut\<close>, \<^verbatim>\<open>scanNodeUsage\<close>) before
  the answer with \<^verbatim>\<open>PLUGIN_BYTE_OK\<close> is sent, which is the last call. The command identifier
  is taken to be a case label of its own: distinct from the other labels, from the status
  command and from the text field commands.
\<close>

theorem end_memorymgmt:
  assumes "cmd msg = CMD_END_MEMORYMGMT k" and "caller_id \<noteq> USB_CALLER_PIN k"
    and "CMD_END_MEMORYMGMT k \<noteq> CMD_MOOLTIPASS_STATUS k"
    and "CMD_END_MEMORYMGMT k \<notin> set (text_field_commands k)"
    and "distinct (switch_labels k)"
    and "memoryManagementModeApproved s"
  shows "usbProcessIncoming k e caller_id (Some msg) s =
         Some (Returned,
               s\<lparr>memoryManagementModeApproved := False,
                 currentNodeWritten := NODE_ADDR_NULL k,
                 trace := trace s @
                   [Call ''guiSetCurrentScreen'' [B (SCREEN_DEFAULT_INSERTED_NLCK k)],
                    Call ''guiGetBackToCurrentScreen'' [], Call ''activityDetectedRoutine'' [],
                    Call ''populateServicesLut'' [], Call ''scanNodeUsage'' [],
                    answer (CMD_END_MEMORYMGMT k) (PLUGIN_BYTE_OK k)]\<rparr>)"
proof -
  have "usbProcessIncoming k e caller_id (Some msg) s = process_command k e msg s"
    using assms by (intro text_gate) simp_all
  also have "\<dots> = (case case_CMD_END_MEMORYMGMT k s of
            (Break v, s') \<Rightarrow> Some (Returned, s'\<lparr>trace := trace s' @ [answer (cmd msg) v]\<rparr>)
          | (Return, s') \<Rightarrow> Some (Returned, s')
          | (Spin, s') \<Rightarrow> Some (Spinning, s'))"
    using assms(5,6) in_table_END [of k e msg]
    by (intro process_command_total) (simp_all add: assms(1))
  finally show ?thesis
    by (simp add: case_CMD_END_MEMORYMGMT_def run_def assms(1))
qed

theorem end_memorymgmt_witness:
  "usbProcessIncoming example_cfg quiet_env 0 (Some (packet 0xD3 0 [])) management_mode =
         Some (Returned,
               management_mode\<lparr>memoryManagementModeApproved := False,
                 currentNodeWritten := NODE_ADDR_NULL example_cfg,
                 trace := trace management_mode @
                   [Call ''guiSetCurrentScreen'' [B (SCREEN_DEFAULT_INSERTED_NLCK example_cfg)],
                    Call ''guiGetBackToCurrentScreen'' [], Call ''activityDetectedRoutine'' [],
                    Call ''populateServicesLut'' [], Call ''scanNodeUsage'' [],
                    answer (CMD_END_MEMORYMGMT example_cfg) (PLUGIN_BYTE_OK example_cfg)]\<rparr>)"
proof -
  have "cmd (packet 0xD3 0 []) = CMD_END_MEMORYMGMT example_cfg"
    and "0 \<noteq> USB_CALLER_PIN example_cfg"
    and "CMD_END_MEMORYMGMT example_cfg \<noteq> CMD_MOOLTIPASS_STATUS example_cfg"
    and "CMD_END_MEMORYMGMT example_cfg \<notin> set (text_field_commands example_cfg)"
    and "distinct (switch_labels example_cfg)"
    and "memoryManagementModeApproved management_mode"
    by (simp_all add: packet_def example_values example_text_field_commands example_labels_distinct
        management_mode_def)
  then show ?thesis
    by (rule end_memorymgmt)
qed

subsection \<open>C7: appending a data block\<close>

text \<open>What the case of \<^verbatim>\<open>CMD_WRITE_32B_IN_DN\<close> does with a packet that reaches it: it
  calls \<^verbatim>\<open>addDataForDataContext\<close> on the payload, and only then looks at the declared
  length.\<close>

lemma write_32b_in_dn:
  assumes "cmd msg = CMD_WRITE_32B_IN_DN k" and "caller_id \<noteq> USB_CALLER_PIN k"
    and "CMD_WRITE_32B_IN_DN k \<noteq> CMD_MOOLTIPASS_STATUS k"
    and "CMD_WRITE_32B_IN_DN k \<notin> set (text_field_commands k)"
    and "distinct (switch_labels k)" and "USB_FEATURE_PLUGIN_COMMS k"
    and "memoryManagementModeApproved s \<or> CMD_WRITE_32B_IN_DN k < FIRST_CMD_FOR_DATAMGMT k
         \<or> LAST_CMD_FOR_DATAMGMT k < CMD_WRITE_32B_IN_DN k"
  shows "usbProcessIncoming k e caller_id (Some msg) s =
         Some (Returned, s\<lparr>trace := trace s @
           [Call ''addDataForDataContext'' [Bs (drop 1 (body_data msg)), B (body_data msg ! 0)],
            answer (CMD_WRITE_32B_IN_DN k)
              (if r8 (e (trace s) (Call ''addDataForDataContext''
                                   [Bs (drop 1 (body_data msg)), B (body_data msg ! 0)])) = RETURN_OK k
                  \<and> int (unat (len msg)) = 1 + int (DATA_NODE_BLOCK_SIZ k)
               then PLUGIN_BYTE_OK k else PLUGIN_BYTE_ERROR k)]\<rparr>)"
proof -
  have "usbProcessIncoming k e caller_id (Some msg) s =
         (case case_CMD_WRITE_32B_IN_DN k e msg s of
            (Break v, s') \<Rightarrow> Some (Returned, s'\<lparr>trace := trace s' @ [answer (cmd msg) v]\<rparr>)
          | (Return, s') \<Rightarrow> Some (Returned, s')
          | (Spin, s') \<Rightarrow> Some (Spinning, s'))"
    using assms in_table_WRITE_32B [of k e msg] by (intro to_case) simp_all
  then show ?thesis
    by (simp add: case_CMD_WRITE_32B_IN_DN_def ext_def run_def assms(1))
qed

text \<open>
  Claim C7 says that the declared length of a \<^verbatim>\<open>CMD_WRITE_32B_IN_DN\<close> packet is checked
  against \<^verbatim>\<open>1 + DATA_NODE_BLOCK_SIZ\<close> before the payload is read or handed to the node
  store, so that a packet of another length gets the error byte and appends nothing. The
  code at a packet of declared length 5: the node store is handed the payload first and
  accepts it (\<^verbatim>\<open>RETURN_OK\<close>), and the error byte is sent afterwards.
\<close>

theorem write_32b_wrong_length:
  "int (unat (len (packet 0xC0 5 [7, 1, 2, 3, 4]))) \<noteq> 1 + int (DATA_NODE_BLOCK_SIZ example_cfg)
   \<and> usbProcessIncoming example_cfg quiet_env 0 (Some (packet 0xC0 5 [7, 1, 2, 3, 4])) power_on =
       Some (Returned, power_on\<lparr>trace :=
         [Call ''addDataForDataContext'' [Bs ([1, 2, 3, 4] @ replicate 57 0), B 7],
          answer 0xC0 (PLUGIN_BYTE_ERROR example_cfg)]\<rparr>)"
proof -
  have "cmd (packet 0xC0 5 [7, 1, 2, 3, 4]) = CMD_WRITE_32B_IN_DN example_cfg"
    and "0 \<noteq> USB_CALLER_PIN example_cfg"
    and "CMD_WRITE_32B_IN_DN example_cfg \<noteq> CMD_MOOLTIPASS_STATUS example_cfg"
    and "CMD_WRITE_32B_IN_DN example_cfg \<notin> set (text_field_commands example_cfg)"
    and "distinct (switch_labels example_cfg)" and "USB_FEATURE_PLUGIN_COMMS example_cfg"
    and "memoryManagementModeApproved power_on
         \<or> CMD_WRITE_32B_IN_DN example_cfg < FIRST_CMD_FOR_DATAMGMT example_cfg
         \<or> LAST_CMD_FOR_DATAMGMT example_cfg < CMD_WRITE_32B_IN_DN example_cfg"
    by (simp_all add: packet_def example_values example_text_field_commands example_labels_distinct)
  from write_32b_in_dn [OF this, of quiet_env] show ?thesis
    by (simp add: packet_def example_values power_on_def quiet_env_def)
qed

subsection \<open>C8: the favourites\<close>

text \<open>
  Claim C8 says that a \<^verbatim>\<open>CMD_SET_FAVORITE\<close> or \<^verbatim>\<open>CMD_GET_FAVORITE\<close> packet whose slot byte
  is outside the favourites array is answered with the error byte before \<^verbatim>\<open>setFav\<close> or
  \<^verbatim>\<open>readFav\<close> is called. The dispatcher has no test of the slot: with slot 255, beyond
  the 14 entries of the array, \<^verbatim>\<open>setFav\<close> is called and the answer is \<^verbatim>\<open>PLUGIN_BYTE_OK\<close>.
\<close>

theorem set_favorite_slot_counterexample:
  "cmd (packet 0xC8 5 [0xFF, 0x10, 0, 0x11, 0]) = CMD_SET_FAVORITE example_cfg
   \<and> USER_MAX_FAV example_cfg \<le> unat (body_data (packet 0xC8 5 [0xFF, 0x10, 0, 0x11, 0]) ! 0)
   \<and> usbProcessIncoming example_cfg quiet_env 0 (Some (packet 0xC8 5 [0xFF, 0x10, 0, 0x11, 0]))
        management_mode =
       Some (Returned, management_mode\<lparr>trace :=
         [Call ''setFav'' [B 0xFF, W 0x10, W 0x11], answer 0xC8 (PLUGIN_BYTE_OK example_cfg)]\<rparr>)
   \<and> PLUGIN_BYTE_OK example_cfg \<noteq> PLUGIN_BYTE_ERROR example_cfg"
proof -
  have "0 \<noteq> USB_CALLER_PIN example_cfg"
    and "cmd (packet 0xC8 5 [0xFF, 0x10, 0, 0x11, 0]) \<noteq> CMD_MOOLTIPASS_STATUS example_cfg"
    and "cmd (packet 0xC8 5 [0xFF, 0x10, 0, 0x11, 0]) \<notin> set (text_field_commands example_cfg)"
    and "distinct (switch_labels example_cfg)"
    and "(cmd (packet 0xC8 5 [0xFF, 0x10, 0, 0x11, 0]),
          total (case_CMD_SET_FAVORITE example_cfg (packet 0xC8 5 [0xFF, 0x10, 0, 0x11, 0])))
         \<in> set (switch_table example_cfg quiet_env (packet 0xC8 5 [0xFF, 0x10, 0, 0x11, 0]))"
    and "memoryManagementModeApproved management_mode
         \<or> cmd (packet 0xC8 5 [0xFF, 0x10, 0, 0x11, 0]) < FIRST_CMD_FOR_DATAMGMT example_cfg
         \<or> LAST_CMD_FOR_DATAMGMT example_cfg < cmd (packet 0xC8 5 [0xFF, 0x10, 0, 0x11, 0])"
    using in_table_SET_FAVORITE [of example_cfg "packet 0xC8 5 [0xFF, 0x10, 0, 0x11, 0]" quiet_env]
    by (simp_all add: packet_def example_values example_text_field_commands example_labels_distinct
        management_mode_def)
  from to_case [OF this] show ?thesis
    by (simp add: case_CMD_SET_FAVORITE_def run_def packet_def example_values
        management_mode_def power_on_def u16_at_def)
qed


text \<open>
  Claim C8 as amended. The dispatcher does not look at the slot byte. In approved memory
  management mode, and while the caller is not awaiting the PIN, a \<^verbatim>\<open>CMD_SET_FAVORITE\<close>
  packet of declared length 5 has \<^verbatim>\<open>setFav\<close> called with its slot byte and its two addresses
  and is answered with \<^verbatim>\<open>PLUGIN_BYTE_OK\<close>, and a \<^verbatim>\<open>CMD_GET_FAVORITE\<close> packet of declared
  length 1 has \<^verbatim>\<open>readFav\<close> called with its slot byte and is answered with the four bytes
  read, whatever the slot; a packet of any other declared length is answered with the error
  byte and no call is made.
\<close>

theorem favorite_slot_not_validated:
  assumes "cmd msg = CMD_SET_FAVORITE k \<or> cmd msg = CMD_GET_FAVORITE k"
    and "caller_id \<noteq> USB_CALLER_PIN k"
    and "cmd msg \<noteq> CMD_MOOLTIPASS_STATUS k"
    and "cmd msg \<notin> set (text_field_commands k)"
    and "distinct (switch_labels k)"
    and "memoryManagementModeApproved s"
  shows "(cmd msg = CMD_SET_FAVORITE k \<longrightarrow>
          usbProcessIncoming k e caller_id (Some msg) s =
            Some (Returned,
                  if len msg = 5
                  then s\<lparr>trace := trace s @
                         [Call ''setFav'' [B (body_data msg ! 0), W (u16_at (body_data msg) 1),
                                           W (u16_at (body_data msg) 3)],
                          answer (CMD_SET_FAVORITE k) (PLUGIN_BYTE_OK k)]\<rparr>
                  else s\<lparr>trace := trace s @ [answer (CMD_SET_FAVORITE k) (PLUGIN_BYTE_ERROR k)]\<rparr>))
       \<and> (cmd msg = CMD_GET_FAVORITE k \<longrightarrow>
          usbProcessIncoming k e caller_id (Some msg) s =
            Some (Returned,
                  if len msg = 1
                  then s\<lparr>trace := trace s @
                         [Call ''readFav'' [B (body_data msg ! 0)],
                          Call ''usbSendMessage''
                            [B (CMD_GET_FAVORITE k), I 4,
                             Bs (buf_read (e (trace s) (Call ''readFav'' [B (body_data msg ! 0)])) 4)]]\<rparr>
                  else s\<lparr>trace := trace s @ [answer (CMD_GET_FAVORITE k) (PLUGIN_BYTE_ERROR k)]\<rparr>))"
proof (intro conjI impI)
  assume c: "cmd msg = CMD_SET_FAVORITE k"
  have "usbProcessIncoming k e caller_id (Some msg) s =
         (case case_CMD_SET_FAVORITE k msg s of
            (Break v, s') \<Rightarrow> Some (Returned, s'\<lparr>trace := trace s' @ [answer (cmd msg) v]\<rparr>)
          | (Return, s') \<Rightarrow> Some (Returned, s')
          | (Spin, s') \<Rightarrow> Some (Spinning, s'))"
    using assms(2-6) in_table_SET_FAVORITE [of k msg e] by (intro to_case) (simp_all add: c)
  then show "usbProcessIncoming k e caller_id (Some msg) s =
            Some (Returned,
                  if len msg = 5
                  then s\<lparr>trace := trace s @
                         [Call ''setFav'' [B (body_data msg ! 0), W (u16_at (body_data msg) 1),
                                           W (u16_at (body_data msg) 3)],
                          answer (CMD_SET_FAVORITE k) (PLUGIN_BYTE_OK k)]\<rparr>
                  else s\<lparr>trace := trace s @ [answer (CMD_SET_FAVORITE k) (PLUGIN_BYTE_ERROR k)]\<rparr>)"
    by (simp add: case_CMD_SET_FAVORITE_def run_def c)
next
  assume c: "cmd msg = CMD_GET_FAVORITE k"
  have "usbProcessIncoming k e caller_id (Some msg) s =
         (case case_CMD_GET_FAVORITE k e msg s of
            (Break v, s') \<Rightarrow> Some (Returned, s'\<lparr>trace := trace s' @ [answer (cmd msg) v]\<rparr>)
          | (Return, s') \<Rightarrow> Some (Returned, s')
          | (Spin, s') \<Rightarrow> Some (Spinning, s'))"
    using assms(2-6) in_table_GET_FAVORITE [of k e msg] by (intro to_case) (simp_all add: c)
  then show "usbProcessIncoming k e caller_id (Some msg) s =
            Some (Returned,
                  if len msg = 1
                  then s\<lparr>trace := trace s @
                         [Call ''readFav'' [B (body_data msg ! 0)],
                          Call ''usbSendMessage''
                            [B (CMD_GET_FAVORITE k), I 4,
                             Bs (buf_read (e (trace s) (Call ''readFav'' [B (body_data msg ! 0)])) 4)]]\<rparr>
                  else s\<lparr>trace := trace s @ [answer (CMD_GET_FAVORITE k) (PLUGIN_BYTE_ERROR k)]\<rparr>)"
    by (simp add: case_CMD_GET_FAVORITE_def ext_def run_def usbSendMessage_def c)
qed

theorem favorite_slot_not_validated_witness:
  "usbProcessIncoming example_cfg quiet_env 0 (Some (packet 0xC8 5 [0xFF, 0x10, 0, 0x11, 0]))
       management_mode =
     Some (Returned, management_mode\<lparr>trace := trace management_mode @
             [Call ''setFav'' [B 0xFF, W 0x10, W 0x11],
              answer (CMD_SET_FAVORITE example_cfg) (PLUGIN_BYTE_OK example_cfg)]\<rparr>)
   \<and> usbProcessIncoming example_cfg quiet_env 0 (Some (packet 0xC7 1 [0xFF])) management_mode =
     Some (Returned, management_mode\<lparr>trace := trace management_mode @
             [Call ''readFav'' [B 0xFF],
              Call ''usbSendMessage'' [B (CMD_GET_FAVORITE example_cfg), I 4, Bs (replicate 4 0)]]\<rparr>)"
proof -
  have gates: "0 \<noteq> USB_CALLER_PIN example_cfg" "distinct (switch_labels example_cfg)"
    "memoryManagementModeApproved management_mode"
    by (simp_all add: example_values example_labels_distinct management_mode_def)
  have set_cmd: "cmd (packet 0xC8 5 [0xFF, 0x10, 0, 0x11, 0]) = CMD_SET_FAVORITE example_cfg
        \<or> cmd (packet 0xC8 5 [0xFF, 0x10, 0, 0x11, 0]) = CMD_GET_FAVORITE example_cfg"
    "cmd (packet 0xC8 5 [0xFF, 0x10, 0, 0x11, 0]) \<noteq> CMD_MOOLTIPASS_STATUS example_cfg"
    "cmd (packet 0xC8 5 [0xFF, 0x10, 0, 0x11, 0]) \<notin> set (text_field_commands example_cfg)"
    by (simp_all add: packet_def example_values example_text_field_commands)
  have get_cmd: "cmd (packet 0xC7 1 [0xFF]) = CMD_SET_FAVORITE example_cfg
        \<or> cmd (packet 0xC7 1 [0xFF]) = CMD_GET_FAVORITE example_cfg"
    "cmd (packet 0xC7 1 [0xFF]) \<noteq> CMD_MOOLTIPASS_STATUS example_cfg"
    "cmd (packet 0xC7 1 [0xFF]) \<notin> set (text_field_commands example_cfg)"
    by (simp_all add: packet_def example_values example_text_field_commands)
  show ?thesis
    using favorite_slot_not_validated [OF set_cmd(1) gates(1) set_cmd(2,3) gates(2,3), of quiet_env]
      favorite_slot_not_validated [OF get_cmd(1) gates(1) get_cmd(2,3) gates(2,3), of quiet_env]
    by (simp add: packet_def example_values u16_at_def buf_read_def quiet_env_def)
qed

subsection \<open>C2: the text field check\<close>

lemma tolower_not_upper: "\<not> (0x41 \<le> tolower c \<and> tolower c \<le> 0x5A)"
proof -
  have "0x41 \<le> c \<Longrightarrow> c \<le> 0x5A \<Longrightarrow> 0x5A < c + 0x20"
    by (simp add: word_le_nat_alt word_less_nat_alt unat_word_ariths)
  then show ?thesis
    by (auto simp add: tolower_def)
qed

lemma tolower_nonzero: "c \<noteq> 0 \<Longrightarrow> tolower c \<noteq> 0"
proof -
  have "0x41 \<le> c \<Longrightarrow> c \<le> 0x5A \<Longrightarrow> c + 0x20 \<noteq> 0"
    by (simp add: word_le_nat_alt unat_word_ariths unat_eq_zero [symmetric])
  then show "c \<noteq> 0 \<Longrightarrow> tolower c \<noteq> 0"
    by (auto simp add: tolower_def)
qed

lemma takeWhile_lowerCaseString:
  "takeWhile (\<lambda>b. b \<noteq> 0) (lowerCaseString data) = map tolower (takeWhile (\<lambda>b. b \<noteq> 0) data)"
  by (induction data) (auto simp add: lowerCaseString_def tolower_nonzero)

lemma strlen_lowerCaseString: "strlen (lowerCaseString data) = strlen data"
  by (simp add: strlen_def takeWhile_lowerCaseString)

lemma lowerCaseString_no_capitals:
  "b \<in> set (take (strlen data) (lowerCaseString data)) \<Longrightarrow> \<not> (0x41 \<le> b \<and> b \<le> 0x5A)"
proof -
  have "take (strlen data) (lowerCaseString data) = map tolower (takeWhile (\<lambda>b. b \<noteq> 0) data)"
    by (simp add: strlen_def lowerCaseString_def)
  then show "b \<in> set (take (strlen data) (lowerCaseString data)) \<Longrightarrow> \<not> (0x41 \<le> b \<and> b \<le> 0x5A)"
    using tolower_not_upper by auto
qed

lemma max_text_size_service:
  assumes "c \<in> set (service_name_commands k)"
  shows "max_text_size k c = Some (of_nat (NODE_PARENT_SIZE_OF_SERVICE k))"
  using assms by (auto simp add: service_name_commands_def max_text_size_def)

text \<open>
  Claim C2 says that a text field command whose declared length is zero, exceeds the
  maximum of the field, differs from the length of the string plus one, or exceeds the
  payload of the transport, is rejected with the error byte. With the caller awaiting the
  PIN the status test of line 186 comes first, and a \<^verbatim>\<open>CMD_CONTEXT\<close> packet of declared
  length 0 is answered with the status byte.
\<close>

theorem text_field_pin_counterexample:
  "cmd (packet 0xA3 0 []) \<in> set (text_field_commands example_cfg)
   \<and> len (packet 0xA3 0 []) = 0
   \<and> usbProcessIncoming example_cfg quiet_env (USB_CALLER_PIN example_cfg)
        (Some (packet 0xA3 0 [])) power_on =
       Some (Returned, power_on\<lparr>trace :=
          [Call ''isSmartCardAbsent'' [], Call ''getSmartCardInsertedUnlocked'' [],
           Call ''getCurrentScreen'' [], answer 0xB9 2]\<rparr>)
   \<and> answer 0xB9 2 \<noteq> answer (cmd (packet 0xA3 0 [])) (PLUGIN_BYTE_ERROR example_cfg)"
  by (simp add: status_gate send_status_eq example_values example_text_field_commands packet_def
      power_on_def quiet_env_def answer_def)


text \<open>
  Claim C2 as amended. For every text field command (\<^verbatim>\<open>CMD_CONTEXT\<close>, \<^verbatim>\<open>CMD_ADD_CONTEXT\<close>,
  \<^verbatim>\<open>CMD_SET_DATA_SERVICE\<close>, \<^verbatim>\<open>CMD_ADD_DATA_SERVICE\<close>, \<^verbatim>\<open>CMD_SET_LOGIN\<close>, \<^verbatim>\<open>CMD_SET_PASSWORD\<close>,
  \<^verbatim>\<open>CMD_CHECK_PASSWORD\<close>, \<^verbatim>\<open>CMD_SET_CARD_LOGIN\<close>, \<^verbatim>\<open>CMD_SET_CARD_PASS\<close>) received while the
  caller is not awaiting the PIN, the dispatcher answers with the error byte, and does
  nothing else, unless the declared length is nonzero, does not exceed the maximum of the
  field, equals the length of the string in the payload plus one, and does not exceed
  \<^verbatim>\<open>RAWHID_RX_SIZE - HID_DATA_START\<close>. When the four conditions hold the packet goes on to
  the test of memory management mode and to the switch, with the string of its payload
  lower-cased in place if the maximum is that of a service name, which it is for the four
  service name commands; the lower-cased string holds no letter A to Z.
\<close>

theorem text_field_check:
  assumes "caller_id \<noteq> USB_CALLER_PIN k" and "cmd msg \<noteq> CMD_MOOLTIPASS_STATUS k"
    and "cmd msg \<in> set (text_field_commands k)"
  shows "\<exists>max_len. max_text_size k (cmd msg) = Some max_len
     \<and> (len msg = 0 \<or> max_len < len msg \<or> unat (len msg) \<noteq> strlen (body_data msg) + 1
          \<or> int (RAWHID_RX_SIZE k) - int (HID_DATA_START k) < int (unat (len msg))
        \<longrightarrow> usbProcessIncoming k e caller_id (Some msg) s =
              Some (Returned, s\<lparr>trace := trace s @ [answer (cmd msg) (PLUGIN_BYTE_ERROR k)]\<rparr>))
     \<and> (len msg \<noteq> 0 \<and> len msg \<le> max_len \<and> unat (len msg) = strlen (body_data msg) + 1
          \<and> int (unat (len msg)) \<le> int (RAWHID_RX_SIZE k) - int (HID_DATA_START k)
          \<and> RETURN_OK k \<noteq> RETURN_NOK k
        \<longrightarrow> usbProcessIncoming k e caller_id (Some msg) s =
              process_command k e
                (msg\<lparr>body_data := (if unat max_len = NODE_PARENT_SIZE_OF_SERVICE k
                                    then lowerCaseString (body_data msg) else body_data msg)\<rparr>) s)
     \<and> (cmd msg \<in> set (service_name_commands k) \<and> NODE_PARENT_SIZE_OF_SERVICE k < 256
        \<longrightarrow> unat max_len = NODE_PARENT_SIZE_OF_SERVICE k)
     \<and> (\<forall>b \<in> set (take (strlen (body_data msg)) (lowerCaseString (body_data msg))).
           \<not> (0x41 \<le> b \<and> b \<le> 0x5A))"
proof -
  from assms(3) obtain max_len where m: "max_text_size k (cmd msg) = Some max_len"
    using max_text_size_None [of k "cmd msg"] by auto
  have bad: "usbProcessIncoming k e caller_id (Some msg) s =
              Some (Returned, s\<lparr>trace := trace s @ [answer (cmd msg) (PLUGIN_BYTE_ERROR k)]\<rparr>)"
    if "len msg = 0 \<or> max_len < len msg \<or> unat (len msg) \<noteq> strlen (body_data msg) + 1
          \<or> int (RAWHID_RX_SIZE k) - int (HID_DATA_START k) < int (unat (len msg))"
    using that assms(1,2)
    by (auto simp add: usbProcessIncoming_def m checkTextField_def usbSendMessage_answer)
  have good: "usbProcessIncoming k e caller_id (Some msg) s =
              process_command k e
                (msg\<lparr>body_data := (if unat max_len = NODE_PARENT_SIZE_OF_SERVICE k
                                    then lowerCaseString (body_data msg) else body_data msg)\<rparr>) s"
    if "len msg \<noteq> 0 \<and> len msg \<le> max_len \<and> unat (len msg) = strlen (body_data msg) + 1
          \<and> int (unat (len msg)) \<le> int (RAWHID_RX_SIZE k) - int (HID_DATA_START k)
          \<and> RETURN_OK k \<noteq> RETURN_NOK k"
    using that assms(1,2)
    by (auto simp add: usbProcessIncoming_def m checkTextField_def)
  have service: "unat max_len = NODE_PARENT_SIZE_OF_SERVICE k"
    if "cmd msg \<in> set (service_name_commands k) \<and> NODE_PARENT_SIZE_OF_SERVICE k < 256"
    using that m max_text_size_service [of "cmd msg" k] by (auto simp add: unsigned_of_nat take_bit_nat_eq_self)
  show ?thesis
    using m bad good service lowerCaseString_no_capitals by blast
qed


theorem text_field_check_witness:
  "usbProcessIncoming example_cfg quiet_env 0 (Some (packet 0xA3 0 [])) power_on =
     Some (Returned, power_on\<lparr>trace := trace power_on
             @ [answer (cmd (packet 0xA3 0 [])) (PLUGIN_BYTE_ERROR example_cfg)]\<rparr>)
   \<and> usbProcessIncoming example_cfg quiet_env 0 (Some (packet 0xA3 3 [0x41, 0x62, 0])) power_on =
     process_command example_cfg quiet_env
       ((packet 0xA3 3 [0x41, 0x62, 0])\<lparr>body_data := lowerCaseString (body_data (packet 0xA3 3 [0x41, 0x62, 0]))\<rparr>)
       power_on"
proof -
  have m: "max_text_size example_cfg 0xA3 = Some 121"
    by (simp add: max_text_size_def example_values)
  have gates: "0 \<noteq> USB_CALLER_PIN example_cfg" "0xA3 \<noteq> CMD_MOOLTIPASS_STATUS example_cfg"
    "0xA3 \<in> set (text_field_commands example_cfg)"
    by (simp_all add: example_values example_text_field_commands)
  have sizes: "strlen (body_data (packet 0xA3 3 [0x41, 0x62, 0])) = 2"
    "int (unat (3 :: u8)) \<le> int (RAWHID_RX_SIZE example_cfg) - int (HID_DATA_START example_cfg)"
    "RETURN_OK example_cfg \<noteq> RETURN_NOK example_cfg"
    "unat (121 :: u8) = NODE_PARENT_SIZE_OF_SERVICE example_cfg"
    by (simp_all add: strlen_def packet_def example_values)
  show ?thesis
    using text_field_check [of 0 example_cfg "packet 0xA3 0 []" quiet_env power_on]
      text_field_check [of 0 example_cfg "packet 0xA3 3 [0x41, 0x62, 0]" quiet_env power_on]
      gates sizes
    by (simp add: packet_def m)
qed

subsection \<open>C9: the comparison with a stored password\<close>




lemma read_and_compare_array:
  "mooltipass_password (fst (read_and_compare k e data addr length_arg s))
   = buf_read (e (trace s) (Call ''eeprom_read_block'' [W addr, B length_arg])) (PACKET_EXPORT_SIZE k)"
  by (simp add: read_and_compare_def ext_def Let_def)


subsection \<open>The case of CMD\_WRITE\_FLASH\_NODE\<close>

lemma stamped_payload:
  "take n (drop 3 (data[3 := a, 4 := b])) = (take n (drop 3 data))[0 := a, 1 := b]"
  by (simp add: drop_update_swap take_update_swap)

lemma wfn_too_short:
  "len msg < 3 \<Longrightarrow> case_CMD_WRITE_FLASH_NODE k e msg s = (Break (PLUGIN_BYTE_ERROR k), s)"
  by (simp add: case_CMD_WRITE_FLASH_NODE_def)

lemma wfn_continue_accepted:
  assumes "3 \<le> len msg" and "subindex msg \<noteq> 0" and "target msg = currentNodeWritten s"
    and "currentNodeWritten s \<noteq> NODE_ADDR_NULL k" and "fits k msg"
  shows "case_CMD_WRITE_FLASH_NODE k e msg s =
         (Break (PLUGIN_BYTE_OK k),
          s\<lparr>trace := trace s @ write_event k (currentNodeWritten s) msg (payload_of msg)
                                # flush_events k (currentNodeWritten s) msg\<rparr>)"
proof -
  have "\<not> len msg < 3"
    using assms(1) by simp
  then show ?thesis
    using assms(2-5)
    by (simp add: case_CMD_WRITE_FLASH_NODE_def Let_def subindex_def target_def fits_def chunk_size_def
        write_event_def flush_events_def payload_of_def node_offset_def run_def)
qed

lemma wfn_continue_rejected:
  assumes "subindex msg \<noteq> 0"
    and "target msg \<noteq> currentNodeWritten s \<or> currentNodeWritten s = NODE_ADDR_NULL k \<or> \<not> fits k msg"
  shows "case_CMD_WRITE_FLASH_NODE k e msg s = (Break (PLUGIN_BYTE_ERROR k), s)"
  using assms
  by (auto simp add: case_CMD_WRITE_FLASH_NODE_def Let_def subindex_def target_def fits_def chunk_size_def)

lemma wfn_first_accepted:
  assumes "3 \<le> len msg" and "subindex msg = 0"
    and "r8 (e (trace s) (Call ''checkUserPermission'' [W (target msg)])) = RETURN_OK k"
    and "target msg \<noteq> NODE_ADDR_NULL k" and "fits k msg"
  shows "case_CMD_WRITE_FLASH_NODE k e msg s =
         (Break (PLUGIN_BYTE_OK k),
          s\<lparr>currentNodeWritten := target msg,
            trace := trace s @
              [Call ''checkUserPermission'' [W (target msg)],
               Call ''loadPageToInternalBuffer'' [W (pageNumberFromAddress k (target msg))],
               Call ''getCurrentUserID'' [],
               Call ''userIdToFlags''
                 [W (u16_at (body_data msg) 3),
                  B (r8 (e (trace s @ [Call ''checkUserPermission'' [W (target msg)],
                                      Call ''loadPageToInternalBuffer''
                                        [W (pageNumberFromAddress k (target msg))]])
                          (Call ''getCurrentUserID'' [])))],
               write_event k (target msg) msg
                 (stamp_flags
                    (r16 (e (trace s @ [Call ''checkUserPermission'' [W (target msg)],
                                       Call ''loadPageToInternalBuffer''
                                         [W (pageNumberFromAddress k (target msg))],
                                       Call ''getCurrentUserID'' []])
                            (Call ''userIdToFlags''
                               [W (u16_at (body_data msg) 3),
                                B (r8 (e (trace s @ [Call ''checkUserPermission'' [W (target msg)],
                                                    Call ''loadPageToInternalBuffer''
                                                      [W (pageNumberFromAddress k (target msg))]])
                                        (Call ''getCurrentUserID'' [])))])))
                    (payload_of msg))]
              @ flush_events k (target msg) msg\<rparr>)"
proof -
  have "\<not> len msg < 3"
    using assms(1) by simp
  then show ?thesis
    using assms(2-5)
    by (simp add: case_CMD_WRITE_FLASH_NODE_def Let_def subindex_def target_def fits_def chunk_size_def
        write_event_def flush_events_def payload_of_def node_offset_def run_def ext_def
        stamped_payload stamp_flags_def)
qed

lemma wfn_first_denied_rejected:
  assumes "3 \<le> len msg" and "subindex msg = 0"
    and "r8 (e (trace s) (Call ''checkUserPermission'' [W (target msg)])) \<noteq> RETURN_OK k"
    and "target msg \<noteq> currentNodeWritten s \<or> currentNodeWritten s = NODE_ADDR_NULL k \<or> \<not> fits k msg"
  shows "case_CMD_WRITE_FLASH_NODE k e msg s =
         (Break (PLUGIN_BYTE_ERROR k),
          s\<lparr>trace := trace s @ [Call ''checkUserPermission'' [W (target msg)]]\<rparr>)"
proof -
  have "\<not> len msg < 3"
    using assms(1) by simp
  then show ?thesis
    using assms(2-4)
    by (auto simp add: case_CMD_WRITE_FLASH_NODE_def Let_def subindex_def target_def fits_def
        chunk_size_def run_def ext_def)
qed

lemma wfn_denied_keeps_target:
  assumes "subindex msg = 0"
    and "r8 (e (trace s) (Call ''checkUserPermission'' [W (target msg)])) \<noteq> RETURN_OK k"
  shows "\<exists>v s'. case_CMD_WRITE_FLASH_NODE k e msg s = (Break v, s')
           \<and> currentNodeWritten s' = currentNodeWritten s
           \<and> memoryManagementModeApproved s' = memoryManagementModeApproved s"
  using assms
  by (auto simp add: case_CMD_WRITE_FLASH_NODE_def Let_def subindex_def target_def ext_def
      split: prod.splits)

lemma wfn_dispatch:
  assumes "cmd msg = CMD_WRITE_FLASH_NODE k" and "caller_id \<noteq> USB_CALLER_PIN k"
    and "CMD_WRITE_FLASH_NODE k \<noteq> CMD_MOOLTIPASS_STATUS k"
    and "CMD_WRITE_FLASH_NODE k \<notin> set (text_field_commands k)"
    and "distinct (switch_labels k)" and "memoryManagementModeApproved s"
  shows "usbProcessIncoming k e caller_id (Some msg) s =
         (case case_CMD_WRITE_FLASH_NODE k e msg s of
            (Break v, s') \<Rightarrow> Some (Returned, s'\<lparr>trace := trace s' @ [answer (CMD_WRITE_FLASH_NODE k) v]\<rparr>)
          | (Return, s') \<Rightarrow> Some (Returned, s')
          | (Spin, s') \<Rightarrow> Some (Spinning, s'))"
proof -
  have "usbProcessIncoming k e caller_id (Some msg) s =
         (case case_CMD_WRITE_FLASH_NODE k e msg s of
            (Break v, s') \<Rightarrow> Some (Returned, s'\<lparr>trace := trace s' @ [answer (cmd msg) v]\<rparr>)
          | (Return, s') \<Rightarrow> Some (Returned, s')
          | (Spin, s') \<Rightarrow> Some (Spinning, s'))"
    using assms in_table_WRITE_FLASH_NODE [of k e msg] by (intro to_case) simp_all
  then show ?thesis
    unfolding assms(1) .
qed

subsection \<open>C10: a failed permission check leaves the write target in place\<close>

text \<open>
  Claim C10. When a \<^verbatim>\<open>CMD_WRITE_FLASH_NODE\<close> packet with packet number 0 fails the
  permission check, \<open>currentNodeWritten\<close> keeps its value: it is not reset to
  \<^verbatim>\<open>NODE_ADDR_NULL\<close>. So if it still holds the address of a node from an earlier write
  sequence, a later packet of that sequence (packet number not 0, within the node's size)
  addressed to that node is accepted: its payload is written into the staging buffer at the
  offset of its packet number and it is answered with \<^verbatim>\<open>PLUGIN_BYTE_OK\<close>. The packets are
  taken to reach the case of the switch: memory management mode is approved and the
  caller is not awaiting the PIN.
\<close>

theorem stale_target_accepted:
  assumes "caller_id \<noteq> USB_CALLER_PIN k"
    and "CMD_WRITE_FLASH_NODE k \<noteq> CMD_MOOLTIPASS_STATUS k"
    and "CMD_WRITE_FLASH_NODE k \<notin> set (text_field_commands k)"
    and "distinct (switch_labels k)" and "memoryManagementModeApproved s"
    and "cmd msg1 = CMD_WRITE_FLASH_NODE k" and "3 \<le> len msg1" and "subindex msg1 = 0"
    and "r8 (e (trace s) (Call ''checkUserPermission'' [W (target msg1)])) \<noteq> RETURN_OK k"
    and "currentNodeWritten s \<noteq> NODE_ADDR_NULL k"
    and "cmd msg2 = CMD_WRITE_FLASH_NODE k" and "3 \<le> len msg2" and "subindex msg2 \<noteq> 0"
    and "target msg2 = currentNodeWritten s" and "fits k msg2"
  shows "\<exists>s1. usbProcessIncoming k e caller_id (Some msg1) s = Some (Returned, s1)
          \<and> currentNodeWritten s1 = currentNodeWritten s
          \<and> usbProcessIncoming k e caller_id (Some msg2) s1 =
              Some (Returned,
                    s1\<lparr>trace := trace s1
                         @ write_event k (currentNodeWritten s) msg2 (payload_of msg2)
                           # flush_events k (currentNodeWritten s) msg2
                         @ [answer (CMD_WRITE_FLASH_NODE k) (PLUGIN_BYTE_OK k)]\<rparr>)"
proof -
  obtain v s0 where case1: "case_CMD_WRITE_FLASH_NODE k e msg1 s = (Break v, s0)"
    and cur0: "currentNodeWritten s0 = currentNodeWritten s"
    and appr0: "memoryManagementModeApproved s0 = memoryManagementModeApproved s"
    using wfn_denied_keeps_target [where e = e and s = s and k = k and msg = msg1, OF assms(8,9)]
    by blast
  define s1 where "s1 = s0\<lparr>trace := trace s0 @ [answer (CMD_WRITE_FLASH_NODE k) v]\<rparr>"
  have first: "usbProcessIncoming k e caller_id (Some msg1) s = Some (Returned, s1)"
    using wfn_dispatch [OF assms(6) assms(1-5)] by (simp add: case1 s1_def)
  have cur1: "currentNodeWritten s1 = currentNodeWritten s"
    and appr1: "memoryManagementModeApproved s1"
    using cur0 appr0 assms(5) by (simp_all add: s1_def)
  have "case_CMD_WRITE_FLASH_NODE k e msg2 s1 =
         (Break (PLUGIN_BYTE_OK k),
          s1\<lparr>trace := trace s1 @ write_event k (currentNodeWritten s1) msg2 (payload_of msg2)
                                # flush_events k (currentNodeWritten s1) msg2\<rparr>)"
    using assms(12,13) assms(14,10,15) by (intro wfn_continue_accepted) (simp_all add: cur1)
  then have second: "usbProcessIncoming k e caller_id (Some msg2) s1 =
              Some (Returned,
                    s1\<lparr>trace := trace s1
                         @ write_event k (currentNodeWritten s) msg2 (payload_of msg2)
                           # flush_events k (currentNodeWritten s) msg2
                         @ [answer (CMD_WRITE_FLASH_NODE k) (PLUGIN_BYTE_OK k)]\<rparr>)"
    using wfn_dispatch [OF assms(11) assms(1-4) appr1] by (simp add: cur1)
  show ?thesis
    using first cur1 second by blast
qed

theorem stale_target_accepted_witness:
  "\<exists>s1. usbProcessIncoming example_cfg denying_env 0 (Some (packet 0xC6 5 [0x20, 0, 0, 1, 2])) stale_state
           = Some (Returned, s1)
          \<and> currentNodeWritten s1 = currentNodeWritten stale_state
          \<and> usbProcessIncoming example_cfg denying_env 0 (Some (packet 0xC6 5 [0x10, 0, 1, 7, 8])) s1 =
              Some (Returned,
                    s1\<lparr>trace := trace s1
                         @ write_event example_cfg (currentNodeWritten stale_state)
                             (packet 0xC6 5 [0x10, 0, 1, 7, 8]) (payload_of (packet 0xC6 5 [0x10, 0, 1, 7, 8]))
                           # flush_events example_cfg (currentNodeWritten stale_state)
                               (packet 0xC6 5 [0x10, 0, 1, 7, 8])
                         @ [answer (CMD_WRITE_FLASH_NODE example_cfg) (PLUGIN_BYTE_OK example_cfg)]\<rparr>)"
proof -
  have "0 \<noteq> USB_CALLER_PIN example_cfg"
    and "CMD_WRITE_FLASH_NODE example_cfg \<noteq> CMD_MOOLTIPASS_STATUS example_cfg"
    and "CMD_WRITE_FLASH_NODE example_cfg \<notin> set (text_field_commands example_cfg)"
    and "distinct (switch_labels example_cfg)" and "memoryManagementModeApproved stale_state"
    and "cmd (packet 0xC6 5 [0x20, 0, 0, 1, 2]) = CMD_WRITE_FLASH_NODE example_cfg"
    and "3 \<le> len (packet 0xC6 5 [0x20, 0, 0, 1, 2])"
    and "subindex (packet 0xC6 5 [0x20, 0, 0, 1, 2]) = 0"
    and "r8 (denying_env (trace stale_state)
              (Call ''checkUserPermission'' [W (target (packet 0xC6 5 [0x20, 0, 0, 1, 2]))]))
         \<noteq> RETURN_OK example_cfg"
    and "currentNodeWritten stale_state \<noteq> NODE_ADDR_NULL example_cfg"
    and "cmd (packet 0xC6 5 [0x10, 0, 1, 7, 8]) = CMD_WRITE_FLASH_NODE example_cfg"
    and "3 \<le> len (packet 0xC6 5 [0x10, 0, 1, 7, 8])"
    and "subindex (packet 0xC6 5 [0x10, 0, 1, 7, 8]) \<noteq> 0"
    and "target (packet 0xC6 5 [0x10, 0, 1, 7, 8]) = currentNodeWritten stale_state"
    and "fits example_cfg (packet 0xC6 5 [0x10, 0, 1, 7, 8])"
    by (simp_all add: packet_def example_values example_text_field_commands example_labels_distinct
        stale_state_def management_mode_def power_on_def subindex_def target_def u16_at_def fits_def
        chunk_size_def denying_env_def)
  then show ?thesis
    by (rule stale_target_accepted)
qed

subsection \<open>The staging buffer under a sequence of packets\<close>

lemma length_write_at [simp]: "length (write_at buf off bytes) = length buf"
  by (simp add: write_at_def)

lemma write_at_Nil [simp]: "write_at buf off [] = buf"
  by (simp add: write_at_def)

lemma write_at_write_at:
  assumes "off + length X + length Y \<le> length buf"
  shows "write_at (write_at buf off X) (off + length X) Y = write_at buf off (X @ Y)"
proof -
  have "take (off + length X) (take off buf @ X @ drop (off + length X) buf) = take off buf @ X"
    using assms by simp
  moreover have "drop (off + length X + length Y) (take off buf @ X @ drop (off + length X) buf)
                 = drop (off + length X + length Y) buf"
    using assms by (simp add: ac_simps)
  ultimately show ?thesis
    using assms by (simp add: write_at_def add.assoc)
qed

lemma flash_after_append: "flash_after fl (xs @ ys) = flash_after (flash_after fl xs) ys"
  by (simp add: flash_after_def)

lemma flash_after_packet:
  assumes "unat (subindex msg) = i" and "unat (len msg) = 3 + length bytes" and "0 \<le> chunk_size k"
  shows "buffer (flash_after fl (write_event k addr msg bytes # flush_events k addr msg @ [answer c v]))
         = write_at (buffer fl) (nat (node_offset k addr) + i * nat (chunk_size k)) bytes"
proof -
  have "0 \<le> node_offset k addr"
    by (simp add: node_offset_def)
  then have "nat (node_offset k addr + int i * chunk_size k)
             = nat (node_offset k addr) + i * nat (chunk_size k)"
    using assms(3) by (simp add: nat_add_distrib nat_mult_distrib)
  then show ?thesis
    using assms(1,2)
    by (simp add: flash_after_def write_event_def flush_events_def answer_def)
qed


lemma carries_from_accepted:
  assumes "carries_from k addr i P msgs" and "0 < i" and "0 < chunk_size k"
    and "msgs \<noteq> [] \<Longrightarrow> int i * chunk_size k + int (length P) \<le> int (NODE_SIZE k)"
  shows "\<forall>msg \<in> set msgs. cmd msg = CMD_WRITE_FLASH_NODE k \<and> 3 \<le> len msg \<and> subindex msg \<noteq> 0
            \<and> target msg = addr \<and> fits k msg"
  using assms
proof (induction msgs arbitrary: i P)
  case Nil
  then show ?case by simp
next
  case (Cons msg msgs)
  let ?cn = "nat (chunk_size k)"
  from Cons.prems(1) have head: "cmd msg = CMD_WRITE_FLASH_NODE k" "target msg = addr"
    "unat (subindex msg) = i" "unat (len msg) = 3 + length (take ?cn P)"
    and rest: "carries_from k addr (Suc i) (drop ?cn P) msgs"
    by simp_all
  have bound: "int i * chunk_size k + int (length P) \<le> int (NODE_SIZE k)"
    using Cons.prems(4) by simp
  have "3 \<le> len msg"
    using head(4) by (simp add: word_le_nat_alt)
  moreover have "subindex msg \<noteq> 0"
    using head(3) Cons.prems(2) by auto
  moreover have "fits k msg"
    using head(3,4) bound by (simp add: fits_def)
  moreover have "\<forall>m \<in> set msgs. cmd m = CMD_WRITE_FLASH_NODE k \<and> 3 \<le> len m \<and> subindex m \<noteq> 0
            \<and> target m = addr \<and> fits k m"
  proof (rule Cons.IH [OF rest _ Cons.prems(3)])
    show "0 < Suc i" by simp
    assume "msgs \<noteq> []"
    with rest have "drop ?cn P \<noteq> []"
      by (cases msgs) auto
    then have "?cn < length P" by simp
    then have "int (length (drop ?cn P)) = int (length P) - chunk_size k"
      using Cons.prems(3) by simp
    then show "int (Suc i) * chunk_size k + int (length (drop ?cn P)) \<le> int (NODE_SIZE k)"
      using bound by (simp add: algebra_simps)
  qed
  ultimately show ?case
    using head(1,2) by simp
qed

lemma continuation_run:
  assumes "caller_id \<noteq> USB_CALLER_PIN k"
    and "CMD_WRITE_FLASH_NODE k \<noteq> CMD_MOOLTIPASS_STATUS k"
    and "CMD_WRITE_FLASH_NODE k \<notin> set (text_field_commands k)"
    and "distinct (switch_labels k)" and "memoryManagementModeApproved s"
    and "currentNodeWritten s = addr" and "addr \<noteq> NODE_ADDR_NULL k"
    and "\<forall>msg \<in> set msgs. cmd msg = CMD_WRITE_FLASH_NODE k \<and> 3 \<le> len msg \<and> subindex msg \<noteq> 0
            \<and> target msg = addr \<and> fits k msg"
  shows "process_all k e caller_id msgs s =
         Some (s\<lparr>trace := trace s @ concat (map (accepted_events k addr) msgs)\<rparr>)"
  using assms(5,6,8)
proof (induction msgs arbitrary: s)
  case Nil
  then show ?case by simp
next
  case (Cons msg msgs)
  let ?s' = "s\<lparr>trace := trace s @ accepted_events k addr msg\<rparr>"
  from Cons.prems(3) have m: "cmd msg = CMD_WRITE_FLASH_NODE k" "3 \<le> len msg" "subindex msg \<noteq> 0"
    "target msg = currentNodeWritten s" "fits k msg" "currentNodeWritten s \<noteq> NODE_ADDR_NULL k"
    using Cons.prems(2) assms(7) by simp_all
  have "case_CMD_WRITE_FLASH_NODE k e msg s =
         (Break (PLUGIN_BYTE_OK k),
          s\<lparr>trace := trace s @ write_event k (currentNodeWritten s) msg (payload_of msg)
                                # flush_events k (currentNodeWritten s) msg\<rparr>)"
    using m(2,3,4,6,5) by (rule wfn_continue_accepted)
  then have step: "usbProcessIncoming k e caller_id (Some msg) s = Some (Returned, ?s')"
    using wfn_dispatch [OF m(1) assms(1-4) Cons.prems(1)]
    by (simp add: accepted_events_def Cons.prems(2))
  have "process_all k e caller_id msgs ?s' =
         Some (?s'\<lparr>trace := trace ?s' @ concat (map (accepted_events k addr) msgs)\<rparr>)"
    using Cons.prems by (intro Cons.IH) simp_all
  then show ?case
    using step by simp
qed

lemma continuation_buffer:
  assumes "carries_from k addr i P msgs" and "0 < chunk_size k"
    and "msgs \<noteq> [] \<Longrightarrow>
         nat (node_offset k addr) + i * nat (chunk_size k) + length P \<le> length (buffer fl)"
  shows "buffer (flash_after fl (concat (map (accepted_events k addr) msgs)))
         = write_at (buffer fl) (nat (node_offset k addr) + i * nat (chunk_size k)) P"
  using assms(1,3)
proof (induction msgs arbitrary: i P fl)
  case Nil
  then show ?case by (simp add: flash_after_def)
next
  case (Cons msg msgs)
  let ?cn = "nat (chunk_size k)"
  let ?off = "nat (node_offset k addr) + i * ?cn"
  let ?fl' = "flash_after fl (accepted_events k addr msg)"
  from Cons.prems(1) have head: "unat (subindex msg) = i" "unat (len msg) = 3 + length (take ?cn P)"
    "payload_of msg = take ?cn P"
    and rest: "carries_from k addr (Suc i) (drop ?cn P) msgs"
    by simp_all
  have bound: "?off + length P \<le> length (buffer fl)"
    using Cons.prems(2) by simp
  have buf': "buffer ?fl' = write_at (buffer fl) ?off (take ?cn P)"
    unfolding accepted_events_def head(3)
    using head(1,2) assms(2) by (intro flash_after_packet) simp_all
  have split: "flash_after fl (concat (map (accepted_events k addr) (msg # msgs)))
               = flash_after ?fl' (concat (map (accepted_events k addr) msgs))"
    by (simp add: flash_after_append)
  show ?case
  proof (cases "msgs = []")
    case True
    with rest have "drop ?cn P = []" by simp
    then have "take ?cn P = P" by simp
    with True buf' show ?thesis
      unfolding split by (simp add: flash_after_def)
  next
    case False
    with rest have "drop ?cn P \<noteq> []"
      by (cases msgs) auto
    then have long: "?cn < length P" by simp
    then have len_take: "length (take ?cn P) = ?cn" by simp
    have "buffer (flash_after ?fl' (concat (map (accepted_events k addr) msgs)))
          = write_at (buffer ?fl') (nat (node_offset k addr) + Suc i * ?cn) (drop ?cn P)"
    proof (rule Cons.IH [OF rest])
      show "nat (node_offset k addr) + Suc i * ?cn + length (drop ?cn P) \<le> length (buffer ?fl')"
        using bound long by (simp add: buf')
    qed
    also have "\<dots> = write_at (write_at (buffer fl) ?off (take ?cn P)) (?off + length (take ?cn P))
                        (drop ?cn P)"
      using long by (simp add: buf' min_def ac_simps)
    also have "\<dots> = write_at (buffer fl) ?off (take ?cn P @ drop ?cn P)"
      using bound long by (intro write_at_write_at) simp
    finally show ?thesis
      unfolding split by simp
  qed
qed

lemma stamp_flags_length [simp]: "length (stamp_flags w bytes) = length bytes"
  by (simp add: stamp_flags_def)

lemma stamp_flags_take_drop:
  assumes "2 \<le> n"
  shows "stamp_flags w (take n P) @ drop n P = stamp_flags w P"
proof -
  have "take n (stamp_flags w P) = stamp_flags w (take n P)"
    by (simp add: stamp_flags_def take_update_swap)
  moreover have "drop n (stamp_flags w P) = drop n P"
    using assms by (simp add: stamp_flags_def drop_update_cancel)
  ultimately show ?thesis
    using append_take_drop_id [of n "stamp_flags w P"] by simp
qed

lemma first_packet_run:
  assumes "cmd msg = CMD_WRITE_FLASH_NODE k" and "caller_id \<noteq> USB_CALLER_PIN k"
    and "CMD_WRITE_FLASH_NODE k \<noteq> CMD_MOOLTIPASS_STATUS k"
    and "CMD_WRITE_FLASH_NODE k \<notin> set (text_field_commands k)"
    and "distinct (switch_labels k)" and "memoryManagementModeApproved s"
    and "3 \<le> len msg" and "subindex msg = 0"
    and "r8 (e (trace s) (Call ''checkUserPermission'' [W (target msg)])) = RETURN_OK k"
    and "target msg \<noteq> NODE_ADDR_NULL k" and "fits k msg"
  shows "usbProcessIncoming k e caller_id (Some msg) s =
         Some (Returned, s\<lparr>currentNodeWritten := target msg,
                           trace := trace s @ first_events k e (trace s) msg\<rparr>)"
  using wfn_dispatch [OF assms(1-6)] wfn_first_accepted [where e = e and s = s and k = k and msg = msg, OF assms(7-11)]
  by (simp add: first_events_def owner_flags_def owner_id_def flags_call_def permission_check_def
      page_load_def)

lemma first_packet_buffer:
  assumes "subindex msg = 0" and "unat (len msg) = 3 + length (payload_of msg)"
    and "0 \<le> chunk_size k"
  shows "buffer (flash_after fl (first_events k e tr msg))
         = write_at (pages fl (pageNumberFromAddress k (target msg)))
             (nat (node_offset k (target msg)))
             (stamp_flags (owner_flags k e tr msg) (payload_of msg))"
proof -
  let ?fl = "fl\<lparr>buffer := pages fl (pageNumberFromAddress k (target msg))\<rparr>"
  let ?bytes = "stamp_flags (owner_flags k e tr msg) (payload_of msg)"
  have "flash_after fl (first_events k e tr msg)
        = flash_after ?fl (write_event k (target msg) msg ?bytes # flush_events k (target msg) msg
                           @ [answer (CMD_WRITE_FLASH_NODE k) (PLUGIN_BYTE_OK k)])"
    by (simp add: first_events_def flash_after_def permission_check_def page_load_def
        flags_call_def)
  moreover have "buffer (flash_after ?fl (write_event k (target msg) msg ?bytes
                           # flush_events k (target msg) msg
                           @ [answer (CMD_WRITE_FLASH_NODE k) (PLUGIN_BYTE_OK k)]))
                 = write_at (buffer ?fl) (nat (node_offset k (target msg)) + 0 * nat (chunk_size k)) ?bytes"
    using assms by (intro flash_after_packet) simp_all
  ultimately show ?thesis
    by simp
qed

lemma sequence_run:
  assumes "caller_id \<noteq> USB_CALLER_PIN k"
    and "CMD_WRITE_FLASH_NODE k \<noteq> CMD_MOOLTIPASS_STATUS k"
    and "CMD_WRITE_FLASH_NODE k \<notin> set (text_field_commands k)"
    and "distinct (switch_labels k)" and "memoryManagementModeApproved s"
    and "2 \<le> chunk_size k"
    and "carries_from k addr 0 P (msg # msgs)" and "length P \<le> NODE_SIZE k"
    and "addr \<noteq> NODE_ADDR_NULL k"
    and "r8 (e (trace s) (Call ''checkUserPermission'' [W addr])) = RETURN_OK k"
  shows "process_all k e caller_id (msg # msgs) s =
         Some (s\<lparr>currentNodeWritten := addr,
                 trace := trace s @ first_events k e (trace s) msg
                          @ concat (map (accepted_events k addr) msgs)\<rparr>)"
proof -
  let ?cn = "nat (chunk_size k)"
  let ?s1 = "s\<lparr>currentNodeWritten := addr, trace := trace s @ first_events k e (trace s) msg\<rparr>"
  from assms(7) have head: "cmd msg = CMD_WRITE_FLASH_NODE k" "target msg = addr"
    "unat (subindex msg) = 0" "unat (len msg) = 3 + length (take ?cn P)"
    and rest: "carries_from k addr (Suc 0) (drop ?cn P) msgs"
    by simp_all
  have sub0: "subindex msg = 0"
    using head(3) by (simp add: unat_eq_0)
  have len3: "3 \<le> len msg"
    using head(4) by (simp add: word_le_nat_alt)
  have fit: "fits k msg"
    using head(3,4) assms(8) by (simp add: fits_def)
  have first: "usbProcessIncoming k e caller_id (Some msg) s = Some (Returned, ?s1)"
    using first_packet_run [OF head(1) assms(1-5) len3 sub0, of e] assms(9,10) fit
    by (simp add: head(2))
  have cond: "\<forall>m \<in> set msgs. cmd m = CMD_WRITE_FLASH_NODE k \<and> 3 \<le> len m \<and> subindex m \<noteq> 0
            \<and> target m = addr \<and> fits k m"
  proof (rule carries_from_accepted [OF rest])
    show "0 < Suc 0" by simp
    show "0 < chunk_size k" using assms(6) by simp
    assume "msgs \<noteq> []"
    with rest have "drop ?cn P \<noteq> []"
      by (cases msgs) auto
    then have "?cn < length P" by simp
    then have "int (length (drop ?cn P)) = int (length P) - chunk_size k"
      using assms(6) by simp
    then show "int (Suc 0) * chunk_size k + int (length (drop ?cn P)) \<le> int (NODE_SIZE k)"
      using assms(8) by simp
  qed
  have "process_all k e caller_id msgs ?s1 =
         Some (?s1\<lparr>trace := trace ?s1 @ concat (map (accepted_events k addr) msgs)\<rparr>)"
    using assms(1-4) _ _ assms(9) cond by (rule continuation_run) (simp_all add: assms(5))
  then show ?thesis
    using first by simp
qed

lemma sequence_buffer:
  assumes "2 \<le> chunk_size k"
    and "carries_from k addr 0 P (msg # msgs)"
    and "nat (node_offset k addr) + length P \<le> length (pages fl (pageNumberFromAddress k addr))"
  shows "buffer (flash_after fl (first_events k e tr msg @ concat (map (accepted_events k addr) msgs)))
         = write_at (pages fl (pageNumberFromAddress k addr)) (nat (node_offset k addr))
             (stamp_flags (owner_flags k e tr msg) P)"
proof -
  let ?cn = "nat (chunk_size k)"
  let ?off = "nat (node_offset k addr)"
  let ?page = "pages fl (pageNumberFromAddress k addr)"
  let ?w = "owner_flags k e tr msg"
  let ?fl1 = "flash_after fl (first_events k e tr msg)"
  from assms(2) have head: "target msg = addr"
    "unat (subindex msg) = 0" "unat (len msg) = 3 + length (take ?cn P)"
    "payload_of msg = take ?cn P"
    and rest: "carries_from k addr (Suc 0) (drop ?cn P) msgs"
    by simp_all
  have sub0: "subindex msg = 0"
    using head(2) by (simp add: unat_eq_0)
  have buf1: "buffer ?fl1 = write_at ?page ?off (stamp_flags ?w (take ?cn P))"
    using first_packet_buffer [OF sub0, of k fl e tr] head(1,3,4) assms(1) by simp
  have len1: "length (buffer ?fl1) = length ?page"
    by (simp add: buf1)
  show ?thesis
  proof (cases "msgs = []")
    case True
    with rest have "drop ?cn P = []" by simp
    then have "take ?cn P = P" by simp
    with True buf1 show ?thesis
      by (simp add: flash_after_def)
  next
    case False
    with rest have "drop ?cn P \<noteq> []"
      by (cases msgs) auto
    then have long: "?cn < length P" by simp
    have "buffer (flash_after ?fl1 (concat (map (accepted_events k addr) msgs)))
          = write_at (buffer ?fl1) (?off + Suc 0 * ?cn) (drop ?cn P)"
    proof (rule continuation_buffer [OF rest])
      show "0 < chunk_size k" using assms(1) by simp
      show "?off + Suc 0 * ?cn + length (drop ?cn P) \<le> length (buffer ?fl1)"
        using assms(3) long by (simp add: len1)
    qed
    also have "\<dots> = write_at (write_at ?page ?off (stamp_flags ?w (take ?cn P)))
                        (?off + length (stamp_flags ?w (take ?cn P))) (drop ?cn P)"
      using long by (simp add: buf1 min_def)
    also have "\<dots> = write_at ?page ?off (stamp_flags ?w (take ?cn P) @ drop ?cn P)"
      using assms(3) long by (intro write_at_write_at) simp
    also have "\<dots> = write_at ?page ?off (stamp_flags ?w P)"
      using assms(1) by (simp add: stamp_flags_take_drop)
    finally show ?thesis
      by (simp add: flash_after_append)
  qed
qed

lemma rejected_run:
  assumes "cmd q = CMD_WRITE_FLASH_NODE k" and "caller_id \<noteq> USB_CALLER_PIN k"
    and "CMD_WRITE_FLASH_NODE k \<noteq> CMD_MOOLTIPASS_STATUS k"
    and "CMD_WRITE_FLASH_NODE k \<notin> set (text_field_commands k)"
    and "distinct (switch_labels k)" and "memoryManagementModeApproved s"
    and "len q < 3 \<or> subindex q \<noteq> 0 \<and> (target q \<noteq> currentNodeWritten s \<or> \<not> fits k q)"
  shows "usbProcessIncoming k e caller_id (Some q) s =
         Some (Returned, s\<lparr>trace := trace s @ [answer (CMD_WRITE_FLASH_NODE k) (PLUGIN_BYTE_ERROR k)]\<rparr>)"
proof -
  have "case_CMD_WRITE_FLASH_NODE k e q s = (Break (PLUGIN_BYTE_ERROR k), s)"
    using assms(7) wfn_too_short [of q k e s] wfn_continue_rejected [of q s k e] by blast
  then show ?thesis
    using wfn_dispatch [OF assms(1-6)] by simp
qed

lemma wfn_first_oversize:
  assumes "3 \<le> len msg" and "subindex msg = 0"
    and "r8 (e (trace s) (Call ''checkUserPermission'' [W (target msg)])) = RETURN_OK k"
    and "\<not> fits k msg"
  shows "case_CMD_WRITE_FLASH_NODE k e msg s =
         (Break (PLUGIN_BYTE_ERROR k),
          s\<lparr>currentNodeWritten := target msg,
            trace := trace s @ [permission_check msg, page_load k msg]\<rparr>)"
proof -
  have "\<not> len msg < 3"
    using assms(1) by simp
  then show ?thesis
    using assms(2-4)
    by (simp add: case_CMD_WRITE_FLASH_NODE_def Let_def subindex_def target_def fits_def
        chunk_size_def run_def ext_def permission_check_def page_load_def)
qed

subsection \<open>C4: writing a node in several packets\<close>

text \<open>The premises of the statements below on the example: the node at \<^verbatim>\<open>0x0011\<close> written
  in three packets, the node at \<^verbatim>\<open>0x0010\<close> written in one, and a packet with packet number 1
  for another node.\<close>

lemma example_sequence_facts:
  "0 \<noteq> USB_CALLER_PIN example_cfg"
  "CMD_WRITE_FLASH_NODE example_cfg \<noteq> CMD_MOOLTIPASS_STATUS example_cfg"
  "memoryManagementModeApproved management_mode"
  "2 \<le> chunk_size example_cfg"
  "carries_from example_cfg 0x0011 0 example_payload (example_first # example_rest)"
  "length example_payload \<le> NODE_SIZE example_cfg"
  "0x0011 \<noteq> NODE_ADDR_NULL example_cfg"
  "r8 (stamping_env (trace management_mode) (Call ''checkUserPermission'' [W 0x0011]))
   = RETURN_OK example_cfg"
  "nat (node_offset example_cfg 0x0011) + length example_payload
   \<le> length (pages blank_flash (pageNumberFromAddress example_cfg 0x0011))"
  by code_simp+


lemma example_text_gate:
  "CMD_WRITE_FLASH_NODE example_cfg \<notin> set (text_field_commands example_cfg)"
  by (simp add: example_values example_text_field_commands)

lemma example_sequence_buffer:
  "write_at (pages blank_flash (pageNumberFromAddress example_cfg 0x0011))
     (nat (node_offset example_cfg 0x0011))
     (stamp_flags (owner_flags example_cfg stamping_env (trace management_mode) example_first)
        example_payload)
   = replicate 132 0xFF @ [0x05, 0x00] @ replicate 57 0x41 @ replicate 59 0x42 @ replicate 14 0x43"
  by code_simp

lemma example_stray_packet:
  "cmd (packet 0xC6 5 [0x12, 0, 1, 7, 8]) = CMD_WRITE_FLASH_NODE example_cfg
   \<and> (len (packet 0xC6 5 [0x12, 0, 1, 7, 8]) < 3
      \<or> subindex (packet 0xC6 5 [0x12, 0, 1, 7, 8]) \<noteq> 0
        \<and> (target (packet 0xC6 5 [0x12, 0, 1, 7, 8]) \<noteq> 0x0011
           \<or> \<not> fits example_cfg (packet 0xC6 5 [0x12, 0, 1, 7, 8])))"
  by code_simp

lemma stamp_example_facts:
  "carries_from example_cfg 0x0010 0 [0xAA, 0xBB, 1, 2] [packet 0xC6 7 [0x10, 0, 0, 0xAA, 0xBB, 1, 2]]"
  "length [0xAA, 0xBB, 1, 2 :: u8] \<le> NODE_SIZE example_cfg"
  "0x0010 \<noteq> NODE_ADDR_NULL example_cfg"
  "r8 (stamping_env (trace management_mode) (Call ''checkUserPermission'' [W 0x0010]))
   = RETURN_OK example_cfg"
  "nat (node_offset example_cfg 0x0010) + length [0xAA, 0xBB, 1, 2 :: u8]
   \<le> length (pages blank_flash (pageNumberFromAddress example_cfg 0x0010))"
  "trace management_mode = []"
  by code_simp+

lemma stamp_example_buffer:
  "write_at (pages blank_flash (pageNumberFromAddress example_cfg 0x0010))
     (nat (node_offset example_cfg 0x0010))
     (stamp_flags (owner_flags example_cfg stamping_env []
                     (packet 0xC6 7 [0x10, 0, 0, 0xAA, 0xBB, 1, 2])) [0xAA, 0xBB, 1, 2])
   = [0x05, 0x00, 1, 2] @ replicate 260 0xFF"
  by code_simp

lemma direct_write_example:
  "buffer (flash_after blank_flash
             [Call ''loadPageToInternalBuffer'' [W 2],
              Call ''flashWriteBuffer'' [Bs [0xAA, 0xBB, 1, 2], I 0, I 4]])
   = [0xAA, 0xBB, 1, 2] @ replicate 260 0xFF"
  by code_simp

text \<open>
  Claim C4 says that a node written by the packets 0 to k in order has, in the staging
  buffer, the bytes that a single direct write of the same payload leaves there. The case
  replaces the first two bytes of the payload of packet 0 by the flags that
  \<^verbatim>\<open>userIdToFlags\<close> leaves (line 803) before it writes them: with a payload that starts
  \<^verbatim>\<open>AA BB\<close> and flags \<^verbatim>\<open>0x0005\<close> the buffer starts \<^verbatim>\<open>05 00\<close>, where the direct write of the
  payload leaves \<^verbatim>\<open>AA BB\<close>.
\<close>

theorem write_flash_node_stamp_counterexample:
  "\<exists>s'. process_all example_cfg stamping_env 0 [packet 0xC6 7 [0x10, 0, 0, 0xAA, 0xBB, 1, 2]]
           management_mode = Some s'
     \<and> buffer (flash_after blank_flash (trace s')) = [0x05, 0x00, 1, 2] @ replicate 260 0xFF
     \<and> buffer (flash_after blank_flash
                 [Call ''loadPageToInternalBuffer'' [W 2],
                  Call ''flashWriteBuffer'' [Bs [0xAA, 0xBB, 1, 2], I 0, I 4]])
         = [0xAA, 0xBB, 1, 2] @ replicate 260 0xFF"
proof -
  let ?msg = "packet 0xC6 7 [0x10, 0, 0, 0xAA, 0xBB, 1, 2]"
  let ?s' = "management_mode\<lparr>currentNodeWritten := 0x0010,
               trace := trace management_mode
                        @ first_events example_cfg stamping_env (trace management_mode) ?msg
                        @ concat (map (accepted_events example_cfg 0x0010) [])\<rparr>"
  have run: "process_all example_cfg stamping_env 0 [?msg] management_mode = Some ?s'"
    using example_sequence_facts(1,2) example_text_gate example_labels_distinct
      example_sequence_facts(3,4) stamp_example_facts(1-4)
    by (rule sequence_run)
  have "buffer (flash_after blank_flash
                  (first_events example_cfg stamping_env [] ?msg
                   @ concat (map (accepted_events example_cfg 0x0010) [])))
        = write_at (pages blank_flash (pageNumberFromAddress example_cfg 0x0010))
            (nat (node_offset example_cfg 0x0010))
            (stamp_flags (owner_flags example_cfg stamping_env [] ?msg) [0xAA, 0xBB, 1, 2])"
    using example_sequence_facts(4) stamp_example_facts(1,5) by (rule sequence_buffer)
  then have "buffer (flash_after blank_flash (trace ?s')) = [0x05, 0x00, 1, 2] @ replicate 260 0xFF"
    unfolding stamp_example_buffer by (simp add: stamp_example_facts(6))
  then show ?thesis
    using run direct_write_example by blast
qed

text \<open>
  Claim C4 as amended. Let the packets \<open>msg # msgs\<close> carry the payload \<open>P\<close> of at most
  \<^verbatim>\<open>NODE_SIZE\<close> bytes for the node at \<open>addr\<close>, in order from packet number 0, received in
  approved memory management mode while the caller is not awaiting the PIN, and let the
  permission check pass for \<open>addr\<close>. Then every packet is processed and accepted: packet 0
  makes \<open>addr\<close> the node being written and loads the node's page into the staging buffer;
  each packet writes its payload at the node's offset plus its packet number times
  \<^verbatim>\<open>PACKET_EXPORT_SIZE - 3\<close>; and afterwards the staging buffer is the node's page with \<open>P\<close>
  written at the node's offset in one piece, the first two bytes of \<open>P\<close> replaced by the flags
  that \<^verbatim>\<open>userIdToFlags\<close> left. A packet that comes next and is shorter than 3 bytes, or has a
  packet number other than 0 and another address or an extent past the end of the node, is
  answered with \<^verbatim>\<open>PLUGIN_BYTE_ERROR\<close> and nothing else happens: no call that touches the
  buffer, no change of the node being written. The command identifier is taken to be a
  case label of its own, a full packet to hold at least two payload bytes, and the node to
  lie within its page.
\<close>

theorem write_flash_node_sequence:
  assumes "caller_id \<noteq> USB_CALLER_PIN k"
    and "CMD_WRITE_FLASH_NODE k \<noteq> CMD_MOOLTIPASS_STATUS k"
    and "CMD_WRITE_FLASH_NODE k \<notin> set (text_field_commands k)"
    and "distinct (switch_labels k)" and "memoryManagementModeApproved s"
    and "2 \<le> chunk_size k"
    and "carries_from k addr 0 P (msg # msgs)" and "length P \<le> NODE_SIZE k"
    and "addr \<noteq> NODE_ADDR_NULL k"
    and "r8 (e (trace s) (Call ''checkUserPermission'' [W addr])) = RETURN_OK k"
    and "nat (node_offset k addr) + length P \<le> length (pages fl (pageNumberFromAddress k addr))"
  shows "\<exists>s'. process_all k e caller_id (msg # msgs) s = Some s'
          \<and> currentNodeWritten s' = addr
          \<and> trace s' = trace s @ first_events k e (trace s) msg
                        @ concat (map (accepted_events k addr) msgs)
          \<and> buffer (flash_after fl (drop (length (trace s)) (trace s')))
              = write_at (pages fl (pageNumberFromAddress k addr)) (nat (node_offset k addr))
                  (stamp_flags (owner_flags k e (trace s) msg) P)
          \<and> (\<forall>q. cmd q = CMD_WRITE_FLASH_NODE k
                   \<and> (len q < 3 \<or> subindex q \<noteq> 0 \<and> (target q \<noteq> addr \<or> \<not> fits k q))
                \<longrightarrow> usbProcessIncoming k e caller_id (Some q) s' =
                      Some (Returned,
                            s'\<lparr>trace := trace s'
                                 @ [answer (CMD_WRITE_FLASH_NODE k) (PLUGIN_BYTE_ERROR k)]\<rparr>))"
proof -
  define s' where "s' = s\<lparr>currentNodeWritten := addr,
                          trace := trace s @ first_events k e (trace s) msg
                                   @ concat (map (accepted_events k addr) msgs)\<rparr>"
  have run: "process_all k e caller_id (msg # msgs) s = Some s'"
    unfolding s'_def using assms(1-10) by (rule sequence_run)
  have cur: "currentNodeWritten s' = addr" and appr: "memoryManagementModeApproved s'"
    and tr: "trace s' = trace s @ first_events k e (trace s) msg
                        @ concat (map (accepted_events k addr) msgs)"
    using assms(5) by (simp_all add: s'_def)
  have "buffer (flash_after fl (first_events k e (trace s) msg
                                @ concat (map (accepted_events k addr) msgs)))
        = write_at (pages fl (pageNumberFromAddress k addr)) (nat (node_offset k addr))
            (stamp_flags (owner_flags k e (trace s) msg) P)"
    using assms(6,7,11) by (rule sequence_buffer)
  then have buf: "buffer (flash_after fl (drop (length (trace s)) (trace s')))
        = write_at (pages fl (pageNumberFromAddress k addr)) (nat (node_offset k addr))
            (stamp_flags (owner_flags k e (trace s) msg) P)"
    by (simp add: tr)
  have rej: "usbProcessIncoming k e caller_id (Some q) s' =
             Some (Returned,
                   s'\<lparr>trace := trace s' @ [answer (CMD_WRITE_FLASH_NODE k) (PLUGIN_BYTE_ERROR k)]\<rparr>)"
    if "cmd q = CMD_WRITE_FLASH_NODE k"
      and "len q < 3 \<or> subindex q \<noteq> 0 \<and> (target q \<noteq> addr \<or> \<not> fits k q)" for q
    using that(1) assms(1-4) appr that(2) unfolding cur [symmetric] by (rule rejected_run)
  show ?thesis
    using run cur tr buf rej by blast
qed

theorem write_flash_node_sequence_witness:
  "\<exists>s'. process_all example_cfg stamping_env 0 (example_first # example_rest) management_mode = Some s'
     \<and> currentNodeWritten s' = 0x0011
     \<and> trace s' = trace management_mode
                   @ first_events example_cfg stamping_env (trace management_mode) example_first
                   @ concat (map (accepted_events example_cfg 0x0011) example_rest)
     \<and> buffer (flash_after blank_flash (drop (length (trace management_mode)) (trace s')))
         = replicate 132 0xFF @ [0x05, 0x00] @ replicate 57 0x41 @ replicate 59 0x42
           @ replicate 14 0x43
     \<and> usbProcessIncoming example_cfg stamping_env 0 (Some (packet 0xC6 5 [0x12, 0, 1, 7, 8])) s' =
           Some (Returned,
                 s'\<lparr>trace := trace s' @ [answer (CMD_WRITE_FLASH_NODE example_cfg)
                                           (PLUGIN_BYTE_ERROR example_cfg)]\<rparr>)"
proof -
  obtain s' where run: "process_all example_cfg stamping_env 0 (example_first # example_rest)
                          management_mode = Some s'"
    and cur: "currentNodeWritten s' = 0x0011"
    and tr: "trace s' = trace management_mode
                   @ first_events example_cfg stamping_env (trace management_mode) example_first
                   @ concat (map (accepted_events example_cfg 0x0011) example_rest)"
    and buf: "buffer (flash_after blank_flash (drop (length (trace management_mode)) (trace s')))
         = write_at (pages blank_flash (pageNumberFromAddress example_cfg 0x0011))
             (nat (node_offset example_cfg 0x0011))
             (stamp_flags (owner_flags example_cfg stamping_env (trace management_mode) example_first)
                example_payload)"
    and rej: "\<forall>q. cmd q = CMD_WRITE_FLASH_NODE example_cfg
                   \<and> (len q < 3 \<or> subindex q \<noteq> 0 \<and> (target q \<noteq> 0x0011 \<or> \<not> fits example_cfg q))
                \<longrightarrow> usbProcessIncoming example_cfg stamping_env 0 (Some q) s' =
                      Some (Returned,
                            s'\<lparr>trace := trace s'
                                 @ [answer (CMD_WRITE_FLASH_NODE example_cfg)
                                      (PLUGIN_BYTE_ERROR example_cfg)]\<rparr>)"
    using write_flash_node_sequence [where fl = blank_flash and e = stamping_env
        and s = management_mode and k = example_cfg,
        OF example_sequence_facts(1,2) example_text_gate example_labels_distinct
           example_sequence_facts(3-9)]
    by blast
  have "usbProcessIncoming example_cfg stamping_env 0 (Some (packet 0xC6 5 [0x12, 0, 1, 7, 8])) s' =
           Some (Returned,
                 s'\<lparr>trace := trace s' @ [answer (CMD_WRITE_FLASH_NODE example_cfg)
                                           (PLUGIN_BYTE_ERROR example_cfg)]\<rparr>)"
    using rej example_stray_packet by blast
  then show ?thesis
    using run cur tr buf unfolding example_sequence_buffer by blast
qed

end
